(* ===== verification/Prelude.thy ===== *)
theory Prelude
  imports Main "HOL-Library.Multiset"
begin

text \<open>
  Shared vocabulary of the MoveisPlus development: the names of the model's basic
  types, the collections of rewrite rules the component theories extend, and generic
  facts on association lists and sums over lists that the store and the handlers use.
\<close>

section \<open>Basic types\<close>

text \<open>
  Row identifiers are natural numbers (Prisma autoincrement ids and the string ids of
  the other tables are both opaque keys; only equality and freshness matter).
  Quantities and stock levels are integers: Prisma's \<open>Int\<close> columns, which the
  \<open>decrement\<close> and \<open>increment\<close> updates may drive below zero. Money amounts are
  integers too, in the smallest currency unit, so that totals are exact.
\<close>

type_synonym ident = nat
type_synonym qty = int
type_synonym money = int

section \<open>Rule collections\<close>

named_theorems store_simps "equations that evaluate the entity-store operations"
named_theorems wf_intros "well-formedness facts about store operations"

section \<open>Association lists\<close>

text \<open>
  A table keeps its rows as an association list from identifiers to rows. Most proofs
  need the keys after a row-wise map, a filter or an append.
\<close>

abbreviation keys_of :: "('k \<times> 'v) list \<Rightarrow> 'k list" where
  "keys_of xs \<equiv> map fst xs"

definition map_vals_at :: "'k \<Rightarrow> ('v \<Rightarrow> 'v) \<Rightarrow> ('k \<times> 'v) list \<Rightarrow> ('k \<times> 'v) list" where
  "map_vals_at k f xs = map (\<lambda>(k', v). if k' = k then (k', f v) else (k', v)) xs"

lemma keys_of_map_vals_at [simp]: "keys_of (map_vals_at k f xs) = keys_of xs"
  by (induction xs) (auto simp: map_vals_at_def)

lemma map_vals_at_Nil [simp]: "map_vals_at k f [] = []"
  by (simp add: map_vals_at_def)

lemma map_vals_at_Cons [simp]:
  "map_vals_at k f ((k', v) # xs) =
     (if k' = k then (k', f v) else (k', v)) # map_vals_at k f xs"
  by (simp add: map_vals_at_def)

lemma image_fst_map_vals_at [simp]: "fst ` set (map_vals_at k f xs) = fst ` set xs"
  by (simp only: set_map [symmetric] keys_of_map_vals_at)

lemma in_map_vals_at:
  "(j, r') \<in> set (map_vals_at k f xs) \<Longrightarrow> \<exists>r. (j, r) \<in> set xs \<and> (r' = r \<or> r' = f r)"
  unfolding map_vals_at_def by (auto split: if_splits prod.splits)

lemma map_of_map_vals_at:
  "map_of (map_vals_at k f xs) = (map_of xs)(k := map_option f (map_of xs k))"
  by (induction xs) (auto simp: fun_eq_iff)

lemma map_vals_at_absent:
  "k \<notin> set (keys_of xs) \<Longrightarrow> map_vals_at k f xs = xs"
  by (induction xs) auto

lemma keys_map_pair: "map fst (map (\<lambda>(k, r). (k, f k r)) xs) = map fst xs"
  by (induction xs) auto

lemma distinct_keys_filter [intro]:
  "distinct (keys_of xs) \<Longrightarrow> distinct (keys_of (filter P xs))"
  by (induction xs) auto

lemma map_of_filter_key:
  "distinct (keys_of xs) \<Longrightarrow>
   map_of (filter (\<lambda>(k', v). k' \<noteq> k) xs) = (map_of xs)(k := None)"
  by (induction xs) (auto simp: fun_eq_iff)

lemma map_of_Some_in_keys:
  "map_of xs k = Some v \<Longrightarrow> k \<in> set (keys_of xs)"
  by (induction xs) (auto split: if_splits)

lemma in_keys_map_of:
  "k \<in> set (keys_of xs) \<longleftrightarrow> map_of xs k \<noteq> None"
  by (induction xs) auto

section \<open>Sums over lists\<close>

text \<open>
  \<open>Array.prototype.reduce\<close> with an accumulator that starts at 0 and adds a term
  per element is a left fold; over a commutative monoid it is \<open>sum_list\<close> of the mapped
  list.
\<close>

lemma foldl_add_sum_list:
  "foldl (\<lambda>acc x. acc + f x) (a::'a::comm_monoid_add) xs = a + sum_list (map f xs)"
proof (induction xs arbitrary: a)
  case Nil
  then show ?case by simp
next
  case (Cons x xs)
  then show ?case by (simp add: add.assoc)
qed

lemma sum_list_mset_image:
  "sum_list (map (f :: 'a \<Rightarrow> 'b::comm_monoid_add) xs) = sum_mset (image_mset f (mset xs))"
  by (induction xs) auto

lemma sum_list_perm_invariant:
  assumes "mset xs = mset ys"
  shows "sum_list (map (f :: 'a \<Rightarrow> 'b::comm_monoid_add) xs) = sum_list (map f ys)"
proof -
  have "sum_list (map f xs) = sum_mset (image_mset f (mset xs))"
    by (rule sum_list_mset_image)
  also have "\<dots> = sum_mset (image_mset f (mset ys))"
    using assms by (simp only:)
  also have "\<dots> = sum_list (map f ys)"
    by (rule sum_list_mset_image [symmetric])
  finally show ?thesis .
qed

end
