(* ===== verification/Store.thy ===== *)
theory Store
  imports Prelude
begin

text \<open>
  The entity store: one table per Prisma model, as the route handlers under
  \<open>src/src/app/api\<close> see it through \<open>prisma.<model>.findMany/findUnique/create/
  update/delete/deleteMany\<close>. The ORM and the database are not part of the
  repository; the operations follow the spec (section 2, ``Entity Store'') and Prisma's
  documented behaviour: \<open>create\<close> allocates a fresh id, \<open>update\<close> and
  \<open>delete\<close> throw when no row has the id, \<open>deleteMany\<close> never throws,
  \<open>findMany\<close> returns every row. A table is an association list from ids to rows
  plus the next id to allocate; its abstraction is the partial map \<open>map_of\<close>.
\<close>

section \<open>Tables\<close>

datatype store_error =
    RecordNotFound
  | ForeignKeyViolation
  | InvalidValue

record 'v table =
  rows :: "(ident \<times> 'v) list"
  next_id :: ident

definition empty_table :: "'v table" where
  "empty_table = \<lparr>rows = [], next_id = 0\<rparr>"

text \<open>Well-formedness: ids are unique and all below the allocation counter.\<close>

definition wf_table :: "'v table \<Rightarrow> bool" where
  "wf_table t \<longleftrightarrow> distinct (keys_of (rows t)) \<and> list_all (\<lambda>k. k < next_id t) (keys_of (rows t))"

definition lookup :: "'v table \<Rightarrow> ident \<rightharpoonup> 'v" where
  "lookup t = map_of (rows t)"

definition has_id :: "'v table \<Rightarrow> ident \<Rightarrow> bool" where
  "has_id t k \<longleftrightarrow> k \<in> set (keys_of (rows t))"

section \<open>Operations\<close>

text \<open>\<open>prisma.m.findUnique({where: {id}})\<close>: the row or \<open>null\<close>.\<close>

definition find_unique :: "'v table \<Rightarrow> ident \<Rightarrow> 'v option" where
  "find_unique t k = map_of (rows t) k"

text \<open>\<open>prisma.m.findMany()\<close>, in insertion order, and with \<open>orderBy\<close> a key ascending.\<close>

definition find_many :: "'v table \<Rightarrow> (ident \<times> 'v) list" where
  "find_many t = rows t"

definition find_many_ordered :: "('v \<Rightarrow> 'o::linorder) \<Rightarrow> 'v table \<Rightarrow> (ident \<times> 'v) list" where
  "find_many_ordered key t = sort_key (\<lambda>(_, v). key v) (rows t)"

text \<open>\<open>prisma.m.create({data})\<close>: the new id and the table with the row appended.\<close>

definition create :: "'v \<Rightarrow> 'v table \<Rightarrow> ident \<times> 'v table" where
  "create v t = (next_id t, t\<lparr>rows := rows t @ [(next_id t, v)], next_id := Suc (next_id t)\<rparr>)"

text \<open>\<open>prisma.m.update({where: {id}, data})\<close>: throws \<open>RecordNotFound\<close> (P2025).\<close>

definition update :: "ident \<Rightarrow> ('v \<Rightarrow> 'v) \<Rightarrow> 'v table \<Rightarrow> store_error + 'v table" where
  "update k f t =
     (if has_id t k then Inr (t\<lparr>rows := map_vals_at k f (rows t)\<rparr>) else Inl RecordNotFound)"

text \<open>\<open>prisma.m.delete({where: {id}})\<close>: throws \<open>RecordNotFound\<close> when absent.\<close>

definition delete :: "ident \<Rightarrow> 'v table \<Rightarrow> store_error + 'v table" where
  "delete k t =
     (if has_id t k then Inr (t\<lparr>rows := filter (\<lambda>(k', _). k' \<noteq> k) (rows t)\<rparr>)
      else Inl RecordNotFound)"

text \<open>\<open>prisma.m.deleteMany({where})\<close>: removes every row the filter selects.\<close>

definition delete_many :: "(ident \<Rightarrow> 'v \<Rightarrow> bool) \<Rightarrow> 'v table \<Rightarrow> 'v table" where
  "delete_many P t = t\<lparr>rows := filter (\<lambda>(k, v). \<not> P k v) (rows t)\<rparr>"

text \<open>Rows selected by a predicate (a \<open>where\<close> on a foreign key, or an \<open>include\<close>).\<close>

definition select :: "('v \<Rightarrow> bool) \<Rightarrow> 'v table \<Rightarrow> (ident \<times> 'v) list" where
  "select P t = filter (\<lambda>(_, v). P v) (rows t)"

text \<open>A nested \<open>create\<close> of several child rows, in list order.\<close>

fun create_all :: "'v list \<Rightarrow> 'v table \<Rightarrow> 'v table" where
  "create_all [] t = t"
| "create_all (v # vs) t = create_all vs (snd (create v t))"

declare find_unique_def [store_simps] find_many_def [store_simps] create_def [store_simps]
  update_def [store_simps] delete_def [store_simps] delete_many_def [store_simps]
  select_def [store_simps] has_id_def [store_simps] lookup_def [store_simps]

lemma update_InrD:
  "update k f t = Inr t' \<Longrightarrow> has_id t k \<and> t' = t\<lparr>rows := map_vals_at k f (rows t)\<rparr>"
  by (simp add: update_def split: if_splits)

lemma delete_InrD:
  "delete k t = Inr t' \<Longrightarrow> has_id t k \<and> t' = t\<lparr>rows := filter (\<lambda>(k', _). k' \<noteq> k) (rows t)\<rparr>"
  by (simp add: delete_def split: if_splits)

section \<open>Well-formedness is preserved\<close>

lemma wf_empty_table [wf_intros]: "wf_table empty_table"
  by (simp add: wf_table_def empty_table_def)

lemma wf_create [wf_intros]: "wf_table t \<Longrightarrow> wf_table (snd (create v t))"
  by (auto simp: wf_table_def create_def list_all_iff)

lemma wf_update [wf_intros]: "wf_table t \<Longrightarrow> update k f t = Inr t' \<Longrightarrow> wf_table t'"
  by (auto simp: wf_table_def update_def split: if_splits)

lemma wf_delete [wf_intros]: "wf_table t \<Longrightarrow> delete k t = Inr t' \<Longrightarrow> wf_table t'"
  by (force simp: wf_table_def delete_def list_all_iff split: if_splits)

lemma wf_create_all [wf_intros]: "wf_table t \<Longrightarrow> wf_table (create_all vs t)"
  by (induction vs arbitrary: t) (simp_all add: wf_create)

lemma rows_create_all:
  "rows (create_all vs t) = rows t @ zip [next_id t..<next_id t + length vs] vs"
proof (induction vs arbitrary: t)
  case Nil
  then show ?case by simp
next
  case (Cons v vs)
  then show ?case by (simp add: create_def upt_conv_Cons del: upt_Suc)
qed

lemma next_id_create_all: "next_id (create_all vs t) = next_id t + length vs"
  by (induction vs arbitrary: t) (simp_all add: create_def)

lemma select_create_all:
  "list_all P vs \<Longrightarrow> map snd (select P (create_all vs t)) = map snd (select P t) @ vs"
proof (induction vs arbitrary: t)
  case Nil
  then show ?case by simp
next
  case (Cons v vs)
  then show ?case by (simp add: select_def create_def)
qed

lemma has_id_lt_next: "wf_table t \<Longrightarrow> has_id t k \<Longrightarrow> k < next_id t"
  by (auto simp: wf_table_def has_id_def list_all_iff)

lemma wf_delete_many [wf_intros]: "wf_table t \<Longrightarrow> wf_table (delete_many P t)"
  by (auto simp: wf_table_def delete_many_def list_all_iff)

lemma wf_filter_rows: "wf_table t \<Longrightarrow> wf_table (t\<lparr>rows := filter P (rows t)\<rparr>)"
  by (auto simp: wf_table_def list_all_iff)

lemma create_all_rows_update:
  "(create_all vs t)\<lparr>rows := xs\<rparr> = t\<lparr>rows := xs, next_id := next_id t + length vs\<rparr>"
  by (induction vs arbitrary: t) (simp_all add: create_def)

lemma filter_below_next:
  "wf_table t \<Longrightarrow> filter (\<lambda>(k', _). k' \<noteq> next_id t) (rows t) = rows t"
  by (force simp: wf_table_def list_all_iff intro!: filter_True)

section \<open>Refinement of a partial map\<close>

text \<open>
  Each operation on a well-formed table acts on its abstraction \<open>lookup\<close> as the
  corresponding map operation: a fresh key is bound, one key is rebound or unbound,
  nothing else changes.
\<close>

lemma fst_create [simp]: "fst (create v t) = next_id t"
  by (simp add: create_def)

lemma create_fresh: "wf_table t \<Longrightarrow> lookup t (next_id t) = None"
  by (auto simp: wf_table_def lookup_def list_all_iff map_of_eq_None_iff)

lemma lookup_create:
  "wf_table t \<Longrightarrow> lookup (snd (create v t)) = (lookup t)(fst (create v t) \<mapsto> v)"
proof -
  assume wf: "wf_table t"
  then have "map_of (rows t) (next_id t) = None"
    using create_fresh by (simp add: lookup_def)
  then show ?thesis
    by (auto simp: lookup_def create_def fun_eq_iff map_add_def split: option.splits)
qed

lemma lookup_update:
  "update k f t = Inr t' \<Longrightarrow> lookup t' = (lookup t)(k := map_option f (lookup t k))"
  by (auto simp: update_def lookup_def map_of_map_vals_at split: if_splits)

lemma update_iff: "(\<exists>t'. update k f t = Inr t') \<longleftrightarrow> lookup t k \<noteq> None"
  by (auto simp: update_def has_id_def lookup_def map_of_eq_None_iff)

lemma lookup_delete:
  "wf_table t \<Longrightarrow> delete k t = Inr t' \<Longrightarrow> lookup t' = (lookup t)(k := None)"
  by (auto simp: delete_def lookup_def wf_table_def map_of_filter_key split: if_splits)

lemma delete_iff: "(\<exists>t'. delete k t = Inr t') \<longleftrightarrow> lookup t k \<noteq> None"
  by (auto simp: delete_def has_id_def lookup_def map_of_eq_None_iff)

lemma next_id_update: "update k f t = Inr t' \<Longrightarrow> next_id t' = next_id t"
  by (auto simp: update_def split: if_splits)

lemma next_id_delete: "delete k t = Inr t' \<Longrightarrow> next_id t' = next_id t"
  by (auto simp: delete_def split: if_splits)

lemma has_id_lookup: "has_id t k \<longleftrightarrow> lookup t k \<noteq> None"
  by (auto simp: has_id_def lookup_def map_of_eq_None_iff)

lemma find_unique_lookup [simp]: "find_unique t k = lookup t k"
  by (simp add: find_unique_def lookup_def)

end
