(* ===== verification/Entities.thy ===== *)
theory Entities
  imports Store
begin

text \<open>
  The data model: one record per Prisma model the route handlers read and write
  (the field names follow the payloads built in \<open>src/src/app/api/*/route.ts\<close>),
  the database as a record of tables, the responses a handler returns through
  \<open>NextResponse\<close>, and the referential-integrity invariant of the database.
  Floating-point columns (prices, commissions, goals) are exact integers in the
  smallest currency unit; dates are integer timestamps.
\<close>

section \<open>Rows\<close>

record cliente =
  cl_nome :: string
  cl_email :: "string option"
  cl_telefone :: string
  cl_cpf :: "string option"
  cl_cnpj :: "string option"
  cl_endereco :: "string option"
  cl_cidade :: "string option"
  cl_estado :: "string option"
  cl_cep :: "string option"

record material =
  mt_name :: string
  mt_type :: string
  mt_description :: "string option"
  mt_quantity :: qty
  mt_unit :: string
  mt_price :: money
  mt_minStock :: qty

record produto =
  pr_nome :: string
  pr_categoria :: string
  pr_preco :: money
  pr_estoque :: qty
  pr_fornecedor :: string

record vendedor =
  vd_nome :: string
  vd_email :: string
  vd_telefone :: string
  vd_comissao :: money
  vd_metaMensal :: money
  vd_status :: string

record venda =
  v_clienteId :: ident
  v_vendedorId :: ident
  v_total :: money
  v_status :: string
  v_data :: int

record venda_item =
  vi_vendaId :: ident
  vi_produtoId :: ident
  vi_quantidade :: qty
  vi_precoUnit :: money

record orcamento =
  o_numero :: string
  o_data :: int
  o_status :: string
  o_observacoes :: "string option"
  o_clienteId :: ident

record orcamento_item =
  oi_orcamentoId :: ident
  oi_descricao :: string
  oi_quantidade :: qty
  oi_valorUnitario :: money

record orcamento_material =
  om_itemId :: ident
  om_materialId :: ident
  om_quantidade :: qty

section \<open>The database\<close>

text \<open>
  The schema file is not part of the sources, so the referential action of the
  required relations (Prisma's \<open>onDelete\<close>) is a parameter of the database:
  \<open>Restrict\<close> (Prisma's default for a required relation) or \<open>Cascade\<close>.
\<close>

datatype ref_action = Restrict | Cascade

record db =
  on_delete :: ref_action
  clientes :: "cliente table"
  materials :: "material table"
  produtos :: "produto table"
  vendedores :: "vendedor table"
  vendas :: "venda table"
  venda_items :: "venda_item table"
  orcamentos :: "orcamento table"
  orcamento_items :: "orcamento_item table"
  orcamento_materiais :: "orcamento_material table"

definition empty_db :: "ref_action \<Rightarrow> db" where
  "empty_db a =
     \<lparr>on_delete = a, clientes = empty_table, materials = empty_table, produtos = empty_table,
      vendedores = empty_table, vendas = empty_table, venda_items = empty_table,
      orcamentos = empty_table, orcamento_items = empty_table,
      orcamento_materiais = empty_table\<rparr>"

section \<open>Responses\<close>

text \<open>
  \<open>NextResponse.json(x)\<close> (status 200), \<open>NextResponse.json({success: true})\<close>,
  \<open>new NextResponse(null, {status: 204})\<close> and
  \<open>NextResponse.json({error: msg}, {status})\<close>.
\<close>

datatype 'a resp =
    Json 'a
  | JsonSuccess
  | NoContent
  | ErrorJson nat string

fun status :: "'a resp \<Rightarrow> nat" where
  "status (Json _) = 200"
| "status JsonSuccess = 200"
| "status NoContent = 204"
| "status (ErrorJson s _) = s"

section \<open>Referential integrity\<close>

text \<open>
  Every table is well formed and every foreign key names an existing row. Written
  with \<open>list_all\<close> so that it evaluates on a concrete database.
\<close>

definition refs_ok :: "('v \<Rightarrow> ident) \<Rightarrow> 'v table \<Rightarrow> 'w table \<Rightarrow> bool" where
  "refs_ok fk child parent \<longleftrightarrow> list_all (\<lambda>(_, r). has_id parent (fk r)) (rows child)"

definition db_ok :: "db \<Rightarrow> bool" where
  "db_ok d \<longleftrightarrow>
     wf_table (clientes d) \<and> wf_table (materials d) \<and> wf_table (produtos d) \<and>
     wf_table (vendedores d) \<and> wf_table (vendas d) \<and> wf_table (venda_items d) \<and>
     wf_table (orcamentos d) \<and> wf_table (orcamento_items d) \<and>
     wf_table (orcamento_materiais d) \<and>
     refs_ok v_clienteId (vendas d) (clientes d) \<and>
     refs_ok v_vendedorId (vendas d) (vendedores d) \<and>
     refs_ok vi_vendaId (venda_items d) (vendas d) \<and>
     refs_ok vi_produtoId (venda_items d) (produtos d) \<and>
     refs_ok o_clienteId (orcamentos d) (clientes d) \<and>
     refs_ok oi_orcamentoId (orcamento_items d) (orcamentos d) \<and>
     refs_ok om_itemId (orcamento_materiais d) (orcamento_items d) \<and>
     refs_ok om_materialId (orcamento_materiais d) (materials d)"

lemma db_ok_empty: "db_ok (empty_db a)"
  by (simp add: db_ok_def empty_db_def refs_ok_def wf_table_def empty_table_def)

subsection \<open>Facts on foreign keys\<close>

lemma has_id_create_new: "has_id (snd (create v t)) (fst (create v t))"
  by (simp add: has_id_def create_def)

lemma has_id_create_mono: "has_id t k \<Longrightarrow> has_id (snd (create v t)) k"
  by (simp add: has_id_def create_def)

lemma has_id_update: "update k f t = Inr t' \<Longrightarrow> has_id t' j = has_id t j"
  by (drule update_InrD) (simp add: has_id_def)

lemma refs_ok_parent_update:
  "update k f p = Inr p' \<Longrightarrow> refs_ok fk c p' = refs_ok fk c p"
  by (simp add: refs_ok_def has_id_update)

lemma refs_ok_parent_create:
  "refs_ok fk c p \<Longrightarrow> refs_ok fk c (snd (create v p))"
  by (auto simp: refs_ok_def list_all_iff has_id_create_mono)

lemma refs_ok_child_create:
  "refs_ok fk c p \<Longrightarrow> has_id p (fk v) \<Longrightarrow> refs_ok fk (snd (create v c)) p"
  by (simp add: refs_ok_def create_def)

lemma refs_ok_child_filter:
  "refs_ok fk c p \<Longrightarrow> refs_ok fk (c\<lparr>rows := filter P (rows c)\<rparr>) p"
  by (auto simp: refs_ok_def list_all_iff)

lemma refs_ok_child_update:
  "refs_ok fk c p \<Longrightarrow> (\<And>r. fk (f r) = fk r) \<Longrightarrow> update k f c = Inr c' \<Longrightarrow> refs_ok fk c' p"
  unfolding refs_ok_def update_def list_all_iff
  by (fastforce split: if_splits dest: in_map_vals_at)

lemma has_id_ext: "(\<And>k. has_id t' k = has_id t k) \<Longrightarrow> refs_ok fk c t' = refs_ok fk c t"
  by (simp add: refs_ok_def)

lemma db_ok_produtos:
  assumes "db_ok d" "wf_table t" "\<And>k. has_id t k = has_id (produtos d) k"
  shows "db_ok (d\<lparr>produtos := t\<rparr>)"
  using assms(1,2) by (simp add: db_ok_def has_id_ext [OF assms(3)])

lemma refs_ok_child_create_all:
  "refs_ok fk c p \<Longrightarrow> list_all (\<lambda>v. has_id p (fk v)) vs \<Longrightarrow> refs_ok fk (create_all vs c) p"
  by (induction vs arbitrary: c) (simp_all add: refs_ok_child_create)

lemma refs_ok_parent_delete:
  "refs_ok fk c p \<Longrightarrow>
   refs_ok fk (c\<lparr>rows := filter (\<lambda>(_, r). \<not> fk r = k) (rows c)\<rparr>)
     (p\<lparr>rows := filter (\<lambda>(k', _). k' \<noteq> k) (rows p)\<rparr>)"
  by (force simp: refs_ok_def list_all_iff has_id_def)

end
