(* ===== verification/Vendas.thy ===== *)
theory Vendas
  imports Entities
begin

text \<open>
  Sales and their stock reconciliation: the handlers of
  \<open>src/src/app/api/vendas/route.ts\<close> (\<open>GET\<close>, \<open>POST\<close>) and
  \<open>src/src/app/api/vendas/[id]/route.ts\<close> (\<open>GET\<close>, \<open>PUT\<close>, \<open>DELETE\<close>).
  Each handler is a function from the database to a response and the new database;
  the awaited ORM calls are composed in the order the handler issues them, so that an
  exception thrown half-way leaves the effects of the calls before it in place.
\<close>

section \<open>Request payloads\<close>

text \<open>
  The JSON body of \<open>POST /api/vendas\<close>. The handler coerces the ids and the quantity
  with \<open>parseInt\<close> and the price with \<open>parseFloat\<close>; on the integer values of the
  model both coercions are the identity.
\<close>

record venda_item_in =
  vii_produtoId :: ident
  vii_quantidade :: qty
  vii_precoUnit :: money

record venda_in =
  vin_clienteId :: ident
  vin_vendedorId :: ident
  vin_status :: string
  vin_items :: "venda_item_in list"

section \<open>Creating a sale\<close>

text \<open>\<open>data.items.reduce((acc, item) => acc + item.quantidade * item.precoUnit, 0)\<close>\<close>

definition venda_total :: "venda_item_in list \<Rightarrow> money" where
  "venda_total items = foldl (\<lambda>acc item. acc + vii_quantidade item * vii_precoUnit item) 0 items"

text \<open>The rows the nested \<open>prisma.venda.create\<close> writes; \<open>data\<close> defaults to now.\<close>

definition venda_row :: "venda_in \<Rightarrow> money \<Rightarrow> int \<Rightarrow> venda" where
  "venda_row v tot now =
     \<lparr>v_clienteId = vin_clienteId v, v_vendedorId = vin_vendedorId v, v_total = tot,
      v_status = vin_status v, v_data = now\<rparr>"

definition item_row :: "ident \<Rightarrow> venda_item_in \<Rightarrow> venda_item" where
  "item_row k item =
     \<lparr>vi_vendaId = k, vi_produtoId = vii_produtoId item, vi_quantidade = vii_quantidade item,
      vi_precoUnit = vii_precoUnit item\<rparr>"

text \<open>
  The nested create is one statement: it fails with a foreign-key violation, writing
  nothing, unless the client, the seller and every product exist.
\<close>

definition venda_refs_exist :: "db \<Rightarrow> venda_in \<Rightarrow> bool" where
  "venda_refs_exist d v \<longleftrightarrow>
     has_id (clientes d) (vin_clienteId v) \<and> has_id (vendedores d) (vin_vendedorId v) \<and>
     list_all (\<lambda>item. has_id (produtos d) (vii_produtoId item)) (vin_items v)"

definition create_venda :: "venda_in \<Rightarrow> money \<Rightarrow> int \<Rightarrow> db \<Rightarrow> store_error + ident \<times> db" where
  "create_venda v tot now d =
     (if venda_refs_exist d v then
        (let (k, vs) = create (venda_row v tot now) (vendas d)
         in Inr (k, d\<lparr>vendas := vs,
                     venda_items := create_all (map (item_row k) (vin_items v)) (venda_items d)\<rparr>))
      else Inl ForeignKeyViolation)"

section \<open>Stock updates\<close>

text \<open>\<open>estoque: {decrement: q}\<close> and \<open>estoque: {increment: q}\<close>.\<close>

definition add_estoque :: "qty \<Rightarrow> produto \<Rightarrow> produto" where
  "add_estoque q r = r\<lparr>pr_estoque := pr_estoque r + q\<rparr>"

text \<open>
  \<open>Promise.all(items.map(item => prisma.produto.update(...)))\<close>: every update is
  issued; each one whose product exists commits, each one whose product is missing
  rejects. The flag says whether all of them succeeded (whether \<open>Promise.all\<close>
  resolved). The updates touch different rows or commute, so running them in list
  order stands for every interleaving (lemma \<open>apply_stock_deltas_perm\<close>).
\<close>

fun apply_stock_deltas :: "(ident \<times> qty) list \<Rightarrow> produto table \<Rightarrow> produto table \<times> bool" where
  "apply_stock_deltas [] t = (t, True)"
| "apply_stock_deltas ((p, q) # ds) t =
     (case update p (add_estoque q) t of
        Inl _ \<Rightarrow> (fst (apply_stock_deltas ds t), False)
      | Inr t' \<Rightarrow> apply_stock_deltas ds t')"

definition delta_sum :: "ident \<Rightarrow> (ident \<times> qty) list \<Rightarrow> qty" where
  "delta_sum k ds = sum_list (map snd (filter (\<lambda>(p, _). p = k) ds))"

definition sale_deltas :: "venda_item_in list \<Rightarrow> (ident \<times> qty) list" where
  "sale_deltas items = map (\<lambda>item. (vii_produtoId item, - vii_quantidade item)) items"

definition restore_deltas :: "venda_item list \<Rightarrow> (ident \<times> qty) list" where
  "restore_deltas items = map (\<lambda>i. (vi_produtoId i, vi_quantidade i)) items"

section \<open>The handlers\<close>

text \<open>\<open>POST /api/vendas\<close>: total, nested create, then the stock decrements.\<close>

definition venda_post :: "int \<Rightarrow> venda_in \<Rightarrow> db \<Rightarrow> (ident \<times> venda) resp \<times> db" where
  "venda_post now v d =
     (let tot = venda_total (vin_items v) in
      case create_venda v tot now d of
        Inl _ \<Rightarrow> (ErrorJson 500 ''Error creating venda'', d)
      | Inr (k, d1) \<Rightarrow>
          (let (ps, ok) = apply_stock_deltas (sale_deltas (vin_items v)) (produtos d1)
           in (if ok then Json (k, venda_row v tot now)
               else ErrorJson 500 ''Error creating venda'', d1\<lparr>produtos := ps\<rparr>)))"

text \<open>The line items of a sale (\<open>include: {items: true}\<close>).\<close>

definition venda_items_of :: "ident \<Rightarrow> db \<Rightarrow> venda_item list" where
  "venda_items_of k d = map snd (select (\<lambda>i. vi_vendaId i = k) (venda_items d))"

text \<open>
  \<open>prisma.venda.delete\<close>: under \<open>Restrict\<close> it fails while line items refer to the
  sale; under \<open>Cascade\<close> it removes them with it.
\<close>

definition delete_venda_row :: "ident \<Rightarrow> db \<Rightarrow> store_error + db" where
  "delete_venda_row k d =
     (case delete k (vendas d) of
        Inl e \<Rightarrow> Inl e
      | Inr vs \<Rightarrow>
          (if on_delete d = Restrict \<and> venda_items_of k d \<noteq> [] then Inl ForeignKeyViolation
           else Inr (d\<lparr>vendas := vs,
                       venda_items := delete_many (\<lambda>_ i. vi_vendaId i = k) (venda_items d)\<rparr>)))"

text \<open>\<open>DELETE /api/vendas/[id]\<close>: look the sale up, give the stock back, delete it.\<close>

definition venda_delete :: "ident \<Rightarrow> db \<Rightarrow> unit resp \<times> db" where
  "venda_delete k d =
     (case find_unique (vendas d) k of
        None \<Rightarrow> (ErrorJson 404 ''Venda not found'', d)
      | Some _ \<Rightarrow>
          (let (ps, ok) = apply_stock_deltas (restore_deltas (venda_items_of k d)) (produtos d);
               d1 = d\<lparr>produtos := ps\<rparr>
           in if \<not> ok then (ErrorJson 500 ''Error deleting venda'', d1)
              else (case delete_venda_row k d1 of
                      Inl _ \<Rightarrow> (ErrorJson 500 ''Error deleting venda'', d1)
                    | Inr d2 \<Rightarrow> (JsonSuccess, d2))))"

text \<open>\<open>PUT /api/vendas/[id]\<close>: only the status is written.\<close>

definition venda_put :: "ident \<Rightarrow> string \<Rightarrow> db \<Rightarrow> (ident \<times> venda) resp \<times> db" where
  "venda_put k st d =
     (case update k (\<lambda>v. v\<lparr>v_status := st\<rparr>) (vendas d) of
        Inl _ \<Rightarrow> (ErrorJson 500 ''Error updating venda'', d)
      | Inr vs \<Rightarrow>
          (case lookup vs k of
             Some v \<Rightarrow> (Json (k, v), d\<lparr>vendas := vs\<rparr>)
           | None \<Rightarrow> (ErrorJson 500 ''Error updating venda'', d)))"

text \<open>\<open>GET /api/vendas/[id]\<close>, with the line items included.\<close>

definition venda_get :: "ident \<Rightarrow> db \<Rightarrow> (ident \<times> venda \<times> venda_item list) resp" where
  "venda_get k d =
     (case find_unique (vendas d) k of
        None \<Rightarrow> ErrorJson 404 ''Venda not found''
      | Some v \<Rightarrow> Json (k, v, venda_items_of k d))"

text \<open>\<open>GET /api/vendas\<close>: every sale, newest first (\<open>orderBy: {data: 'desc'}\<close>).\<close>

definition vendas_list :: "db \<Rightarrow> (ident \<times> venda) list resp" where
  "vendas_list d = Json (find_many_ordered (\<lambda>v. - v_data v) (vendas d))"


section \<open>Lemmas on stock updates\<close>

lemma add_estoque_add [simp]: "add_estoque a (add_estoque b r) = add_estoque (b + a) r"
  by (simp add: add_estoque_def)

lemma add_estoque_0 [simp]: "add_estoque 0 r = r"
  by (simp add: add_estoque_def)

lemma pr_estoque_add_estoque [simp]: "pr_estoque (add_estoque q r) = pr_estoque r + q"
  by (simp add: add_estoque_def)

lemma delta_sum_Nil [simp]: "delta_sum k [] = 0"
  by (simp add: delta_sum_def)

lemma delta_sum_Cons [simp]:
  "delta_sum k ((p, q) # ds) = (if p = k then q else 0) + delta_sum k ds"
  by (simp add: delta_sum_def)

lemma delta_sum_append: "delta_sum k (ds @ es) = delta_sum k ds + delta_sum k es"
  by (simp add: delta_sum_def)

lemma apply_stock_deltas_Cons:
  "apply_stock_deltas ((p, q) # ds) t =
     (if has_id t p then apply_stock_deltas ds (t\<lparr>rows := map_vals_at p (add_estoque q) (rows t)\<rparr>)
      else (fst (apply_stock_deltas ds t), False))"
  by (cases "has_id t p") (simp_all only: apply_stock_deltas.simps update_def if_True if_False sum.case)

declare apply_stock_deltas.simps(2) [simp del]

lemma map_add_estoque_map_vals_at:
  "map (\<lambda>(k, r). (k, add_estoque (D k) r)) (map_vals_at p (add_estoque q) xs) =
   map (\<lambda>(k, r). (k, add_estoque ((if p = k then q else 0) + D k) r)) xs"
  by (induction xs) auto

text \<open>
  The effect of the whole batch: every existing product's stock moves by the sum of
  the deltas addressed to it, whatever happened to the other updates.
\<close>

lemma apply_stock_deltas_rows:
  "fst (apply_stock_deltas ds t) =
     t\<lparr>rows := map (\<lambda>(k, r). (k, add_estoque (delta_sum k ds) r)) (rows t)\<rparr>"
proof (induction ds arbitrary: t)
  case Nil
  show ?case by simp
next
  case (Cons d ds)
  obtain p q where d: "d = (p, q)" by fastforce
  show ?case
  proof (cases "has_id t p")
    case True
    then show ?thesis
      using Cons.IH by (simp add: d apply_stock_deltas_Cons map_add_estoque_map_vals_at)
  next
    case False
    then have "\<forall>(k, r) \<in> set (rows t). k \<noteq> p"
      by (force simp: has_id_def)
    then have "map (\<lambda>(k, r). (k, add_estoque (delta_sum k ds) r)) (rows t) =
               map (\<lambda>(k, r). (k, add_estoque (delta_sum k ((p, q) # ds)) r)) (rows t)"
      by (force intro!: map_cong)
    with False show ?thesis
      using Cons.IH by (simp add: d apply_stock_deltas_Cons)
  qed
qed

lemma apply_stock_deltas_ok:
  "snd (apply_stock_deltas ds t) = list_all (\<lambda>(p, _). has_id t p) ds"
proof (induction ds arbitrary: t)
  case Nil
  then show ?case by simp
next
  case (Cons d ds)
  obtain p q where d: "d = (p, q)" by fastforce
  have keys: "has_id (t\<lparr>rows := map_vals_at p (add_estoque q) (rows t)\<rparr>) = has_id t"
    by (simp add: has_id_def fun_eq_iff)
  show ?case
    using Cons.IH by (simp add: d apply_stock_deltas_Cons keys)
qed

lemma lookup_apply_stock_deltas:
  "lookup (fst (apply_stock_deltas ds t)) k = map_option (add_estoque (delta_sum k ds)) (lookup t k)"
proof -
  have "map_of (map (\<lambda>(k, r). (k, add_estoque (delta_sum k ds) r)) xs) k =
        map_option (add_estoque (delta_sum k ds)) (map_of xs k)" for xs :: "(ident \<times> produto) list"
    by (induction xs) auto
  then show ?thesis by (simp add: apply_stock_deltas_rows lookup_def)
qed

text \<open>Any interleaving of the concurrent updates gives the same product table.\<close>

lemma delta_sum_perm:
  assumes "mset ds = mset es"
  shows "delta_sum k ds = delta_sum k es"
proof -
  have "mset (filter (\<lambda>(p, _). p = k) ds) = mset (filter (\<lambda>(p, _). p = k) es)"
    using assms by simp
  then show ?thesis
    unfolding delta_sum_def by (rule sum_list_perm_invariant)
qed

lemma apply_stock_deltas_perm:
  "mset ds = mset es \<Longrightarrow> apply_stock_deltas ds t = apply_stock_deltas es t"
proof -
  assume perm: "mset ds = mset es"
  then have "delta_sum k ds = delta_sum k es" for k by (rule delta_sum_perm)
  then have "fst (apply_stock_deltas ds t) = fst (apply_stock_deltas es t)"
    by (simp add: apply_stock_deltas_rows)
  moreover have "set_mset (mset ds) = set_mset (mset es)" using perm by simp
  then have "set ds = set es" by simp
  then have "snd (apply_stock_deltas ds t) = snd (apply_stock_deltas es t)"
    by (simp add: apply_stock_deltas_ok list_all_iff)
  ultimately show ?thesis by (simp add: prod_eq_iff)
qed

section \<open>Example data\<close>

text \<open>
  A small database in the shape of the seed data of the pages (\<open>clientesIniciais\<close>,
  \<open>vendedoresIniciais\<close>, \<open>produtosIniciais\<close>): one client, one seller and one
  product with five units in stock.
\<close>

definition demo_cliente :: cliente where
  "demo_cliente =
     \<lparr>cl_nome = ''Joao Silva'', cl_email = Some ''joao@email.com'', cl_telefone = ''(11) 99999-9999'',
      cl_cpf = Some ''12345678900'', cl_cnpj = None, cl_endereco = Some ''Rua A, 123'',
      cl_cidade = None, cl_estado = None, cl_cep = None\<rparr>"

definition demo_vendedor :: vendedor where
  "demo_vendedor =
     \<lparr>vd_nome = ''Carlos Oliveira'', vd_email = ''carlos@moveisplus.com'',
      vd_telefone = ''(11) 97777-7777'', vd_comissao = 5, vd_metaMensal = 5000000,
      vd_status = ''Ativo''\<rparr>"

definition demo_produto :: produto where
  "demo_produto =
     \<lparr>pr_nome = ''Guarda-roupa 6 Portas'', pr_categoria = ''Dormitorio'', pr_preco = 249990,
      pr_estoque = 5, pr_fornecedor = ''Moveis Silva''\<rparr>"

definition demo_db :: "ref_action \<Rightarrow> db" where
  "demo_db a = (empty_db a)\<lparr>
     clientes := \<lparr>rows = [(0, demo_cliente)], next_id = 1\<rparr>,
     vendedores := \<lparr>rows = [(0, demo_vendedor)], next_id = 1\<rparr>,
     produtos := \<lparr>rows = [(0, demo_produto)], next_id = 1\<rparr>\<rparr>"

definition demo_sale :: "qty \<Rightarrow> venda_in" where
  "demo_sale q =
     \<lparr>vin_clienteId = 0, vin_vendedorId = 0, vin_status = ''Concluida'',
      vin_items = [\<lparr>vii_produtoId = 0, vii_quantidade = q, vii_precoUnit = 249990\<rparr>]\<rparr>"

lemmas demo_defs = demo_db_def demo_sale_def demo_produto_def empty_db_def empty_table_def

section \<open>Creating a sale: behaviour\<close>

lemma venda_total_sum:
  "venda_total items = (\<Sum>item\<leftarrow>items. vii_quantidade item * vii_precoUnit item)"
  by (simp add: venda_total_def foldl_add_sum_list)

lemma create_venda_ok:
  "venda_refs_exist d v \<Longrightarrow>
   create_venda v tot now d =
     Inr (next_id (vendas d),
          d\<lparr>vendas := snd (create (venda_row v tot now) (vendas d)),
            venda_items := create_all (map (item_row (next_id (vendas d))) (vin_items v)) (venda_items d)\<rparr>)"
  by (simp add: create_venda_def create_def)

lemma create_venda_fail:
  "\<not> venda_refs_exist d v \<Longrightarrow> create_venda v tot now d = Inl ForeignKeyViolation"
  by (simp add: create_venda_def)

lemma sale_deltas_ok:
  "list_all (\<lambda>item. has_id t (vii_produtoId item)) items \<Longrightarrow>
   snd (apply_stock_deltas (sale_deltas items) t)"
  by (simp add: apply_stock_deltas_ok sale_deltas_def list_all_iff)

lemma delta_sum_sale_deltas:
  "delta_sum p (sale_deltas items) =
     - (\<Sum>item\<leftarrow>filter (\<lambda>item. vii_produtoId item = p) items. vii_quantidade item)"
  by (induction items) (simp_all add: sale_deltas_def)

text \<open>The two outcomes of \<open>POST /api/vendas\<close>.\<close>

lemma venda_post_ok:
  assumes "venda_refs_exist d v"
  shows "venda_post now v d =
    (Json (next_id (vendas d), venda_row v (venda_total (vin_items v)) now),
     d\<lparr>vendas := snd (create (venda_row v (venda_total (vin_items v)) now) (vendas d)),
       venda_items := create_all (map (item_row (next_id (vendas d))) (vin_items v)) (venda_items d),
       produtos := fst (apply_stock_deltas (sale_deltas (vin_items v)) (produtos d))\<rparr>)"
proof -
  have "list_all (\<lambda>item. has_id (produtos d) (vii_produtoId item)) (vin_items v)"
    using assms by (simp add: venda_refs_exist_def)
  then have "snd (apply_stock_deltas (sale_deltas (vin_items v)) (produtos d))"
    by (rule sale_deltas_ok)
  then show ?thesis
    using assms by (simp add: venda_post_def create_venda_ok Let_def case_prod_beta)
qed

lemma venda_post_fail:
  "\<not> venda_refs_exist d v \<Longrightarrow> venda_post now v d = (ErrorJson 500 ''Error creating venda'', d)"
  by (simp add: venda_post_def create_venda_fail)

lemma venda_post_Json_refs:
  "venda_post now v d = (Json x, d') \<Longrightarrow> venda_refs_exist d v"
  by (cases "venda_refs_exist d v") (simp_all add: venda_post_fail)

lemma item_row_vendaId [simp]: "vi_vendaId (item_row k item) = k"
  by (simp add: item_row_def)

lemma fresh_venda_unreferenced:
  assumes "db_ok d"
  shows "venda_items_of (next_id (vendas d)) d = []"
proof -
  have "list_all (\<lambda>(_, r). has_id (vendas d) (vi_vendaId r)) (rows (venda_items d))"
    using assms by (simp add: db_ok_def refs_ok_def)
  moreover have "wf_table (vendas d)" using assms by (simp add: db_ok_def)
  ultimately have "\<forall>(_, r) \<in> set (rows (venda_items d)). vi_vendaId r < next_id (vendas d)"
    by (auto simp: list_all_iff dest: has_id_lt_next)
  then show ?thesis
    by (auto simp: venda_items_of_def select_def filter_empty_conv)
qed

lemma venda_items_of_post:
  assumes "db_ok d" "venda_refs_exist d v"
  shows "venda_items_of (next_id (vendas d)) (snd (venda_post now v d)) =
           map (item_row (next_id (vendas d))) (vin_items v)"
proof -
  let ?k = "next_id (vendas d)"
  have "list_all (\<lambda>i. vi_vendaId i = ?k) (map (item_row ?k) (vin_items v))"
    by (simp add: list_all_iff)
  then have "map snd (select (\<lambda>i. vi_vendaId i = ?k)
               (create_all (map (item_row ?k) (vin_items v)) (venda_items d))) =
             venda_items_of ?k d @ map (item_row ?k) (vin_items v)"
    by (simp add: select_create_all venda_items_of_def)
  moreover have "venda_items_of ?k d = []"
    using assms(1) by (rule fresh_venda_unreferenced)
  ultimately show ?thesis
    using assms(2) by (simp add: venda_post_ok venda_items_of_def)
qed

lemma demo_db_ok: "db_ok (demo_db a)"
  by (simp add: db_ok_def demo_defs wf_table_def refs_ok_def)

lemma demo_refs: "venda_refs_exist (demo_db a) (demo_sale q)"
  by (simp add: venda_refs_exist_def demo_defs has_id_def)

section \<open>Reconciliation lemmas\<close>

lemma has_id_apply_stock_deltas [simp]:
  "has_id (fst (apply_stock_deltas ds t)) p = has_id t p"
proof -
  have "set (map fst (map (\<lambda>(k, r). (k, add_estoque (delta_sum k ds) r)) (rows t))) =
        set (map fst (rows t))"
    by (simp only: keys_map_pair)
  then show ?thesis by (simp add: apply_stock_deltas_rows has_id_def)
qed

lemma apply_stock_deltas_cancel:
  assumes "\<And>p. delta_sum p ds + delta_sum p es = 0"
  shows "fst (apply_stock_deltas es (fst (apply_stock_deltas ds t))) = t"
proof -
  have "map (\<lambda>(k, r). (k, add_estoque (delta_sum k es) r))
          (map (\<lambda>(k, r). (k, add_estoque (delta_sum k ds) r)) xs) = xs" for xs
    by (induction xs) (auto simp: assms)
  then show ?thesis by (simp add: apply_stock_deltas_rows)
qed

lemma restore_sale_cancel:
  "delta_sum p (sale_deltas items) + delta_sum p (restore_deltas (map (item_row j) items)) = 0"
  by (induction items) (auto simp: sale_deltas_def restore_deltas_def item_row_def)

lemma filter_new_items:
  "filter (\<lambda>(_, i). vi_vendaId i = j) xs = [] \<Longrightarrow>
   filter (\<lambda>(_, i). \<not> vi_vendaId i = j) (xs @ zip ns (map (item_row j) items)) = xs"
proof -
  assume none: "filter (\<lambda>(_, i). vi_vendaId i = j) xs = []"
  have "filter (\<lambda>(_, i). \<not> vi_vendaId i = j) xs = xs"
    using none by (force simp: filter_empty_conv intro!: filter_True)
  moreover have "filter (\<lambda>(_, i). \<not> vi_vendaId i = j) (zip ns (map (item_row j) items)) = []"
    by (force simp: filter_empty_conv dest: set_zip_rightD)
  ultimately show ?thesis by simp
qed

lemma wf_apply_stock_deltas: "wf_table t \<Longrightarrow> wf_table (fst (apply_stock_deltas ds t))"
proof -
  assume wf: "wf_table t"
  have keys: "keys_of (rows (fst (apply_stock_deltas ds t))) = keys_of (rows t)"
    by (simp add: apply_stock_deltas_rows keys_map_pair del: map_map)
  from wf show ?thesis
    unfolding wf_table_def keys by (simp add: apply_stock_deltas_rows)
qed

lemma venda_post_db_ok:
  assumes ok: "db_ok d"
  shows "db_ok (snd (venda_post now v d))"
proof (cases "venda_refs_exist d v")
  case False
  with ok show ?thesis by (simp add: venda_post_fail)
next
  case True
  let ?k = "next_id (vendas d)"
  let ?row = "venda_row v (venda_total (vin_items v)) now"
  let ?d1 = "d\<lparr>vendas := snd (create ?row (vendas d)),
                venda_items := create_all (map (item_row ?k) (vin_items v)) (venda_items d)\<rparr>"
  have items: "list_all (\<lambda>i. has_id (snd (create ?row (vendas d))) (vi_vendaId i))
                  (map (item_row ?k) (vin_items v))"
    by (simp add: list_all_iff has_id_def create_def)
  have prods: "list_all (\<lambda>i. has_id (produtos d) (vi_produtoId i)) (map (item_row ?k) (vin_items v))"
    using True by (simp add: venda_refs_exist_def list_all_iff item_row_def)
  have wfp: "wf_table (produtos d)" using ok by (simp add: db_ok_def)
  have d1: "db_ok ?d1"
    using ok True items prods
    by (simp add: db_ok_def wf_create wf_create_all refs_ok_parent_create refs_ok_child_create
        refs_ok_child_create_all venda_refs_exist_def venda_row_def)
  have "db_ok (?d1\<lparr>produtos := fst (apply_stock_deltas (sale_deltas (vin_items v)) (produtos ?d1))\<rparr>)"
    using d1 by (rule db_ok_produtos) (simp_all add: wf_apply_stock_deltas wfp)
  then show ?thesis using True by (simp add: venda_post_ok)
qed

lemma delete_venda_row_db_ok:
  assumes ok: "db_ok d" and del: "delete_venda_row k d = Inr d'"
  shows "db_ok d'"
proof -
  obtain vs where vs: "delete k (vendas d) = Inr vs"
    and d': "d' = d\<lparr>vendas := vs, venda_items := delete_many (\<lambda>_ i. vi_vendaId i = k) (venda_items d)\<rparr>"
    using del by (auto simp: delete_venda_row_def split: sum.splits if_splits)
  have vs_eq: "vs = (vendas d)\<lparr>rows := filter (\<lambda>(k', _). k' \<noteq> k) (rows (vendas d))\<rparr>"
    using vs by (simp add: delete_InrD)
  have "wf_table (vendas d)" using ok by (simp add: db_ok_def)
  then have wf: "wf_table vs" using vs by (rule wf_delete)
  show ?thesis
    using ok wf unfolding d' vs_eq
    by (simp add: db_ok_def wf_filter_rows refs_ok_child_filter refs_ok_parent_delete delete_many_def)
qed

lemma venda_delete_db_ok:
  assumes ok: "db_ok d"
  shows "db_ok (snd (venda_delete k d))"
proof (cases "find_unique (vendas d) k")
  case None
  with ok show ?thesis by (simp add: venda_delete_def)
next
  case (Some x)
  let ?ps = "fst (apply_stock_deltas (restore_deltas (venda_items_of k d)) (produtos d))"
  have wfp: "wf_table (produtos d)" using ok by (simp add: db_ok_def)
  have d1: "db_ok (d\<lparr>produtos := ?ps\<rparr>)"
    using ok by (rule db_ok_produtos) (simp_all add: wf_apply_stock_deltas wfp)
  show ?thesis
    using Some d1 delete_venda_row_db_ok [OF d1, of k]
    by (auto simp: venda_delete_def Let_def case_prod_beta split: sum.splits)
qed

lemma venda_put_db_ok:
  assumes ok: "db_ok d"
  shows "db_ok (snd (venda_put k st d))"
proof (cases "update k (\<lambda>v. v\<lparr>v_status := st\<rparr>) (vendas d)")
  case (Inl e)
  with ok show ?thesis by (simp add: venda_put_def)
next
  case (Inr vs)
  have "wf_table (vendas d)" using ok by (simp add: db_ok_def)
  then have wf: "wf_table vs" using Inr by (rule wf_update)
  have keys: "has_id vs j = has_id (vendas d) j" for j using Inr by (rule has_id_update)
  have c: "refs_ok v_clienteId (vendas d) (clientes d)" "refs_ok v_vendedorId (vendas d) (vendedores d)"
    using ok by (simp_all add: db_ok_def)
  have c1: "refs_ok v_clienteId vs (clientes d)"
    by (rule refs_ok_child_update [OF c(1) _ Inr]) simp
  have c2: "refs_ok v_vendedorId vs (vendedores d)"
    by (rule refs_ok_child_update [OF c(2) _ Inr]) simp
  have "db_ok (d\<lparr>vendas := vs\<rparr>)"
    using ok wf c1 c2 by (simp add: db_ok_def has_id_ext [OF keys])
  with Inr ok show ?thesis by (simp add: venda_put_def split: option.splits)
qed

lemma demo_post:
  "venda_post 7 (demo_sale 3) (demo_db a) =
     (Json (0, venda_row (demo_sale 3) 749970 7), snd (venda_post 7 (demo_sale 3) (demo_db a)))"
  using demo_refs [of a 3] by (simp add: venda_post_ok venda_total_def demo_defs)

section \<open>Properties of the sale handlers\<close>

text \<open>
  C1. A sale created by \<open>POST /api/vendas\<close> is stored with total
  \<open>\<Sum> quantidade \<times> precoUnit\<close> over its line items, and its stored line items are exactly
  the payload's items, in order.
\<close>

theorem venda_post_total:
  assumes "db_ok d" "venda_post now v d = (Json (k, r), d')"
  shows "v_total r = (\<Sum>item\<leftarrow>vin_items v. vii_quantidade item * vii_precoUnit item) \<and>
         lookup (vendas d') k = Some r \<and>
         venda_items_of k d' = map (item_row k) (vin_items v)"
proof -
  have refs: "venda_refs_exist d v" using assms(2) by (rule venda_post_Json_refs)
  have eq: "venda_post now v d = (Json (k, r), d')" by (rule assms(2))
  then have k: "k = next_id (vendas d)" and r: "r = venda_row v (venda_total (vin_items v)) now"
    and d': "d' = snd (venda_post now v d)"
    using refs by (auto simp: venda_post_ok)
  have "v_total r = (\<Sum>item\<leftarrow>vin_items v. vii_quantidade item * vii_precoUnit item)"
    by (simp add: r venda_row_def venda_total_sum)
  moreover have "lookup (vendas d') k = Some r"
    using refs assms(1) by (simp add: d' k r venda_post_ok lookup_create db_ok_def)
  moreover have "venda_items_of k d' = map (item_row k) (vin_items v)"
    using assms(1) refs by (simp add: d' k venda_items_of_post)
  ultimately show ?thesis by blast
qed

text \<open>
  C2. After a successful \<open>POST /api/vendas\<close> every product's stock is its old stock
  minus the quantities of the sale's lines for that product; no other field and no
  other product changes.
\<close>

theorem venda_post_stock:
  assumes "venda_post now v d = (Json x, d')"
  shows "lookup (produtos d') p =
           map_option (\<lambda>r. r\<lparr>pr_estoque := pr_estoque r -
              (\<Sum>item\<leftarrow>filter (\<lambda>item. vii_produtoId item = p) (vin_items v). vii_quantidade item)\<rparr>)
             (lookup (produtos d) p)"
proof -
  have refs: "venda_refs_exist d v" using assms by (rule venda_post_Json_refs)
  then have "produtos d' = fst (apply_stock_deltas (sale_deltas (vin_items v)) (produtos d))"
    using assms by (auto simp: venda_post_ok)
  then show ?thesis
    by (simp add: lookup_apply_stock_deltas delta_sum_sale_deltas add_estoque_def [abs_def])
qed

text \<open>
  C3. \<open>POST /api/vendas\<close> fails exactly when the client, the seller or one of the
  products does not exist, and then it answers 500 and leaves the database unchanged.
\<close>

theorem venda_post_rejects_atomically:
  "venda_post now v d = (ErrorJson 500 ''Error creating venda'', d) \<longleftrightarrow> \<not> venda_refs_exist d v"
  by (cases "venda_refs_exist d v") (simp_all add: venda_post_ok venda_post_fail)

theorem venda_post_total_witness:
  "venda_post 7 (demo_sale 3) (demo_db Cascade) =
     (Json (0, venda_row (demo_sale 3) 749970 7), snd (venda_post 7 (demo_sale 3) (demo_db Cascade))) \<and>
   v_total (venda_row (demo_sale 3) 749970 7) = 749970"
proof -
  have post: "venda_post 7 (demo_sale 3) (demo_db Cascade) =
     (Json (0, venda_row (demo_sale 3) 749970 7), snd (venda_post 7 (demo_sale 3) (demo_db Cascade)))"
    using demo_refs [of Cascade 3]
    by (simp add: venda_post_ok venda_total_def demo_defs)
  have "v_total (venda_row (demo_sale 3) 749970 7) =
        (\<Sum>item\<leftarrow>vin_items (demo_sale 3). vii_quantidade item * vii_precoUnit item)"
    using venda_post_total [OF demo_db_ok post] by blast
  then show ?thesis using post by (simp add: demo_sale_def)
qed

theorem venda_post_stock_witness:
  "lookup (produtos (snd (venda_post 7 (demo_sale 3) (demo_db Cascade)))) 0 =
     Some (demo_produto\<lparr>pr_estoque := 2\<rparr>)"
proof -
  have post: "venda_post 7 (demo_sale 3) (demo_db Cascade) =
     (Json (0, venda_row (demo_sale 3) 749970 7), snd (venda_post 7 (demo_sale 3) (demo_db Cascade)))"
    using demo_refs [of Cascade 3]
    by (simp add: venda_post_ok venda_total_def demo_defs)
  show ?thesis
    using venda_post_stock [OF post, of 0]
    by (simp add: demo_defs lookup_def)
qed

text \<open>
  \<open>POST /api/vendas\<close> checks no stock: with five units of a product in stock, two
  sales of three units each both succeed (status 200) and leave the stock at \<open>-1\<close>,
  where the spec (section 4.2) requires the second to fail with \<open>InsufficientStock\<close>.
\<close>

lemma venda_post_overdraws:
  "let (r1, d1) = venda_post 1 (demo_sale 3) (demo_db a);
       (r2, d2) = venda_post 2 (demo_sale 3) d1
   in status r1 = 200 \<and> status r2 = 200 \<and>
      map_option pr_estoque (lookup (produtos d2) 0) = Some (-1)"
proof -
  let ?d1 = "snd (venda_post 1 (demo_sale 3) (demo_db a))"
  have r1: "fst (venda_post 1 (demo_sale 3) (demo_db a)) = Json (0, venda_row (demo_sale 3) 749970 1)"
    using demo_refs [of a 3] by (simp add: venda_post_ok venda_total_def demo_defs)
  have d1: "?d1 = (demo_db a)\<lparr>vendas := snd (create (venda_row (demo_sale 3) 749970 1) empty_table),
      venda_items := create_all (map (item_row 0) (vin_items (demo_sale 3))) empty_table,
      produtos := \<lparr>rows = [(0, demo_produto\<lparr>pr_estoque := 2\<rparr>)], next_id = 1\<rparr>\<rparr>"
    using demo_refs [of a 3]
    by (simp add: venda_post_ok venda_total_def demo_defs apply_stock_deltas_Cons sale_deltas_def
        add_estoque_def has_id_def)
  have refs2: "venda_refs_exist ?d1 (demo_sale 3)"
    unfolding d1 by (simp add: venda_refs_exist_def demo_defs has_id_def create_def)
  have r2: "status (fst (venda_post 2 (demo_sale 3) ?d1)) = 200"
    by (simp add: venda_post_ok [OF refs2])
  have p2: "produtos (snd (venda_post 2 (demo_sale 3) ?d1)) =
             fst (apply_stock_deltas (sale_deltas (vin_items (demo_sale 3))) (produtos ?d1))"
    by (simp add: venda_post_ok [OF refs2])
  have p1: "produtos ?d1 = \<lparr>rows = [(0, demo_produto\<lparr>pr_estoque := 2\<rparr>)], next_id = 1\<rparr>"
    using d1 by simp
  have s2: "map_option pr_estoque (lookup (produtos (snd (venda_post 2 (demo_sale 3) ?d1))) 0) = Some (-1)"
    unfolding p2 p1 lookup_apply_stock_deltas by (simp add: sale_deltas_def demo_defs lookup_def)
  show ?thesis
    using r1 r2 s2 by (simp add: Let_def case_prod_beta)
qed

theorem venda_post_rejects_witness:
  "venda_post 1 ((demo_sale 3)\<lparr>vin_items := [\<lparr>vii_produtoId = 9, vii_quantidade = 1, vii_precoUnit = 10\<rparr>]\<rparr>)
     (demo_db Restrict) =
   (ErrorJson 500 ''Error creating venda'', demo_db Restrict)"
proof -
  have "\<not> venda_refs_exist (demo_db Restrict)
          ((demo_sale 3)\<lparr>vin_items := [\<lparr>vii_produtoId = 9, vii_quantidade = 1, vii_precoUnit = 10\<rparr>]\<rparr>)"
    by (simp add: venda_refs_exist_def demo_defs has_id_def)
  then show ?thesis by (rule venda_post_rejects_atomically [THEN iffD2])
qed

text \<open>
  C4. Round trip: under \<open>onDelete: Cascade\<close>, deleting a sale right after creating it
  answers \<open>{success: true}\<close> and restores the database exactly (every product's
  stock, every sale and line item), except that the id counters have moved on.
\<close>

theorem venda_roundtrip:
  assumes ok: "db_ok d" and casc: "on_delete d = Cascade"
    and post: "venda_post now v d = (Json (k, r), d1)"
  shows "venda_delete k d1 =
           (JsonSuccess,
            d\<lparr>vendas := (vendas d)\<lparr>next_id := Suc (next_id (vendas d))\<rparr>,
              venda_items := (venda_items d)\<lparr>next_id := next_id (venda_items d) + length (vin_items v)\<rparr>\<rparr>)"
proof -
  have refs: "venda_refs_exist d v" using post by (rule venda_post_Json_refs)
  have k: "k = next_id (vendas d)" and r: "r = venda_row v (venda_total (vin_items v)) now"
    and d1: "d1 = snd (venda_post now v d)"
    using post refs by (auto simp: venda_post_ok)
  have wf: "wf_table (vendas d)" "wf_table (produtos d)" using ok by (simp_all add: db_ok_def)
  have find: "find_unique (vendas d1) k = Some r"
    using refs wf by (simp add: d1 k r venda_post_ok lookup_create)
  have items: "venda_items_of k d1 = map (item_row k) (vin_items v)"
    using ok refs by (simp add: d1 k venda_items_of_post)
  have prods: "produtos d1 = fst (apply_stock_deltas (sale_deltas (vin_items v)) (produtos d))"
    using refs by (simp add: d1 venda_post_ok)
  have all_ok: "snd (apply_stock_deltas (restore_deltas (map (item_row k) (vin_items v))) (produtos d1))"
    using refs by (simp add: prods apply_stock_deltas_ok restore_deltas_def item_row_def
        venda_refs_exist_def list_all_iff)
  have restored: "fst (apply_stock_deltas (restore_deltas (map (item_row k) (vin_items v))) (produtos d1)) =
              produtos d"
    unfolding prods by (rule apply_stock_deltas_cancel) (rule restore_sale_cancel)
  have none: "filter (\<lambda>(_, i). vi_vendaId i = k) (rows (venda_items d)) = []"
    using fresh_venda_unreferenced [OF ok] by (simp add: k venda_items_of_def select_def)
  have del: "delete_venda_row k (d1\<lparr>produtos := produtos d\<rparr>) =
      Inr (d\<lparr>vendas := (vendas d)\<lparr>next_id := Suc (next_id (vendas d))\<rparr>,
              venda_items := (venda_items d)\<lparr>next_id := next_id (venda_items d) + length (vin_items v)\<rparr>\<rparr>)"
  proof -
    have i1: "filter (\<lambda>(_, i). vi_vendaId i \<noteq> next_id (vendas d)) (rows (venda_items d)) =
              rows (venda_items d)"
      using none by (force simp: k filter_empty_conv intro!: filter_True)
    have i2: "filter (\<lambda>(_, i). vi_vendaId i \<noteq> next_id (vendas d))
                (zip ns (map (item_row (next_id (vendas d))) (vin_items v))) = []" for ns
      by (force simp: filter_empty_conv dest: set_zip_rightD)
    show ?thesis
      using refs casc
      by (simp add: i1 i2 filter_below_next [OF wf(1)] d1 k venda_post_ok delete_venda_row_def delete_def has_id_def create_def
          delete_many_def rows_create_all create_all_rows_update)
  qed
  show ?thesis
    using find items all_ok restored del by (simp add: venda_delete_def Let_def case_prod_beta)
qed

theorem venda_roundtrip_witness:
  "fst (venda_delete 0 (snd (venda_post 7 (demo_sale 3) (demo_db Cascade)))) = JsonSuccess \<and>
   produtos (snd (venda_delete 0 (snd (venda_post 7 (demo_sale 3) (demo_db Cascade))))) =
     produtos (demo_db Cascade)"
proof -
  have "on_delete (demo_db Cascade) = Cascade" by (simp add: demo_defs)
  from venda_roundtrip [OF demo_db_ok this demo_post] show ?thesis by simp
qed

text \<open>
  C5. Under \<open>onDelete: Restrict\<close> (Prisma's default), \<open>DELETE /api/vendas/[id]\<close> on a
  sale with line items gives the stock back and then fails to delete the sale: it answers
  500 and keeps the incremented stock, so the sale stays and every retry adds its
  quantities to the stock again.
\<close>

theorem venda_delete_restrict_partial:
  assumes "on_delete d = Restrict" "find_unique (vendas d) k = Some x"
    and "venda_items_of k d \<noteq> []"
    and "list_all (\<lambda>i. has_id (produtos d) (vi_produtoId i)) (venda_items_of k d)"
  shows "venda_delete k d =
           (ErrorJson 500 ''Error deleting venda'',
            d\<lparr>produtos := fst (apply_stock_deltas (restore_deltas (venda_items_of k d)) (produtos d))\<rparr>)"
proof -
  have "snd (apply_stock_deltas (restore_deltas (venda_items_of k d)) (produtos d))"
    using assms(4) by (simp add: apply_stock_deltas_ok restore_deltas_def list_all_iff)
  moreover have "has_id (vendas d) k"
    using assms(2) by (simp add: has_id_lookup)
  ultimately show ?thesis
    using assms(1,2,3)
    by (simp add: venda_delete_def delete_venda_row_def delete_def Let_def case_prod_beta
        venda_items_of_def)
qed

theorem venda_delete_restrict_partial_witness:
  "venda_delete 0 (snd (venda_post 7 (demo_sale 3) (demo_db Restrict))) =
     (ErrorJson 500 ''Error deleting venda'',
      (snd (venda_post 7 (demo_sale 3) (demo_db Restrict)))\<lparr>produtos :=
         \<lparr>rows = [(0, demo_produto)], next_id = 1\<rparr>\<rparr>)"
proof -
  let ?d1 = "snd (venda_post 7 (demo_sale 3) (demo_db Restrict))"
  have d1: "?d1 = (demo_db Restrict)\<lparr>vendas := snd (create (venda_row (demo_sale 3) 749970 7) empty_table),
      venda_items := create_all [item_row 0 (hd (vin_items (demo_sale 3)))] empty_table,
      produtos := \<lparr>rows = [(0, demo_produto\<lparr>pr_estoque := 2\<rparr>)], next_id = 1\<rparr>\<rparr>"
    using demo_refs [of Restrict 3]
    by (simp add: venda_post_ok venda_total_def demo_defs apply_stock_deltas_Cons sale_deltas_def
        add_estoque_def has_id_def)
  have h1: "on_delete ?d1 = Restrict" unfolding d1 by (simp add: demo_defs)
  have h2: "find_unique (vendas ?d1) 0 = Some (venda_row (demo_sale 3) 749970 7)"
    unfolding d1 by (simp add: demo_defs create_def lookup_def)
  have items: "venda_items_of 0 ?d1 = [item_row 0 (hd (vin_items (demo_sale 3)))]"
    unfolding d1 by (simp add: demo_defs create_def venda_items_of_def select_def item_row_def)
  have h3: "venda_items_of 0 ?d1 \<noteq> []" by (simp add: items)
  have h4: "list_all (\<lambda>i. has_id (produtos ?d1) (vi_produtoId i)) (venda_items_of 0 ?d1)"
    unfolding items unfolding d1 by (simp add: demo_defs has_id_def item_row_def)
  have ps: "fst (apply_stock_deltas (restore_deltas (venda_items_of 0 ?d1)) (produtos ?d1)) =
            \<lparr>rows = [(0, demo_produto)], next_id = 1\<rparr>"
    unfolding items unfolding d1
    by (simp add: demo_defs restore_deltas_def item_row_def apply_stock_deltas_Cons has_id_def
        add_estoque_def)
  show ?thesis
    using venda_delete_restrict_partial [OF h1 h2 h3 h4] by (simp only: ps)
qed

text \<open>
  Every sale handler (\<open>POST\<close>, \<open>DELETE\<close>, \<open>PUT\<close>) keeps the database well formed
  and referentially intact, whichever way it ends.
\<close>

lemma venda_handlers_preserve_db_ok:
  assumes "db_ok d"
  shows "db_ok (snd (venda_post now v d)) \<and> db_ok (snd (venda_delete k d)) \<and>
         db_ok (snd (venda_put k st d))"
  using venda_post_db_ok [OF assms] venda_delete_db_ok [OF assms] venda_put_db_ok [OF assms]
  by blast

text \<open>
  The order of a sale's line items does not matter: the response and the product
  table after \<open>POST /api/vendas\<close> are the same for any permutation of the items (the
  concurrent stock updates commute).
\<close>

lemma venda_post_item_order:
  assumes "mset items = mset items'"
  shows "fst (venda_post now (v\<lparr>vin_items := items\<rparr>) d) = fst (venda_post now (v\<lparr>vin_items := items'\<rparr>) d) \<and>
         produtos (snd (venda_post now (v\<lparr>vin_items := items\<rparr>) d)) =
         produtos (snd (venda_post now (v\<lparr>vin_items := items'\<rparr>) d))"
proof -
  have "set_mset (mset items) = set_mset (mset items')" using assms by simp
  then have set_eq: "set items = set items'" by simp
  have refs: "venda_refs_exist d (v\<lparr>vin_items := items\<rparr>) = venda_refs_exist d (v\<lparr>vin_items := items'\<rparr>)"
    by (simp add: venda_refs_exist_def list_all_iff set_eq)
  have tot: "venda_total items = venda_total items'"
    unfolding venda_total_sum using assms by (rule sum_list_perm_invariant)
  have "mset (sale_deltas items) = mset (sale_deltas items')"
    using assms by (simp add: sale_deltas_def)
  then have deltas: "apply_stock_deltas (sale_deltas items) t = apply_stock_deltas (sale_deltas items') t" for t
    by (rule apply_stock_deltas_perm)
  show ?thesis
  proof (cases "venda_refs_exist d (v\<lparr>vin_items := items\<rparr>)")
    case True
    with refs have "venda_refs_exist d (v\<lparr>vin_items := items'\<rparr>)" by simp
    with True show ?thesis using tot deltas
      by (simp add: venda_post_ok venda_row_def)
  next
    case False
    with refs have "\<not> venda_refs_exist d (v\<lparr>vin_items := items'\<rparr>)" by simp
    with False show ?thesis by (simp add: venda_post_fail)
  qed
qed

text \<open>
  C6. \<open>PUT /api/vendas/[id]\<close> writes the status and nothing else: the total and the
  stock are never recomputed. A missing id answers 500, where the spec (section 6)
  requires 404.
\<close>

theorem venda_put_status_only:
  "venda_put k st d =
     (case lookup (vendas d) k of
        None \<Rightarrow> (ErrorJson 500 ''Error updating venda'', d)
      | Some x \<Rightarrow> (Json (k, x\<lparr>v_status := st\<rparr>),
                   d\<lparr>vendas := (vendas d)\<lparr>rows := map_vals_at k (\<lambda>v. v\<lparr>v_status := st\<rparr>) (rows (vendas d))\<rparr>\<rparr>))"
proof (cases "lookup (vendas d) k")
  case None
  then have "update k (\<lambda>v. v\<lparr>v_status := st\<rparr>) (vendas d) = Inl RecordNotFound"
    by (simp add: update_def has_id_lookup)
  with None show ?thesis by (simp add: venda_put_def)
next
  case (Some x)
  then have upd: "update k (\<lambda>v. v\<lparr>v_status := st\<rparr>) (vendas d) =
      Inr ((vendas d)\<lparr>rows := map_vals_at k (\<lambda>v. v\<lparr>v_status := st\<rparr>) (rows (vendas d))\<rparr>)"
    by (simp add: update_def has_id_lookup)
  have "lookup ((vendas d)\<lparr>rows := map_vals_at k (\<lambda>v. v\<lparr>v_status := st\<rparr>) (rows (vendas d))\<rparr>) k =
        Some (x\<lparr>v_status := st\<rparr>)"
    using lookup_update [OF upd] Some by simp
  with upd Some show ?thesis by (simp add: venda_put_def)
qed

end
