(* ===== verification/Orcamentos.thy ===== *)
theory Orcamentos
  imports Entities
begin

text \<open>
  Quotes: the handlers of \<open>src/src/app/api/orcamentos/route.ts\<close> (\<open>GET\<close>, \<open>POST\<close>)
  and \<open>src/src/app/api/orcamentos/[id]/route.ts\<close> (\<open>GET\<close>, \<open>PUT\<close>, \<open>DELETE\<close>). A quote
  owns line items, and each line item owns material rows; \<open>POST\<close> creates the three
  levels in one nested create, \<open>PUT\<close> first deletes every material row and line item of
  the quote and then updates the quote with a nested create of the new ones, \<open>DELETE\<close>
  deletes the three levels bottom-up. None of it touches material stock.
\<close>

section \<open>Request payloads\<close>

text \<open>
  The JSON body the handlers read: \<open>data.itens\<close> and each \<open>item.materiais\<close> may be
  absent (\<open>None\<close>, JavaScript's \<open>undefined\<close>); \<open>data.data\<close> is \<open>None\<close> when
  \<open>new Date(data.data)\<close> is an invalid date.
\<close>

record orc_material_in =
  omi_id :: ident
  omi_quantidade :: qty

record orc_item_in =
  oii_descricao :: string
  oii_quantidade :: qty
  oii_valorUnitario :: money
  oii_materiais :: "orc_material_in list option"

record orcamento_in =
  oin_numero :: string
  oin_data :: "int option"
  oin_status :: string
  oin_observacoes :: "string option"
  oin_clienteId :: ident
  oin_itens :: "orc_item_in list option"

section \<open>Building the nested create\<close>

text \<open>
  \<open>data.itens.map(item => ({..., materiais: {create: item.materiais.map(...)}}))\<close>:
  a \<open>TypeError\<close> (\<open>None\<close>) when \<open>data.itens\<close> or an item's \<open>materiais\<close> is undefined.
\<close>

definition build_itens :: "orcamento_in \<Rightarrow> (orc_item_in \<times> orc_material_in list) list option" where
  "build_itens v =
     (case oin_itens v of
        None \<Rightarrow> None
      | Some its \<Rightarrow> those (map (\<lambda>it. map_option (\<lambda>ms. (it, ms)) (oii_materiais it)) its))"

definition orc_row :: "orcamento_in \<Rightarrow> int \<Rightarrow> orcamento" where
  "orc_row v dt =
     \<lparr>o_numero = oin_numero v, o_data = dt, o_status = oin_status v,
      o_observacoes = oin_observacoes v, o_clienteId = oin_clienteId v\<rparr>"

definition orc_item_row :: "ident \<Rightarrow> orc_item_in \<Rightarrow> orcamento_item" where
  "orc_item_row k it =
     \<lparr>oi_orcamentoId = k, oi_descricao = oii_descricao it, oi_quantidade = oii_quantidade it,
      oi_valorUnitario = oii_valorUnitario it\<rparr>"

definition orc_mat_row :: "ident \<Rightarrow> orc_material_in \<Rightarrow> orcamento_material" where
  "orc_mat_row ik m = \<lparr>om_itemId = ik, om_materialId = omi_id m, om_quantidade = omi_quantidade m\<rparr>"

text \<open>Creating the items of quote \<open>k\<close>, each followed by its material rows.\<close>

fun create_itens ::
  "ident \<Rightarrow> (orc_item_in \<times> orc_material_in list) list \<Rightarrow>
   orcamento_item table \<times> orcamento_material table \<Rightarrow> orcamento_item table \<times> orcamento_material table"
where
  "create_itens k [] tabs = tabs"
| "create_itens k ((it, ms) # rest) (its, mats) =
     create_itens k rest
       (snd (create (orc_item_row k it) its),
        create_all (map (orc_mat_row (next_id its)) ms) mats)"

text \<open>
  The nested write is one statement: an invalid date is rejected, a missing client or
  material is a foreign-key violation, and either way nothing is written.
\<close>

definition orc_refs_exist :: "db \<Rightarrow> orcamento_in \<Rightarrow> (orc_item_in \<times> orc_material_in list) list \<Rightarrow> bool" where
  "orc_refs_exist d v its \<longleftrightarrow>
     has_id (clientes d) (oin_clienteId v) \<and>
     list_all (\<lambda>(_, ms). list_all (\<lambda>m. has_id (materials d) (omi_id m)) ms) its"

definition write_itens :: "ident \<Rightarrow> (orc_item_in \<times> orc_material_in list) list \<Rightarrow> db \<Rightarrow> db" where
  "write_itens k its d =
     (let (is', ms') = create_itens k its (orcamento_items d, orcamento_materiais d)
      in d\<lparr>orcamento_items := is', orcamento_materiais := ms'\<rparr>)"

definition create_orcamento ::
  "orcamento_in \<Rightarrow> (orc_item_in \<times> orc_material_in list) list \<Rightarrow> db \<Rightarrow> store_error + ident \<times> db" where
  "create_orcamento v its d =
     (case oin_data v of
        None \<Rightarrow> Inl InvalidValue
      | Some dt \<Rightarrow>
          (if orc_refs_exist d v its then
             (let (k, os) = create (orc_row v dt) (orcamentos d)
              in Inr (k, write_itens k its (d\<lparr>orcamentos := os\<rparr>)))
           else Inl ForeignKeyViolation))"

definition update_orcamento ::
  "ident \<Rightarrow> orcamento_in \<Rightarrow> (orc_item_in \<times> orc_material_in list) list \<Rightarrow> db \<Rightarrow> store_error + db" where
  "update_orcamento k v its d =
     (case oin_data v of
        None \<Rightarrow> Inl InvalidValue
      | Some dt \<Rightarrow>
          (case update k (\<lambda>_. orc_row v dt) (orcamentos d) of
             Inl e \<Rightarrow> Inl e
           | Inr os \<Rightarrow>
               (if orc_refs_exist d v its then Inr (write_itens k its (d\<lparr>orcamentos := os\<rparr>))
                else Inl ForeignKeyViolation)))"

section \<open>Deleting a quote's rows\<close>

text \<open>
  \<open>prisma.orcamentoMaterial.deleteMany({where: {item: {orcamentoId: id}}})\<close>: the
  material rows whose line item belongs to the quote.
\<close>

definition item_of_orcamento :: "db \<Rightarrow> ident \<Rightarrow> ident \<Rightarrow> bool" where
  "item_of_orcamento d k ik \<longleftrightarrow>
     (case lookup (orcamento_items d) ik of None \<Rightarrow> False | Some i \<Rightarrow> oi_orcamentoId i = k)"

definition delete_orc_materiais :: "ident \<Rightarrow> db \<Rightarrow> db" where
  "delete_orc_materiais k d =
     d\<lparr>orcamento_materiais :=
         delete_many (\<lambda>_ m. item_of_orcamento d k (om_itemId m)) (orcamento_materiais d)\<rparr>"

text \<open>
  \<open>prisma.orcamentoItem.deleteMany({where: {orcamentoId: id}})\<close>: under \<open>Restrict\<close>
  the statement fails while material rows still refer to one of the items; under
  \<open>Cascade\<close> it takes those material rows with it.
\<close>

definition delete_orc_itens :: "ident \<Rightarrow> db \<Rightarrow> store_error + db" where
  "delete_orc_itens k d =
     (let referenced = list_ex (\<lambda>(_, m). item_of_orcamento d k (om_itemId m)) (rows (orcamento_materiais d))
      in if on_delete d = Restrict \<and> referenced then Inl ForeignKeyViolation
         else Inr ((delete_orc_materiais k d)\<lparr>orcamento_items :=
                     delete_many (\<lambda>_ i. oi_orcamentoId i = k) (orcamento_items d)\<rparr>))"

text \<open>\<open>prisma.orcamento.delete\<close>: under \<open>Restrict\<close> it fails while items refer to it.\<close>

definition delete_orc_row :: "ident \<Rightarrow> db \<Rightarrow> store_error + db" where
  "delete_orc_row k d =
     (case delete k (orcamentos d) of
        Inl e \<Rightarrow> Inl e
      | Inr os \<Rightarrow>
          (let referenced = list_ex (\<lambda>(_, i). oi_orcamentoId i = k) (rows (orcamento_items d))
           in if on_delete d = Restrict \<and> referenced then Inl ForeignKeyViolation
              else (case delete_orc_itens k d of
                      Inl e \<Rightarrow> Inl e
                    | Inr d' \<Rightarrow> Inr (d'\<lparr>orcamentos := os\<rparr>))))"

section \<open>Reading a quote\<close>

text \<open>\<open>include: {itens: {include: {materiais: ...}}}\<close>: a quote's items with their materials.\<close>

definition itens_of ::
  "ident \<Rightarrow> orcamento_item table \<Rightarrow> orcamento_material table \<Rightarrow> (orcamento_item \<times> orcamento_material list) list"
where
  "itens_of k its mats =
     map (\<lambda>(ik, i). (i, map snd (select (\<lambda>m. om_itemId m = ik) mats)))
       (select (\<lambda>i. oi_orcamentoId i = k) its)"

definition itens_view :: "ident \<Rightarrow> db \<Rightarrow> (orcamento_item \<times> orcamento_material list) list" where
  "itens_view k d = itens_of k (orcamento_items d) (orcamento_materiais d)"

text \<open>The error text \<open>'Or\c{c}amento n\~{a}o encontrado'\<close>, in UTF-8.\<close>

definition msg_orc_not_found :: string where
  "msg_orc_not_found = ''Or'' @ [CHR 0xC3, CHR 0xA7] @ ''amento n'' @ [CHR 0xC3, CHR 0xA3] @ ''o encontrado''"

section \<open>The handlers\<close>

text \<open>\<open>POST /api/orcamentos\<close>.\<close>

definition orcamento_post ::
  "orcamento_in \<Rightarrow> db \<Rightarrow> (ident \<times> orcamento \<times> (orcamento_item \<times> orcamento_material list) list) resp \<times> db" where
  "orcamento_post v d =
     (case build_itens v of
        None \<Rightarrow> (ErrorJson 500 ''Internal Server Error'', d)
      | Some its \<Rightarrow>
          (case create_orcamento v its d of
             Inl _ \<Rightarrow> (ErrorJson 500 ''Internal Server Error'', d)
           | Inr (k, d') \<Rightarrow>
               (case lookup (orcamentos d') k of
                  None \<Rightarrow> (ErrorJson 500 ''Internal Server Error'', d)
                | Some q \<Rightarrow> (Json (k, q, itens_view k d'), d'))))"

text \<open>
  \<open>PUT /api/orcamentos/[id]\<close>: delete the material rows, delete the items, then build
  the nested create and update the quote. Each awaited step commits on its own.
\<close>

definition orcamento_put ::
  "ident \<Rightarrow> orcamento_in \<Rightarrow> db \<Rightarrow> (ident \<times> orcamento \<times> (orcamento_item \<times> orcamento_material list) list) resp \<times> db" where
  "orcamento_put k v d =
     (let d1 = delete_orc_materiais k d in
      case delete_orc_itens k d1 of
        Inl _ \<Rightarrow> (ErrorJson 500 ''Internal Server Error'', d1)
      | Inr d2 \<Rightarrow>
          (case build_itens v of
             None \<Rightarrow> (ErrorJson 500 ''Internal Server Error'', d2)
           | Some its \<Rightarrow>
               (case update_orcamento k v its d2 of
                  Inl _ \<Rightarrow> (ErrorJson 500 ''Internal Server Error'', d2)
                | Inr d3 \<Rightarrow>
                    (case lookup (orcamentos d3) k of
                       None \<Rightarrow> (ErrorJson 500 ''Internal Server Error'', d2)
                     | Some q \<Rightarrow> (Json (k, q, itens_view k d3), d3)))))"

text \<open>\<open>DELETE /api/orcamentos/[id]\<close>: materials, items, then the quote; 204.\<close>

definition orcamento_delete :: "ident \<Rightarrow> db \<Rightarrow> unit resp \<times> db" where
  "orcamento_delete k d =
     (let d1 = delete_orc_materiais k d in
      case delete_orc_itens k d1 of
        Inl _ \<Rightarrow> (ErrorJson 500 ''Internal Server Error'', d1)
      | Inr d2 \<Rightarrow>
          (case delete_orc_row k d2 of
             Inl _ \<Rightarrow> (ErrorJson 500 ''Internal Server Error'', d2)
           | Inr d3 \<Rightarrow> (NoContent, d3)))"

text \<open>\<open>GET /api/orcamentos/[id]\<close>.\<close>

definition orcamento_get ::
  "ident \<Rightarrow> db \<Rightarrow> (ident \<times> orcamento \<times> (orcamento_item \<times> orcamento_material list) list) resp" where
  "orcamento_get k d =
     (case find_unique (orcamentos d) k of
        None \<Rightarrow> ErrorJson 404 msg_orc_not_found
      | Some q \<Rightarrow> Json (k, q, itens_view k d))"

text \<open>
  \<open>GET /api/orcamentos\<close>: newest first (\<open>orderBy: {data: 'desc'}\<close>), each quote with
  its client (\<open>include: {cliente: true}\<close>) and its items.
\<close>

definition orcamentos_list ::
  "db \<Rightarrow> (ident \<times> orcamento \<times> cliente option \<times> (orcamento_item \<times> orcamento_material list) list) list resp" where
  "orcamentos_list d =
     Json (map (\<lambda>(k, q). (k, q, lookup (clientes d) (o_clienteId q), itens_view k d))
             (find_many_ordered (\<lambda>q. - o_data q) (orcamentos d)))"

section \<open>What a client sees of a quote's items\<close>

text \<open>
  The ids of recreated rows are fresh, so a replaced item set is compared with the
  payload up to row ids: each item as stored, each material as the pair
  (material id, quantity) that the payload sends as \<open>{id, quantidade}\<close>.
\<close>

definition mat_view ::
  "(orcamento_item \<times> orcamento_material list) list \<Rightarrow> (orcamento_item \<times> (ident \<times> qty) list) list" where
  "mat_view xs = map (\<lambda>(i, ms). (i, map (\<lambda>m. (om_materialId m, om_quantidade m)) ms)) xs"

definition payload_view ::
  "ident \<Rightarrow> (orc_item_in \<times> orc_material_in list) list \<Rightarrow> (orcamento_item \<times> (ident \<times> qty) list) list" where
  "payload_view k its = map (\<lambda>(it, ms). (orc_item_row k it, map (\<lambda>m. (omi_id m, omi_quantidade m)) ms)) its"

section \<open>Example data\<close>

text \<open>A client, a material, and a quote with one item that uses the material.\<close>

definition demo_orc_cliente :: cliente where
  "demo_orc_cliente =
     \<lparr>cl_nome = ''Ana'', cl_email = None, cl_telefone = ''11999990000'', cl_cpf = Some ''12345678901'',
      cl_cnpj = None, cl_endereco = None, cl_cidade = None, cl_estado = None, cl_cep = None\<rparr>"

definition demo_orc_material :: material where
  "demo_orc_material =
     \<lparr>mt_name = ''MDF 15mm'', mt_type = ''Chapa'', mt_description = None, mt_quantity = 10,
      mt_unit = ''m2'', mt_price = 8990, mt_minStock = 2\<rparr>"

definition demo_quote_db :: "ref_action \<Rightarrow> db" where
  "demo_quote_db a =
     (empty_db a)\<lparr>clientes := \<lparr>rows = [(0, demo_orc_cliente)], next_id = 1\<rparr>,
                  materials := \<lparr>rows = [(0, demo_orc_material)], next_id = 1\<rparr>\<rparr>"

definition demo_mat_in :: orc_material_in where
  "demo_mat_in = \<lparr>omi_id = 0, omi_quantidade = 3\<rparr>"

definition demo_item_in :: orc_item_in where
  "demo_item_in =
     \<lparr>oii_descricao = ''Armario'', oii_quantidade = 2, oii_valorUnitario = 120000,
      oii_materiais = Some [demo_mat_in]\<rparr>"

definition demo_item_in2 :: orc_item_in where
  "demo_item_in2 =
     \<lparr>oii_descricao = ''Montagem'', oii_quantidade = 1, oii_valorUnitario = 30000, oii_materiais = Some []\<rparr>"

definition demo_quote_in :: "orc_item_in list option \<Rightarrow> orcamento_in" where
  "demo_quote_in its =
     \<lparr>oin_numero = ''ORC-001'', oin_data = Some 0, oin_status = ''Pendente'', oin_observacoes = None,
      oin_clienteId = 0, oin_itens = its\<rparr>"

definition demo_quoted :: "ref_action \<Rightarrow> db" where
  "demo_quoted a = snd (orcamento_post (demo_quote_in (Some [demo_item_in])) (demo_quote_db a))"

section \<open>Properties of the quote handlers\<close>

lemma select_create_all_other:
  "list_all (\<lambda>v. \<not> P v) vs \<Longrightarrow> select P (create_all vs t) = select P t"
proof (induction vs arbitrary: t)
  case Nil
  then show ?case by simp
next
  case (Cons v vs)
  then show ?case by (simp add: select_def create_def)
qed

lemma refs_ok_lt_next:
  "refs_ok fk c p \<Longrightarrow> wf_table p \<Longrightarrow> (ck, r) \<in> set (rows c) \<Longrightarrow> fk r < next_id p"
  by (auto simp: refs_ok_def list_all_iff intro: has_id_lt_next)

lemma itens_of_step:
  assumes wf: "wf_table I" and refs: "refs_ok om_itemId M I"
  shows "itens_of k (snd (create (orc_item_row j it) I)) (create_all (map (orc_mat_row (next_id I)) ms) M) =
         itens_of k I M @ (if j = k then [(orc_item_row j it, map (orc_mat_row (next_id I)) ms)] else [])"
proof -
  let ?M' = "create_all (map (orc_mat_row (next_id I)) ms) M"
  have old: "select (\<lambda>m. om_itemId m = ik) ?M' = select (\<lambda>m. om_itemId m = ik) M"
    if "ik < next_id I" for ik
    using that by (intro select_create_all_other) (simp add: list_all_iff orc_mat_row_def)
  have none: "select (\<lambda>m. om_itemId m = next_id I) M = []"
    using refs_ok_lt_next [OF refs wf] by (fastforce simp: select_def filter_empty_conv)
  have new: "map snd (select (\<lambda>m. om_itemId m = next_id I) ?M') = map (orc_mat_row (next_id I)) ms"
  proof -
    have "list_all (\<lambda>m. om_itemId m = next_id I) (map (orc_mat_row (next_id I)) ms)"
      by (simp add: list_all_iff orc_mat_row_def)
    then show ?thesis using none by (simp add: select_create_all)
  qed
  have keys: "\<forall>(ik, i) \<in> set (rows I). ik < next_id I"
    using wf by (auto simp: wf_table_def list_all_iff)
  have "map (\<lambda>(ik, i). (i, map snd (select (\<lambda>m. om_itemId m = ik) ?M'))) (select (\<lambda>i. oi_orcamentoId i = k) I) =
        map (\<lambda>(ik, i). (i, map snd (select (\<lambda>m. om_itemId m = ik) M))) (select (\<lambda>i. oi_orcamentoId i = k) I)"
    using keys old by (auto simp: select_def intro!: map_cong)
  then show ?thesis
    using new by (simp add: itens_of_def create_def select_def orc_item_row_def)
qed

lemma refs_ok_itemId_step:
  "refs_ok om_itemId M I \<Longrightarrow>
   refs_ok om_itemId (create_all (map (orc_mat_row (next_id I)) ms) M) (snd (create (orc_item_row j it) I))"
  by (rule refs_ok_child_create_all [OF refs_ok_parent_create])
     (simp_all add: list_all_iff orc_mat_row_def has_id_def create_def)

lemma mat_view_Nil [simp]: "mat_view [] = []"
  by (simp add: mat_view_def)

lemma mat_view_append [simp]: "mat_view (xs @ ys) = mat_view xs @ mat_view ys"
  by (simp add: mat_view_def)

lemma create_itens_view:
  "wf_table I \<Longrightarrow> refs_ok om_itemId M I \<Longrightarrow>
   mat_view (case_prod (itens_of k) (create_itens k its (I, M))) = mat_view (itens_of k I M) @ payload_view k its"
proof (induction its arbitrary: I M)
  case Nil
  then show ?case by (simp add: payload_view_def)
next
  case (Cons p its)
  obtain it ms where p: "p = (it, ms)" by (cases p)
  have IH: "mat_view (case_prod (itens_of k) (create_itens k its
              (snd (create (orc_item_row k it) I), create_all (map (orc_mat_row (next_id I)) ms) M))) =
            mat_view (itens_of k (snd (create (orc_item_row k it) I)) (create_all (map (orc_mat_row (next_id I)) ms) M)) @
            payload_view k its"
    using Cons.prems by (intro Cons.IH wf_create refs_ok_itemId_step)
  show ?case
    using IH by (simp add: p itens_of_step [OF Cons.prems] mat_view_def payload_view_def orc_mat_row_def)
qed

lemma create_itens_ok:
  assumes "wf_table I" "wf_table M" "refs_ok om_itemId M I" "refs_ok oi_orcamentoId I Q"
    "refs_ok om_materialId M Mt" "has_id Q k"
    "list_all (\<lambda>(_, ms). list_all (\<lambda>m. has_id Mt (omi_id m)) ms) its"
  shows "case create_itens k its (I, M) of (I', M') \<Rightarrow>
           wf_table I' \<and> wf_table M' \<and> refs_ok om_itemId M' I' \<and> refs_ok oi_orcamentoId I' Q \<and>
           refs_ok om_materialId M' Mt"
  using assms
proof (induction its arbitrary: I M)
  case Nil
  then show ?case by simp
next
  case (Cons p its)
  obtain it ms where p: "p = (it, ms)" by (cases p)
  have mats: "list_all (\<lambda>m. has_id Mt (om_materialId m)) (map (orc_mat_row (next_id I)) ms)"
    using Cons.prems(7) by (simp add: p list_all_iff orc_mat_row_def)
  show ?case
    unfolding p create_itens.simps
  proof (rule Cons.IH)
    show "refs_ok oi_orcamentoId (snd (create (orc_item_row k it) I)) Q"
      using Cons.prems(4,6) by (simp add: refs_ok_child_create orc_item_row_def)
    show "refs_ok om_materialId (create_all (map (orc_mat_row (next_id I)) ms) M) Mt"
      using Cons.prems(5) mats by (rule refs_ok_child_create_all)
  qed (use Cons.prems p in \<open>simp_all add: wf_create wf_create_all refs_ok_itemId_step\<close>)
qed

lemma db_ok_write_itens:
  assumes ok: "db_ok d" and k: "has_id (orcamentos d) k"
    and mats: "list_all (\<lambda>(_, ms). list_all (\<lambda>m. has_id (materials d) (omi_id m)) ms) its"
  shows "db_ok (write_itens k its d)"
proof -
  obtain I' M' where c: "create_itens k its (orcamento_items d, orcamento_materiais d) = (I', M')"
    by (cases "create_itens k its (orcamento_items d, orcamento_materiais d)")
  have "wf_table I' \<and> wf_table M' \<and> refs_ok om_itemId M' I' \<and> refs_ok oi_orcamentoId I' (orcamentos d) \<and>
        refs_ok om_materialId M' (materials d)"
    using create_itens_ok [of "orcamento_items d" "orcamento_materiais d" "orcamentos d" "materials d" k its] ok k mats c
    by (simp add: db_ok_def)
  then show ?thesis
    using ok by (simp add: write_itens_def c db_ok_def)
qed

lemma item_of_orcamento_materiais [simp]:
  "item_of_orcamento (d\<lparr>orcamento_materiais := ms\<rparr>) = item_of_orcamento d"
  by (simp add: item_of_orcamento_def fun_eq_iff)

lemma delete_orc_itens_cleared:
  "delete_orc_itens k (delete_orc_materiais k d) =
   Inr ((delete_orc_materiais k d)\<lparr>orcamento_items :=
          delete_many (\<lambda>_ i. oi_orcamentoId i = k) (orcamento_items d)\<rparr>)"
  by (auto simp: delete_orc_itens_def delete_orc_materiais_def delete_many_def list_ex_iff)

lemma db_ok_delete_orc_materiais: "db_ok d \<Longrightarrow> db_ok (delete_orc_materiais k d)"
  by (simp add: db_ok_def delete_orc_materiais_def delete_many_def wf_filter_rows refs_ok_child_filter)

lemma refs_ok_child_update_const:
  "refs_ok fk c p \<Longrightarrow> has_id p (fk v) \<Longrightarrow> update k (\<lambda>_. v) c = Inr c' \<Longrightarrow> refs_ok fk c' p"
  unfolding refs_ok_def update_def list_all_iff
  by (fastforce split: if_splits dest: in_map_vals_at)

lemma delete_orc_itens_InrD:
  "delete_orc_itens k d = Inr d' \<Longrightarrow>
   d' = (delete_orc_materiais k d)\<lparr>orcamento_items := delete_many (\<lambda>_ i. oi_orcamentoId i = k) (orcamento_items d)\<rparr>"
  by (simp add: delete_orc_itens_def Let_def split: if_splits)

lemma refs_ok_itens_cleared:
  assumes ok: "db_ok d"
  shows "refs_ok om_itemId (delete_many (\<lambda>_ m. item_of_orcamento d k (om_itemId m)) (orcamento_materiais d))
           (delete_many (\<lambda>_ i. oi_orcamentoId i = k) (orcamento_items d))"
  unfolding refs_ok_def list_all_iff
proof (intro ballI, clarify)
  fix a m
  assume "(a, m) \<in> set (rows (delete_many (\<lambda>_ m. item_of_orcamento d k (om_itemId m)) (orcamento_materiais d)))"
  then have m: "(a, m) \<in> set (rows (orcamento_materiais d))" and n: "\<not> item_of_orcamento d k (om_itemId m)"
    by (auto simp: delete_many_def)
  obtain i where i: "(om_itemId m, i) \<in> set (rows (orcamento_items d))"
    using ok m by (force simp: db_ok_def refs_ok_def list_all_iff has_id_def)
  then have "lookup (orcamento_items d) (om_itemId m) = Some i"
    using ok by (simp add: db_ok_def wf_table_def lookup_def)
  then have "oi_orcamentoId i \<noteq> k"
    using n by (simp add: item_of_orcamento_def)
  then show "has_id (delete_many (\<lambda>_ i. oi_orcamentoId i = k) (orcamento_items d)) (om_itemId m)"
    using i by (force simp: has_id_def delete_many_def)
qed

lemma db_ok_delete_orc_itens:
  assumes ok: "db_ok d" and del: "delete_orc_itens k d = Inr d'"
  shows "db_ok d'"
  using ok refs_ok_itens_cleared [OF ok, of k] unfolding delete_orc_itens_InrD [OF del]
  by (simp add: db_ok_def delete_orc_materiais_def wf_delete_many)
     (simp add: delete_many_def refs_ok_child_filter)

lemma db_ok_delete_orc_row:
  assumes ok: "db_ok d" and del: "delete_orc_row k d = Inr d'"
  shows "db_ok d'"
proof -
  obtain os d'' where os: "delete k (orcamentos d) = Inr os" and it: "delete_orc_itens k d = Inr d''"
    and d': "d' = d''\<lparr>orcamentos := os\<rparr>"
    using del by (auto simp: delete_orc_row_def Let_def split: sum.splits if_splits)
  have ok'': "db_ok d''"
    using ok it by (rule db_ok_delete_orc_itens)
  have os_eq: "os = (orcamentos d)\<lparr>rows := filter (\<lambda>(k', _). k' \<noteq> k) (rows (orcamentos d))\<rparr>"
    using os by (simp add: delete_InrD)
  have items: "orcamento_items d'' = delete_many (\<lambda>_ i. oi_orcamentoId i = k) (orcamento_items d)"
    using delete_orc_itens_InrD [OF it] by simp
  have "refs_ok oi_orcamentoId (orcamento_items d'') os"
    using ok refs_ok_parent_delete [of oi_orcamentoId "orcamento_items d" "orcamentos d" k]
    by (simp add: items os_eq db_ok_def delete_many_def)
  moreover have "refs_ok o_clienteId os (clientes d'')"
    using ok delete_orc_itens_InrD [OF it]
    by (simp add: os_eq db_ok_def refs_ok_child_filter delete_orc_materiais_def)
  moreover have "wf_table os"
    using ok by (simp add: db_ok_def wf_delete [OF _ os])
  ultimately show ?thesis
    using ok'' by (simp add: d' db_ok_def)
qed

lemma db_ok_orc_update_row:
  assumes ok: "db_ok d" and os: "update k (\<lambda>_. orc_row v dt) (orcamentos d) = Inr os"
    and c: "has_id (clientes d) (oin_clienteId v)"
  shows "db_ok (d\<lparr>orcamentos := os\<rparr>)"
  using ok c wf_update [OF _ os]
    refs_ok_child_update_const [OF _ _ os, of o_clienteId "clientes d"]
    refs_ok_parent_update [OF os, of oi_orcamentoId "orcamento_items d"]
  by (simp add: db_ok_def orc_row_def)

lemma db_ok_update_orcamento:
  assumes ok: "db_ok d" and upd: "update_orcamento k v its d = Inr d'"
  shows "db_ok d'"
proof -
  obtain dt os where dt: "oin_data v = Some dt" and os: "update k (\<lambda>_. orc_row v dt) (orcamentos d) = Inr os"
    and refs: "orc_refs_exist d v its" and d': "d' = write_itens k its (d\<lparr>orcamentos := os\<rparr>)"
    using upd by (auto simp: update_orcamento_def split: option.splits sum.splits if_splits)
  have "db_ok (d\<lparr>orcamentos := os\<rparr>)"
    using refs by (simp add: db_ok_orc_update_row [OF ok os] orc_refs_exist_def)
  moreover have "has_id os k"
    using os by (auto dest: update_InrD simp: has_id_def)
  ultimately show ?thesis
    using refs by (simp add: d' db_ok_write_itens orc_refs_exist_def)
qed

lemma db_ok_create_orcamento:
  assumes ok: "db_ok d" and cr: "create_orcamento v its d = Inr (k, d')"
  shows "db_ok d'"
proof -
  obtain dt where dt: "oin_data v = Some dt" and refs: "orc_refs_exist d v its"
    and k: "k = next_id (orcamentos d)"
    and d': "d' = write_itens k its (d\<lparr>orcamentos := snd (create (orc_row v dt) (orcamentos d))\<rparr>)"
    using cr by (auto simp: create_orcamento_def create_def split: option.splits if_splits)
  have "db_ok (d\<lparr>orcamentos := snd (create (orc_row v dt) (orcamentos d))\<rparr>)"
    using ok refs by (simp add: db_ok_def orc_refs_exist_def orc_row_def wf_create
        refs_ok_child_create refs_ok_parent_create)
  then show ?thesis
    using refs has_id_create_new [of "orc_row v dt" "orcamentos d"]
    by (simp add: d' k db_ok_write_itens orc_refs_exist_def)
qed

lemma write_itens_frame:
  "write_itens k its d =
     d\<lparr>orcamento_items := fst (create_itens k its (orcamento_items d, orcamento_materiais d)),
       orcamento_materiais := snd (create_itens k its (orcamento_items d, orcamento_materiais d))\<rparr>"
  by (simp add: write_itens_def split: prod.splits)

lemma itens_of_cleared: "itens_of k (delete_many (\<lambda>_ i. oi_orcamentoId i = k) I) M = []"
  by (simp add: itens_of_def select_def delete_many_def filter_filter case_prod_unfold)

lemma itens_of_absent: "refs_ok oi_orcamentoId I Q \<Longrightarrow> \<not> has_id Q k \<Longrightarrow> itens_of k I M = []"
  by (force simp: itens_of_def select_def refs_ok_def list_all_iff filter_empty_conv)

lemma write_itens_view:
  assumes "db_ok d"
  shows "mat_view (itens_view k (write_itens k its d)) = mat_view (itens_view k d) @ payload_view k its"
  using assms create_itens_view [of "orcamento_items d" "orcamento_materiais d" k its]
  by (simp add: write_itens_frame itens_view_def db_ok_def case_prod_unfold)

lemma lookup_write_itens [simp]: "orcamentos (write_itens k its d) = orcamentos d"
  by (simp add: write_itens_frame)

lemma orc_refs_exist_itens [simp]:
  "orc_refs_exist (d\<lparr>orcamento_materiais := M\<rparr>) v its = orc_refs_exist d v its"
  "orc_refs_exist (d\<lparr>orcamento_items := I\<rparr>) v its = orc_refs_exist d v its"
  by (simp_all add: orc_refs_exist_def)

text \<open>The state after the two \<open>deleteMany\<close> calls of \<open>PUT\<close> and \<open>DELETE\<close>.\<close>

lemma orc_cleared_ok:
  "db_ok d \<Longrightarrow>
   db_ok ((delete_orc_materiais k d)\<lparr>orcamento_items := delete_many (\<lambda>_ i. oi_orcamentoId i = k) (orcamento_items d)\<rparr>)"
  by (rule db_ok_delete_orc_itens [OF db_ok_delete_orc_materiais delete_orc_itens_cleared]) 

text \<open>
  C7. Quote update replaces the item set (spec section 4.3 and the invariant of section 5):
  on a consistent database, a \<open>PUT\<close> on an existing quote with a complete payload answers
  with exactly what a following \<open>GET\<close> returns, the quote row is the payload's, and its
  items with their materials are exactly the payload's items, in order, with no leftover
  row of the previous version.
\<close>

theorem orcamento_put_replaces:
  assumes ok: "db_ok d" and k: "lookup (orcamentos d) k \<noteq> None"
    and its: "build_itens v = Some its" and dt: "oin_data v = Some dt" and refs: "orc_refs_exist d v its"
  shows "case orcamento_put k v d of (r, d') \<Rightarrow>
           r = orcamento_get k d' \<and> (\<exists>xs. r = Json (k, orc_row v dt, xs) \<and> mat_view xs = payload_view k its)"
proof -
  define d2 where "d2 = (delete_orc_materiais k d)\<lparr>orcamento_items :=
                          delete_many (\<lambda>_ i. oi_orcamentoId i = k) (orcamento_items d)\<rparr>"
  have ok2: "db_ok d2"
    unfolding d2_def using ok by (rule orc_cleared_ok)
  have empty: "itens_view k d2 = []"
    by (simp add: d2_def itens_view_def delete_orc_materiais_def itens_of_cleared)
  have o2: "orcamentos d2 = orcamentos d"
    by (simp add: d2_def delete_orc_materiais_def)
  obtain os where os: "update k (\<lambda>_. orc_row v dt) (orcamentos d) = Inr os"
    using k update_iff [of k "\<lambda>_. orc_row v dt" "orcamentos d"] by auto
  have q: "lookup os k = Some (orc_row v dt)"
    using lookup_update [OF os] k by auto
  have "orc_refs_exist d2 v its"
    using refs by (simp add: d2_def delete_orc_materiais_def)
  then have upd: "update_orcamento k v its d2 = Inr (write_itens k its (d2\<lparr>orcamentos := os\<rparr>))"
    by (simp add: update_orcamento_def dt os o2)
  have ok3: "db_ok (d2\<lparr>orcamentos := os\<rparr>)"
    using refs os o2 db_ok_orc_update_row [OF ok2, of k v dt os]
    by (simp add: orc_refs_exist_def d2_def delete_orc_materiais_def)
  have "mat_view (itens_view k (write_itens k its (d2\<lparr>orcamentos := os\<rparr>))) = payload_view k its"
    using write_itens_view [OF ok3, of k its] empty by (simp add: itens_view_def)
  then show ?thesis
    using q by (simp add: orcamento_put_def delete_orc_itens_cleared its upd orcamento_get_def
        flip: d2_def)
qed

lemma db_ok_orc_create_row:
  "db_ok d \<Longrightarrow> has_id (clientes d) (oin_clienteId v) \<Longrightarrow>
   db_ok (d\<lparr>orcamentos := snd (create (orc_row v dt) (orcamentos d))\<rparr>)"
  by (simp add: db_ok_def orc_row_def wf_create refs_ok_child_create refs_ok_parent_create)

text \<open>
  C8. Quote creation: a complete payload whose client and materials exist creates the quote
  under the next id; the response is what \<open>GET\<close> on that id returns, and its items and
  materials are exactly the payload's.
\<close>

theorem orcamento_post_creates:
  assumes ok: "db_ok d" and its: "build_itens v = Some its" and dt: "oin_data v = Some dt"
    and refs: "orc_refs_exist d v its"
  shows "case orcamento_post v d of (r, d') \<Rightarrow>
           r = orcamento_get (next_id (orcamentos d)) d' \<and>
           (\<exists>xs. r = Json (next_id (orcamentos d), orc_row v dt, xs) \<and>
                 mat_view xs = payload_view (next_id (orcamentos d)) its)"
proof -
  define k where "k = next_id (orcamentos d)"
  define d1 where "d1 = d\<lparr>orcamentos := snd (create (orc_row v dt) (orcamentos d))\<rparr>"
  have cr: "create_orcamento v its d = Inr (k, write_itens k its d1)"
    using refs by (simp add: create_orcamento_def dt create_def k_def d1_def)
  have ok1: "db_ok d1"
    using ok refs by (simp add: d1_def db_ok_orc_create_row orc_refs_exist_def)
  have "\<not> has_id (orcamentos d) k"
    using ok has_id_lt_next [of "orcamentos d" k] by (auto simp: k_def db_ok_def)
  then have empty: "itens_view k d1 = []"
    using ok itens_of_absent [of "orcamento_items d" "orcamentos d" k]
    by (simp add: itens_view_def d1_def db_ok_def)
  have q: "lookup (orcamentos d1) k = Some (orc_row v dt)"
    using ok lookup_create [of "orcamentos d" "orc_row v dt"] by (simp add: d1_def k_def db_ok_def)
  have "mat_view (itens_view k (write_itens k its d1)) = payload_view k its"
    using write_itens_view [OF ok1, of k its] empty by simp
  then show ?thesis
    using q by (simp add: orcamento_post_def its cr orcamento_get_def flip: k_def)
qed

text \<open>
  C9. A \<open>PUT\<close> whose body has no \<open>itens\<close> array (the quote form sends \<open>items\<close>)
  answers 500 after the two \<open>deleteMany\<close> calls have committed: the quote is left in place
  with no items at all. The spec requires the update to be all-or-nothing.
\<close>

theorem orcamento_put_without_itens:
  assumes "build_itens v = None"
  shows "case orcamento_put k v d of (r, d') \<Rightarrow>
           r = ErrorJson 500 ''Internal Server Error'' \<and> itens_view k d' = [] \<and> orcamentos d' = orcamentos d"
  using assms unfolding orcamento_put_def Let_def delete_orc_itens_cleared
  by (simp add: itens_view_def delete_orc_materiais_def itens_of_cleared)

text \<open>
  C10. A quote \<open>POST\<close> fails with 500 and leaves the database unchanged exactly when the
  body has no \<open>itens\<close> (or an item has no \<open>materiais\<close>), the date is missing, or the
  client or a material does not exist.
\<close>

theorem orcamento_post_rejects:
  "orcamento_post v d = (ErrorJson 500 ''Internal Server Error'', d) \<longleftrightarrow>
   (case build_itens v of None \<Rightarrow> True | Some its \<Rightarrow> oin_data v = None \<or> \<not> orc_refs_exist d v its)"
  by (auto simp: orcamento_post_def create_orcamento_def write_itens_frame create_def lookup_def
      map_of_eq_None_iff split: option.splits sum.splits prod.splits)

lemma delete_many_none: "list_all (\<lambda>(k, v). \<not> P k v) (rows t) \<Longrightarrow> delete_many P t = t"
  by (simp add: delete_many_def list_all_iff case_prod_unfold)

lemma delete_many_idem [simp]: "delete_many P (delete_many P t) = delete_many P t"
  by (simp add: delete_many_def)

lemma item_of_orcamentoD:
  "item_of_orcamento d k ik \<Longrightarrow> \<exists>i. (ik, i) \<in> set (rows (orcamento_items d)) \<and> oi_orcamentoId i = k"
  by (auto simp: item_of_orcamento_def lookup_def split: option.splits dest: map_of_SomeD)

lemma orc_cleared_absent:
  assumes ok: "db_ok d" and k: "\<not> has_id (orcamentos d) k"
  shows "(delete_orc_materiais k d)\<lparr>orcamento_items := delete_many (\<lambda>_ i. oi_orcamentoId i = k) (orcamento_items d)\<rparr> = d"
proof -
  have items: "list_all (\<lambda>(_, i). \<not> oi_orcamentoId i = k) (rows (orcamento_items d))"
    using ok k by (auto simp: db_ok_def refs_ok_def list_all_iff)
  then have "\<not> item_of_orcamento d k ik" for ik
    by (auto simp: list_all_iff dest!: item_of_orcamentoD)
  then show ?thesis
    using items by (simp add: delete_orc_materiais_def delete_many_none list_all_iff case_prod_unfold)
qed

lemma orc_cleared_again:
  "delete_orc_itens k ((delete_orc_materiais k d)\<lparr>orcamento_items := delete_many (\<lambda>_ i. oi_orcamentoId i = k) (orcamento_items d)\<rparr>) =
   Inr ((delete_orc_materiais k d)\<lparr>orcamento_items := delete_many (\<lambda>_ i. oi_orcamentoId i = k) (orcamento_items d)\<rparr>)"
  (is "delete_orc_itens k ?d2 = Inr ?d2")
proof -
  have "\<not> item_of_orcamento ?d2 k ik" for ik
    by (auto simp: delete_many_def dest!: item_of_orcamentoD)
  then show ?thesis
    by (simp add: delete_orc_itens_def delete_orc_materiais_def delete_many_none list_all_iff
        list_ex_iff case_prod_unfold)
qed

lemma db_ok_orcamento_post: "db_ok d \<Longrightarrow> db_ok (snd (orcamento_post v d))"
  by (auto simp: orcamento_post_def dest: db_ok_create_orcamento split: option.splits sum.splits)

lemma db_ok_orcamento_put:
  assumes ok: "db_ok d"
  shows "db_ok (snd (orcamento_put k v d))"
proof -
  define d1 where "d1 = delete_orc_materiais k d"
  have ok1: "db_ok d1"
    unfolding d1_def using ok by (rule db_ok_delete_orc_materiais)
  have "snd (orcamento_put k v d) = d1 \<or>
        (\<exists>d2. db_ok d2 \<and> (snd (orcamento_put k v d) = d2 \<or>
                             (\<exists>its. update_orcamento k v its d2 = Inr (snd (orcamento_put k v d)))))"
    using ok1 db_ok_delete_orc_itens [OF ok1]
    unfolding orcamento_put_def Let_def d1_def [symmetric]
    by (fastforce split: option.splits sum.splits)
  then show ?thesis
    using ok1 by (auto dest: db_ok_update_orcamento)
qed

lemma db_ok_orcamento_delete:
  assumes ok: "db_ok d"
  shows "db_ok (snd (orcamento_delete k d))"
proof -
  define d2 where "d2 = (delete_orc_materiais k d)\<lparr>orcamento_items :=
                          delete_many (\<lambda>_ i. oi_orcamentoId i = k) (orcamento_items d)\<rparr>"
  have "snd (orcamento_delete k d) = d2 \<or> delete_orc_row k d2 = Inr (snd (orcamento_delete k d))"
    unfolding orcamento_delete_def Let_def delete_orc_itens_cleared d2_def [symmetric]
    by (auto split: sum.splits)
  moreover have "db_ok d2"
    unfolding d2_def using ok by (rule orc_cleared_ok)
  ultimately show ?thesis
    by (auto dest: db_ok_delete_orc_row)
qed

text \<open>
  C12. A quote id that does not exist: \<open>GET\<close> answers 404, but \<open>PUT\<close> and \<open>DELETE\<close>
  answer 500 (Prisma's \<open>RecordNotFound\<close> caught as an internal error) where the spec
  prescribes 404; the database is unchanged.
\<close>

theorem orcamento_missing_id:
  assumes ok: "db_ok d" and k: "lookup (orcamentos d) k = None"
  shows "orcamento_delete k d = (ErrorJson 500 ''Internal Server Error'', d) \<and>
         orcamento_put k v d = (ErrorJson 500 ''Internal Server Error'', d) \<and>
         orcamento_get k d = ErrorJson 404 msg_orc_not_found"
proof -
  have nk: "\<not> has_id (orcamentos d) k"
    using k by (simp add: has_id_lookup)
  have row: "delete_orc_row k d = Inl RecordNotFound"
    using nk by (simp add: delete_orc_row_def delete_def)
  have upd: "update_orcamento k v its d \<noteq> Inr d'" for its d'
    using nk by (cases "oin_data v") (simp_all add: update_orcamento_def update_def)
  have "orcamento_delete k d = (ErrorJson 500 ''Internal Server Error'', d)"
    unfolding orcamento_delete_def Let_def delete_orc_itens_cleared orc_cleared_absent [OF ok nk]
    by (simp add: row)
  moreover have "orcamento_put k v d = (ErrorJson 500 ''Internal Server Error'', d)"
    unfolding orcamento_put_def Let_def delete_orc_itens_cleared orc_cleared_absent [OF ok nk]
    by (auto simp: upd split: option.splits sum.splits)
  moreover have "orcamento_get k d = ErrorJson 404 msg_orc_not_found"
    using k by (simp add: orcamento_get_def)
  ultimately show ?thesis by blast
qed

lemma itens_view_other:
  assumes ok: "db_ok d" and jk: "j \<noteq> k"
  shows "itens_view j ((delete_orc_materiais k d)\<lparr>orcamento_items :=
                          delete_many (\<lambda>_ i. oi_orcamentoId i = k) (orcamento_items d)\<rparr>) = itens_view j d"
proof -
  have dist: "distinct (map fst (rows (orcamento_items d)))"
    using ok by (simp add: db_ok_def wf_table_def)
  have items: "filter (\<lambda>(_, i). oi_orcamentoId i = j) (filter (\<lambda>(_, i). oi_orcamentoId i \<noteq> k) (rows (orcamento_items d))) =
               filter (\<lambda>(_, i). oi_orcamentoId i = j) (rows (orcamento_items d))"
    using jk by (auto simp: filter_filter intro!: filter_cong)
  have mats: "filter (\<lambda>(_, m). om_itemId m = ik)
                (filter (\<lambda>(_, m). \<not> item_of_orcamento d k (om_itemId m)) (rows (orcamento_materiais d))) =
              filter (\<lambda>(_, m). om_itemId m = ik) (rows (orcamento_materiais d))"
    if "(ik, i) \<in> set (rows (orcamento_items d))" "oi_orcamentoId i = j" for ik i
  proof -
    have "\<not> item_of_orcamento d k ik"
      using that jk dist by (auto dest!: item_of_orcamentoD dest: eq_key_imp_eq_value)
    then show ?thesis by (auto simp: filter_filter intro!: filter_cong)
  qed
  show ?thesis
    unfolding itens_view_def itens_of_def select_def delete_orc_materiais_def delete_many_def
    using items mats by (auto intro!: map_cong)
qed

text \<open>
  C11. Deleting an existing quote answers 204, removes exactly that quote (a later \<open>GET\<close>
  answers 404) with its items and materials, and leaves every other quote's items and
  materials as they were.
\<close>

theorem orcamento_delete_removes:
  assumes ok: "db_ok d" and k: "lookup (orcamentos d) k \<noteq> None"
  shows "case orcamento_delete k d of (r, d') \<Rightarrow>
           r = NoContent \<and> lookup (orcamentos d') = (lookup (orcamentos d))(k := None) \<and>
           orcamento_get k d' = ErrorJson 404 msg_orc_not_found \<and>
           (\<forall>j. j \<noteq> k \<longrightarrow> itens_view j d' = itens_view j d)"
proof -
  define d2 where "d2 = (delete_orc_materiais k d)\<lparr>orcamento_items :=
                          delete_many (\<lambda>_ i. oi_orcamentoId i = k) (orcamento_items d)\<rparr>"
  obtain os where os: "delete k (orcamentos d) = Inr os"
    using k delete_iff [of k "orcamentos d"] by auto
  have wf: "wf_table (orcamentos d)"
    using ok by (simp add: db_ok_def)
  have unref: "\<not> list_ex (\<lambda>(_, i). oi_orcamentoId i = k) (rows (orcamento_items d2))"
    by (auto simp: d2_def delete_many_def list_ex_iff)
  have again: "delete_orc_itens k d2 = Inr d2"
    unfolding d2_def by (rule orc_cleared_again)
  have o2: "orcamentos d2 = orcamentos d"
    by (simp add: d2_def delete_orc_materiais_def)
  have row: "delete_orc_row k d2 = Inr (d2\<lparr>orcamentos := os\<rparr>)"
    using unref by (simp add: delete_orc_row_def o2 os again Let_def)
  have del: "orcamento_delete k d = (NoContent, d2\<lparr>orcamentos := os\<rparr>)"
    unfolding orcamento_delete_def Let_def delete_orc_itens_cleared d2_def [symmetric]
    by (simp add: row)
  have lk: "lookup os = (lookup (orcamentos d))(k := None)"
    using lookup_delete [OF wf os] .
  have "itens_view j (d2\<lparr>orcamentos := os\<rparr>) = itens_view j d" if "j \<noteq> k" for j
    using itens_view_other [OF ok that] by (simp add: d2_def itens_view_def)
  then show ?thesis
    using lk by (simp add: del orcamento_get_def)
qed

lemma create_orcamento_stock:
  "create_orcamento v its d = Inr (k, d') \<Longrightarrow> materials d' = materials d \<and> produtos d' = produtos d"
  by (auto simp: create_orcamento_def write_itens_frame create_def split: option.splits if_splits)

lemma update_orcamento_stock:
  "update_orcamento k v its d = Inr d' \<Longrightarrow> materials d' = materials d \<and> produtos d' = produtos d"
  by (auto simp: update_orcamento_def write_itens_frame split: option.splits sum.splits if_splits)

lemma delete_orc_row_stock:
  "delete_orc_row k d = Inr d' \<Longrightarrow> materials d' = materials d \<and> produtos d' = produtos d"
  by (auto simp: delete_orc_row_def Let_def delete_orc_materiais_def
      dest!: delete_orc_itens_InrD split: sum.splits if_splits)

text \<open>
  C13. Quotes never touch stock (spec section 4.3): no quote handler changes the material or
  product tables.
\<close>

theorem orcamento_handlers_keep_stock:
  "materials (snd (orcamento_post v d)) = materials d \<and> produtos (snd (orcamento_post v d)) = produtos d \<and>
   materials (snd (orcamento_put k v d)) = materials d \<and> produtos (snd (orcamento_put k v d)) = produtos d \<and>
   materials (snd (orcamento_delete k d)) = materials d \<and> produtos (snd (orcamento_delete k d)) = produtos d"
  unfolding orcamento_post_def orcamento_put_def orcamento_delete_def Let_def delete_orc_itens_cleared
  by (auto simp: delete_orc_materiais_def dest!: create_orcamento_stock update_orcamento_stock
      delete_orc_row_stock split: option.splits sum.splits prod.splits)

text \<open>
  The quote handlers \<open>POST\<close>, \<open>PUT\<close> and \<open>DELETE\<close> keep the integrity invariant
  \<open>db_ok\<close> on every path, the error paths with their partial effects included.
\<close>

lemma orcamento_handlers_preserve_db_ok:
  assumes "db_ok d"
  shows "db_ok (snd (orcamento_post v d)) \<and> db_ok (snd (orcamento_put k v d)) \<and>
         db_ok (snd (orcamento_delete k d))"
  using assms by (simp add: db_ok_orcamento_post db_ok_orcamento_put db_ok_orcamento_delete)

section \<open>The example, evaluated\<close>

lemmas orc_demo_defs = demo_orc_cliente_def demo_orc_material_def demo_quote_db_def demo_mat_in_def
  demo_item_in_def demo_item_in2_def demo_quote_in_def

lemma demo_quote_db_ok: "db_ok (demo_quote_db a)"
  by (simp add: demo_quote_db_def db_ok_def empty_db_def wf_table_def refs_ok_def empty_table_def)

lemma demo_quoted_eval:
  "demo_quoted a = (demo_quote_db a)\<lparr>
     orcamentos := \<lparr>rows = [(0, orc_row (demo_quote_in (Some [demo_item_in])) 0)], next_id = 1\<rparr>,
     orcamento_items := \<lparr>rows = [(0, orc_item_row 0 demo_item_in)], next_id = 1\<rparr>,
     orcamento_materiais := \<lparr>rows = [(0, orc_mat_row 0 demo_mat_in)], next_id = 1\<rparr>\<rparr>"
  by (simp add: demo_quoted_def orcamento_post_def build_itens_def create_orcamento_def
      orc_refs_exist_def write_itens_def create_def lookup_def has_id_def orc_demo_defs
      empty_db_def empty_table_def)

lemma demo_quoted_ok: "db_ok (demo_quoted a)"
  unfolding demo_quoted_def by (rule db_ok_orcamento_post [OF demo_quote_db_ok])

lemma demo_build_itens:
  "build_itens (demo_quote_in (Some [demo_item_in, demo_item_in2])) =
     Some [(demo_item_in, [demo_mat_in]), (demo_item_in2, [])]"
  "build_itens (demo_quote_in None) = None"
  by (simp_all add: build_itens_def orc_demo_defs)

lemma demo_refs_exist:
  "orc_refs_exist (demo_quote_db a) (demo_quote_in its) [(demo_item_in, [demo_mat_in]), (demo_item_in2, [])]"
  "orc_refs_exist (demo_quoted a) (demo_quote_in its) [(demo_item_in, [demo_mat_in]), (demo_item_in2, [])]"
  by (simp_all add: demo_quoted_eval orc_refs_exist_def has_id_def orc_demo_defs)

theorem orcamento_put_replaces_witness:
  "case orcamento_put 0 (demo_quote_in (Some [demo_item_in, demo_item_in2])) (demo_quoted Restrict) of
     (r, d') \<Rightarrow> r = orcamento_get 0 d' \<and>
       (\<exists>xs. r = Json (0, orc_row (demo_quote_in (Some [demo_item_in, demo_item_in2])) 0, xs) \<and>
             mat_view xs = [(orc_item_row 0 demo_item_in, [(0, 3)]), (orc_item_row 0 demo_item_in2, [])])"
proof -
  have lk: "lookup (orcamentos (demo_quoted Restrict)) 0 \<noteq> None"
    by (simp add: demo_quoted_eval lookup_def)
  have dt: "oin_data (demo_quote_in (Some [demo_item_in, demo_item_in2])) = Some 0"
    by (simp add: demo_quote_in_def)
  have pv: "payload_view 0 [(demo_item_in, [demo_mat_in]), (demo_item_in2, [])] =
            [(orc_item_row 0 demo_item_in, [(0, 3)]), (orc_item_row 0 demo_item_in2, [])]"
    by (simp add: payload_view_def demo_mat_in_def)
  have "case orcamento_put 0 (demo_quote_in (Some [demo_item_in, demo_item_in2])) (demo_quoted Restrict) of
     (r, d') \<Rightarrow> r = orcamento_get 0 d' \<and>
       (\<exists>xs. r = Json (0, orc_row (demo_quote_in (Some [demo_item_in, demo_item_in2])) 0, xs) \<and>
             mat_view xs = payload_view 0 [(demo_item_in, [demo_mat_in]), (demo_item_in2, [])])"
    by (rule orcamento_put_replaces [OF demo_quoted_ok lk demo_build_itens(1) dt demo_refs_exist(2)])
  then show ?thesis
    by (simp only: pv)
qed

theorem orcamento_post_creates_witness:
  "case orcamento_post (demo_quote_in (Some [demo_item_in, demo_item_in2])) (demo_quote_db Cascade) of
     (r, d') \<Rightarrow> r = orcamento_get 0 d' \<and>
       (\<exists>xs. r = Json (0, orc_row (demo_quote_in (Some [demo_item_in, demo_item_in2])) 0, xs) \<and>
             mat_view xs = [(orc_item_row 0 demo_item_in, [(0, 3)]), (orc_item_row 0 demo_item_in2, [])])"
proof -
  have nid: "next_id (orcamentos (demo_quote_db Cascade)) = 0"
    by (simp add: demo_quote_db_def empty_db_def empty_table_def)
  have dt: "oin_data (demo_quote_in (Some [demo_item_in, demo_item_in2])) = Some 0"
    by (simp add: demo_quote_in_def)
  have pv: "payload_view 0 [(demo_item_in, [demo_mat_in]), (demo_item_in2, [])] =
            [(orc_item_row 0 demo_item_in, [(0, 3)]), (orc_item_row 0 demo_item_in2, [])]"
    by (simp add: payload_view_def demo_mat_in_def)
  have "case orcamento_post (demo_quote_in (Some [demo_item_in, demo_item_in2])) (demo_quote_db Cascade) of
     (r, d') \<Rightarrow> r = orcamento_get (next_id (orcamentos (demo_quote_db Cascade))) d' \<and>
       (\<exists>xs. r = Json (next_id (orcamentos (demo_quote_db Cascade)),
                      orc_row (demo_quote_in (Some [demo_item_in, demo_item_in2])) 0, xs) \<and>
             mat_view xs = payload_view (next_id (orcamentos (demo_quote_db Cascade)))
                             [(demo_item_in, [demo_mat_in]), (demo_item_in2, [])])"
    by (rule orcamento_post_creates [OF demo_quote_db_ok demo_build_itens(1) dt demo_refs_exist(1)])
  then show ?thesis
    by (simp only: nid pv)
qed

theorem orcamento_put_without_itens_witness:
  "itens_view 0 (demo_quoted Restrict) \<noteq> [] \<and>
   (case orcamento_put 0 (demo_quote_in None) (demo_quoted Restrict) of
      (r, d') \<Rightarrow> r = ErrorJson 500 ''Internal Server Error'' \<and> itens_view 0 d' = [] \<and>
                 orcamentos d' = orcamentos (demo_quoted Restrict))"
proof
  show "itens_view 0 (demo_quoted Restrict) \<noteq> []"
    by (simp add: demo_quoted_eval itens_view_def itens_of_def select_def orc_item_row_def)
  show "case orcamento_put 0 (demo_quote_in None) (demo_quoted Restrict) of
      (r, d') \<Rightarrow> r = ErrorJson 500 ''Internal Server Error'' \<and> itens_view 0 d' = [] \<and>
                 orcamentos d' = orcamentos (demo_quoted Restrict)"
    using demo_build_itens(2) by (rule orcamento_put_without_itens)
qed

theorem orcamento_post_rejects_witness:
  "orcamento_post (demo_quote_in None) (demo_quote_db Restrict) =
     (ErrorJson 500 ''Internal Server Error'', demo_quote_db Restrict) \<and>
   orcamento_post (demo_quote_in (Some [demo_item_in])) (empty_db Restrict) =
     (ErrorJson 500 ''Internal Server Error'', empty_db Restrict)"
proof
  show "orcamento_post (demo_quote_in None) (demo_quote_db Restrict) =
     (ErrorJson 500 ''Internal Server Error'', demo_quote_db Restrict)"
    using orcamento_post_rejects [of "demo_quote_in None" "demo_quote_db Restrict"]
    by (simp add: demo_build_itens(2))
  have "build_itens (demo_quote_in (Some [demo_item_in])) = Some [(demo_item_in, [demo_mat_in])]"
    by (simp add: build_itens_def orc_demo_defs)
  moreover have "\<not> orc_refs_exist (empty_db Restrict) (demo_quote_in (Some [demo_item_in])) [(demo_item_in, [demo_mat_in])]"
    by (simp add: orc_refs_exist_def empty_db_def empty_table_def has_id_def)
  ultimately show "orcamento_post (demo_quote_in (Some [demo_item_in])) (empty_db Restrict) =
     (ErrorJson 500 ''Internal Server Error'', empty_db Restrict)"
    using orcamento_post_rejects [of "demo_quote_in (Some [demo_item_in])" "empty_db Restrict"]
    by simp
qed

theorem orcamento_delete_removes_witness:
  "case orcamento_delete 0 (demo_quoted Restrict) of (r, d') \<Rightarrow>
     r = NoContent \<and> lookup (orcamentos d') = (lookup (orcamentos (demo_quoted Restrict)))(0 := None) \<and>
     orcamento_get 0 d' = ErrorJson 404 msg_orc_not_found \<and>
     (\<forall>j. j \<noteq> 0 \<longrightarrow> itens_view j d' = itens_view j (demo_quoted Restrict))"
proof -
  have "lookup (orcamentos (demo_quoted Restrict)) 0 \<noteq> None"
    by (simp add: demo_quoted_eval lookup_def)
  then show ?thesis
    by (rule orcamento_delete_removes [OF demo_quoted_ok])
qed

theorem orcamento_missing_id_witness:
  "orcamento_delete 1 (demo_quoted Restrict) = (ErrorJson 500 ''Internal Server Error'', demo_quoted Restrict) \<and>
   orcamento_put 1 (demo_quote_in (Some [demo_item_in])) (demo_quoted Restrict) =
     (ErrorJson 500 ''Internal Server Error'', demo_quoted Restrict) \<and>
   orcamento_get 1 (demo_quoted Restrict) = ErrorJson 404 msg_orc_not_found"
proof -
  have "lookup (orcamentos (demo_quoted Restrict)) 1 = None"
    by (simp add: demo_quoted_eval lookup_def)
  then show ?thesis
    by (rule orcamento_missing_id [OF demo_quoted_ok])
qed

end
