(* ===== verification/Crud.thy ===== *)
theory Crud
  imports Entities "HOL-Library.List_Lexorder" "HOL-Library.Char_ord"
begin

text \<open>
  The CRUD resources: \<open>src/src/app/api/clientes\<close>, \<open>materials\<close>, \<open>produtos\<close> and
  \<open>vendedores\<close>, each a \<open>route.ts\<close> (\<open>GET\<close> the list ordered by name, \<open>POST\<close>) and an
  \<open>[id]/route.ts\<close> (\<open>GET\<close>, \<open>PUT\<close>, \<open>DELETE\<close>). The handlers pass the body to a single
  Prisma call and map any exception to 500; only \<open>GET\<close> by id answers 404. The client
  \<open>[id]\<close> handlers pass the path segment unparsed as the client's \<open>Int\<close> id, which
  Prisma refuses, so they answer 500 whatever the id. Deleting a
  client, material, product or seller meets the rows that refer to it: under
  \<open>Restrict\<close> the delete fails, under \<open>Cascade\<close> it takes them along (a sale with its
  line items, a quote with its items and their material rows).
\<close>

section \<open>Generic handlers over one table\<close>

text \<open>\<open>prisma.m.create({data})\<close> returns the new row with its id.\<close>

definition crud_post :: "'v \<Rightarrow> 'v table \<Rightarrow> (ident \<times> 'v) resp \<times> 'v table" where
  "crud_post v t = (Json (next_id t, v), snd (create v t))"

text \<open>\<open>findUnique\<close>, then 404 with the resource's message when it returns \<open>null\<close>.\<close>

definition crud_get :: "string \<Rightarrow> ident \<Rightarrow> 'v table \<Rightarrow> (ident \<times> 'v) resp" where
  "crud_get msg k t = (case find_unique t k of None \<Rightarrow> ErrorJson 404 msg | Some r \<Rightarrow> Json (k, r))"

text \<open>
  \<open>prisma.m.update({where: {id}, data})\<close> with every field of the row given: the row is
  replaced and returned; a missing id throws, caught as 500.
\<close>

definition crud_put :: "string \<Rightarrow> ident \<Rightarrow> 'v \<Rightarrow> 'v table \<Rightarrow> (ident \<times> 'v) resp \<times> 'v table" where
  "crud_put msg k v t =
     (case update k (\<lambda>_. v) t of
        Inl _ \<Rightarrow> (ErrorJson 500 msg, t)
      | Inr t' \<Rightarrow> (case lookup t' k of None \<Rightarrow> (ErrorJson 500 msg, t) | Some r \<Rightarrow> (Json (k, r), t')))"

section \<open>Referential actions of a delete\<close>

text \<open>
  Removing sales selected by a predicate together with their line items, and quotes
  together with their items and those items' material rows (the \<open>Cascade\<close> chain of the
  schema's relations).
\<close>

definition venda_matches :: "db \<Rightarrow> (venda \<Rightarrow> bool) \<Rightarrow> ident \<Rightarrow> bool" where
  "venda_matches d P vk = (case lookup (vendas d) vk of None \<Rightarrow> False | Some v \<Rightarrow> P v)"

definition drop_vendas :: "(venda \<Rightarrow> bool) \<Rightarrow> db \<Rightarrow> db" where
  "drop_vendas P d =
     d\<lparr>vendas := delete_many (\<lambda>_ v. P v) (vendas d),
       venda_items := delete_many (\<lambda>_ i. venda_matches d P (vi_vendaId i)) (venda_items d)\<rparr>"

definition orc_matches :: "db \<Rightarrow> (orcamento \<Rightarrow> bool) \<Rightarrow> ident \<Rightarrow> bool" where
  "orc_matches d P qk = (case lookup (orcamentos d) qk of None \<Rightarrow> False | Some q \<Rightarrow> P q)"

definition item_matches :: "db \<Rightarrow> (orcamento \<Rightarrow> bool) \<Rightarrow> ident \<Rightarrow> bool" where
  "item_matches d P ik =
     (case lookup (orcamento_items d) ik of None \<Rightarrow> False | Some i \<Rightarrow> orc_matches d P (oi_orcamentoId i))"

definition drop_orcamentos :: "(orcamento \<Rightarrow> bool) \<Rightarrow> db \<Rightarrow> db" where
  "drop_orcamentos P d =
     d\<lparr>orcamentos := delete_many (\<lambda>_ q. P q) (orcamentos d),
       orcamento_items := delete_many (\<lambda>_ i. orc_matches d P (oi_orcamentoId i)) (orcamento_items d),
       orcamento_materiais :=
         delete_many (\<lambda>_ m. item_matches d P (om_itemId m)) (orcamento_materiais d)\<rparr>"

text \<open>\<open>prisma.cliente.delete\<close>: sales and quotes refer to a client.\<close>

definition delete_cliente_row :: "ident \<Rightarrow> db \<Rightarrow> store_error + db" where
  "delete_cliente_row k d =
     (case delete k (clientes d) of
        Inl e \<Rightarrow> Inl e
      | Inr cs \<Rightarrow>
          (if on_delete d = Restrict \<and>
              (list_ex (\<lambda>(_, v). v_clienteId v = k) (rows (vendas d)) \<or>
               list_ex (\<lambda>(_, q). o_clienteId q = k) (rows (orcamentos d)))
           then Inl ForeignKeyViolation
           else Inr ((drop_orcamentos (\<lambda>q. o_clienteId q = k) (drop_vendas (\<lambda>v. v_clienteId v = k) d))
                       \<lparr>clientes := cs\<rparr>)))"

text \<open>\<open>prisma.material.delete\<close>: quote material rows refer to a material.\<close>

definition delete_material_row :: "ident \<Rightarrow> db \<Rightarrow> store_error + db" where
  "delete_material_row k d =
     (case delete k (materials d) of
        Inl e \<Rightarrow> Inl e
      | Inr ms \<Rightarrow>
          (if on_delete d = Restrict \<and> list_ex (\<lambda>(_, m). om_materialId m = k) (rows (orcamento_materiais d))
           then Inl ForeignKeyViolation
           else Inr (d\<lparr>materials := ms,
                       orcamento_materiais :=
                         delete_many (\<lambda>_ m. om_materialId m = k) (orcamento_materiais d)\<rparr>)))"

text \<open>\<open>prisma.produto.delete\<close>: sale line items refer to a product.\<close>

definition delete_produto_row :: "ident \<Rightarrow> db \<Rightarrow> store_error + db" where
  "delete_produto_row k d =
     (case delete k (produtos d) of
        Inl e \<Rightarrow> Inl e
      | Inr ps \<Rightarrow>
          (if on_delete d = Restrict \<and> list_ex (\<lambda>(_, i). vi_produtoId i = k) (rows (venda_items d))
           then Inl ForeignKeyViolation
           else Inr (d\<lparr>produtos := ps,
                       venda_items := delete_many (\<lambda>_ i. vi_produtoId i = k) (venda_items d)\<rparr>)))"

text \<open>\<open>prisma.vendedor.delete\<close>: sales refer to a seller.\<close>

definition delete_vendedor_row :: "ident \<Rightarrow> db \<Rightarrow> store_error + db" where
  "delete_vendedor_row k d =
     (case delete k (vendedores d) of
        Inl e \<Rightarrow> Inl e
      | Inr vs \<Rightarrow>
          (if on_delete d = Restrict \<and> list_ex (\<lambda>(_, v). v_vendedorId v = k) (rows (vendas d))
           then Inl ForeignKeyViolation
           else Inr ((drop_vendas (\<lambda>v. v_vendedorId v = k) d)\<lparr>vendedores := vs\<rparr>)))"

section \<open>Ids in Prisma queries\<close>

text \<open>
  The value a handler gives for an \<open>Int\<close> id in \<open>where: {id}\<close>: a number, as the
  product, seller and sale routes pass \<open>parseInt(params.id)\<close>, or the path segment
  \<open>params.id\<close> as it comes, a string. Prisma validates the query against the schema
  before it reaches the database: a string for an \<open>Int\<close> field is refused and the call
  throws.
\<close>

datatype id_arg = IdInt ident | IdString string

definition where_id :: "id_arg \<Rightarrow> ident option" where
  "where_id a = (case a of IdInt k \<Rightarrow> Some k | IdString _ \<Rightarrow> None)"

section \<open>The handlers\<close>

subsection \<open>Clients: \<open>api/clientes\<close>\<close>

text \<open>
  The \<open>[id]\<close> handlers pass \<open>params.id\<close> unparsed where the client's \<open>Int\<close> id is
  expected (\<open>where: {id: params.id}\<close>, lines 13, 37 and 53): \<open>where_id\<close> refuses it,
  the Prisma call throws and the \<open>catch\<close> answers 500. The branch after an accepted id
  is what each handler does with one.
\<close>

text \<open>The 404 text \<open>'Cliente n\~{a}o encontrado'\<close>, in UTF-8.\<close>

definition msg_cliente_not_found :: string where
  "msg_cliente_not_found = ''Cliente n'' @ [CHR 0xC3, CHR 0xA3] @ ''o encontrado''"

definition clientes_list :: "db \<Rightarrow> (ident \<times> cliente) list resp" where
  "clientes_list d = Json (find_many_ordered cl_nome (clientes d))"

definition cliente_post :: "cliente \<Rightarrow> db \<Rightarrow> (ident \<times> cliente) resp \<times> db" where
  "cliente_post v d = (let (r, t) = crud_post v (clientes d) in (r, d\<lparr>clientes := t\<rparr>))"

definition cliente_get :: "string \<Rightarrow> db \<Rightarrow> (ident \<times> cliente) resp" where
  "cliente_get sid d =
     (case where_id (IdString sid) of
        None \<Rightarrow> ErrorJson 500 ''Internal Server Error''
      | Some k \<Rightarrow> crud_get msg_cliente_not_found k (clientes d))"

definition cliente_put :: "string \<Rightarrow> cliente \<Rightarrow> db \<Rightarrow> (ident \<times> cliente) resp \<times> db" where
  "cliente_put sid v d =
     (case where_id (IdString sid) of
        None \<Rightarrow> (ErrorJson 500 ''Internal Server Error'', d)
      | Some k \<Rightarrow> (let (r, t) = crud_put ''Internal Server Error'' k v (clientes d) in (r, d\<lparr>clientes := t\<rparr>)))"

definition cliente_delete :: "string \<Rightarrow> db \<Rightarrow> unit resp \<times> db" where
  "cliente_delete sid d =
     (case where_id (IdString sid) of
        None \<Rightarrow> (ErrorJson 500 ''Internal Server Error'', d)
      | Some k \<Rightarrow>
          (case delete_cliente_row k d of
             Inl _ \<Rightarrow> (ErrorJson 500 ''Internal Server Error'', d)
           | Inr d' \<Rightarrow> (NoContent, d')))"

subsection \<open>Materials: \<open>api/materials\<close>\<close>

definition materials_list :: "db \<Rightarrow> (ident \<times> material) list resp" where
  "materials_list d = Json (find_many_ordered mt_name (materials d))"

definition material_post :: "material \<Rightarrow> db \<Rightarrow> (ident \<times> material) resp \<times> db" where
  "material_post v d = (let (r, t) = crud_post v (materials d) in (r, d\<lparr>materials := t\<rparr>))"

definition material_get :: "ident \<Rightarrow> db \<Rightarrow> (ident \<times> material) resp" where
  "material_get k d = crud_get ''Material not found'' k (materials d)"

definition material_put :: "ident \<Rightarrow> material \<Rightarrow> db \<Rightarrow> (ident \<times> material) resp \<times> db" where
  "material_put k v d =
     (let (r, t) = crud_put ''Internal Server Error'' k v (materials d) in (r, d\<lparr>materials := t\<rparr>))"

definition material_delete :: "ident \<Rightarrow> db \<Rightarrow> unit resp \<times> db" where
  "material_delete k d =
     (case delete_material_row k d of
        Inl _ \<Rightarrow> (ErrorJson 500 ''Internal Server Error'', d)
      | Inr d' \<Rightarrow> (NoContent, d'))"

subsection \<open>Products: \<open>api/produtos\<close>\<close>

text \<open>
  The body's fields are copied one by one, \<open>preco\<close> through \<open>parseFloat\<close> and
  \<open>estoque\<close> through \<open>parseInt\<close>; on the JSON numbers the pages send (integer cents,
  integer units) both are the identity, so the body is the row.
\<close>

definition produtos_list :: "db \<Rightarrow> (ident \<times> produto) list resp" where
  "produtos_list d = Json (find_many_ordered pr_nome (produtos d))"

definition produto_post :: "produto \<Rightarrow> db \<Rightarrow> (ident \<times> produto) resp \<times> db" where
  "produto_post v d = (let (r, t) = crud_post v (produtos d) in (r, d\<lparr>produtos := t\<rparr>))"

definition produto_get :: "ident \<Rightarrow> db \<Rightarrow> (ident \<times> produto) resp" where
  "produto_get k d = crud_get ''Produto not found'' k (produtos d)"

definition produto_put :: "ident \<Rightarrow> produto \<Rightarrow> db \<Rightarrow> (ident \<times> produto) resp \<times> db" where
  "produto_put k v d =
     (let (r, t) = crud_put ''Error updating produto'' k v (produtos d) in (r, d\<lparr>produtos := t\<rparr>))"

definition produto_delete :: "ident \<Rightarrow> db \<Rightarrow> unit resp \<times> db" where
  "produto_delete k d =
     (case delete_produto_row k d of
        Inl _ \<Rightarrow> (ErrorJson 500 ''Error deleting produto'', d)
      | Inr d' \<Rightarrow> (JsonSuccess, d'))"

subsection \<open>Sellers: \<open>api/vendedores\<close>\<close>

definition vendedores_list :: "db \<Rightarrow> (ident \<times> vendedor) list resp" where
  "vendedores_list d = Json (find_many_ordered vd_nome (vendedores d))"

definition vendedor_post :: "vendedor \<Rightarrow> db \<Rightarrow> (ident \<times> vendedor) resp \<times> db" where
  "vendedor_post v d = (let (r, t) = crud_post v (vendedores d) in (r, d\<lparr>vendedores := t\<rparr>))"

text \<open>\<open>include: {vendas: {select: {id, data, total, status}}}\<close>.\<close>

definition vendas_of_vendedor :: "ident \<Rightarrow> db \<Rightarrow> (ident \<times> int \<times> money \<times> string) list" where
  "vendas_of_vendedor k d =
     map (\<lambda>(vk, v). (vk, v_data v, v_total v, v_status v)) (select (\<lambda>v. v_vendedorId v = k) (vendas d))"

definition vendedor_get :: "ident \<Rightarrow> db \<Rightarrow> (ident \<times> vendedor \<times> (ident \<times> int \<times> money \<times> string) list) resp" where
  "vendedor_get k d =
     (case find_unique (vendedores d) k of
        None \<Rightarrow> ErrorJson 404 ''Vendedor not found''
      | Some v \<Rightarrow> Json (k, v, vendas_of_vendedor k d))"

definition vendedor_put :: "ident \<Rightarrow> vendedor \<Rightarrow> db \<Rightarrow> (ident \<times> vendedor) resp \<times> db" where
  "vendedor_put k v d =
     (let (r, t) = crud_put ''Error updating vendedor'' k v (vendedores d) in (r, d\<lparr>vendedores := t\<rparr>))"

definition vendedor_delete :: "ident \<Rightarrow> db \<Rightarrow> unit resp \<times> db" where
  "vendedor_delete k d =
     (case delete_vendedor_row k d of
        Inl _ \<Rightarrow> (ErrorJson 500 ''Error deleting vendedor'', d)
      | Inr d' \<Rightarrow> (JsonSuccess, d'))"

section \<open>Example data\<close>

text \<open>A client, material, product and seller, and one sale of the product.\<close>

definition crud_demo_cliente :: cliente where
  "crud_demo_cliente =
     \<lparr>cl_nome = ''Ana'', cl_email = None, cl_telefone = ''11999990000'', cl_cpf = Some ''12345678901'',
      cl_cnpj = None, cl_endereco = None, cl_cidade = None, cl_estado = None, cl_cep = None\<rparr>"

definition crud_demo_material :: material where
  "crud_demo_material =
     \<lparr>mt_name = ''MDF 15mm'', mt_type = ''Chapa'', mt_description = None, mt_quantity = 10,
      mt_unit = ''m2'', mt_price = 8990, mt_minStock = 2\<rparr>"

definition crud_demo_produto :: produto where
  "crud_demo_produto =
     \<lparr>pr_nome = ''Mesa'', pr_categoria = ''Sala'', pr_preco = 120000, pr_estoque = 4,
      pr_fornecedor = ''Madeiras SA''\<rparr>"

definition crud_demo_vendedor :: vendedor where
  "crud_demo_vendedor =
     \<lparr>vd_nome = ''Bruno'', vd_email = ''bruno@moveis.com'', vd_telefone = ''11988887777'',
      vd_comissao = 500, vd_metaMensal = 5000000, vd_status = ''Ativo''\<rparr>"

definition crud_demo_db :: "ref_action \<Rightarrow> db" where
  "crud_demo_db a =
     (empty_db a)\<lparr>
       clientes := \<lparr>rows = [(0, crud_demo_cliente)], next_id = 1\<rparr>,
       materials := \<lparr>rows = [(0, crud_demo_material)], next_id = 1\<rparr>,
       produtos := \<lparr>rows = [(0, crud_demo_produto)], next_id = 1\<rparr>,
       vendedores := \<lparr>rows = [(0, crud_demo_vendedor)], next_id = 1\<rparr>,
       vendas := \<lparr>rows = [(0, \<lparr>v_clienteId = 0, v_vendedorId = 0, v_total = 120000,
                   v_status = ''Concluida'', v_data = 0\<rparr>)], next_id = 1\<rparr>,
       venda_items := \<lparr>rows = [(0, \<lparr>vi_vendaId = 0, vi_produtoId = 0, vi_quantidade = 1,
                        vi_precoUnit = 120000\<rparr>)], next_id = 1\<rparr>\<rparr>"

section \<open>Properties of the CRUD handlers\<close>

lemma crud_post_get:
  "wf_table t \<Longrightarrow> crud_get msg (next_id t) (snd (crud_post v t)) = Json (next_id t, v)"
  using lookup_create [of t v] by (simp add: crud_get_def crud_post_def)

lemma crud_put_ok:
  assumes "has_id t k"
  shows "\<exists>t'. crud_put msg k v t = (Json (k, v), t') \<and> lookup t' = (lookup t)(k \<mapsto> v)"
proof -
  obtain t' where u: "update k (\<lambda>_. v) t = Inr t'"
    using assms update_iff [of k "\<lambda>_. v" t] by (auto simp: has_id_lookup)
  have "lookup t' = (lookup t)(k \<mapsto> v)"
    using lookup_update [OF u] assms by (auto simp: has_id_lookup)
  then show ?thesis
    by (simp add: crud_put_def u)
qed

lemma crud_put_table_lookup:
  assumes "has_id t k"
  shows "lookup (snd (crud_put msg k v t)) = (lookup t)(k \<mapsto> v)"
proof -
  obtain t' where u: "update k (\<lambda>_. v) t = Inr t'"
    using assms update_iff [of k "\<lambda>_. v" t] by (auto simp: has_id_lookup)
  have l: "lookup t' = (lookup t)(k \<mapsto> v)"
    using lookup_update [OF u] assms by (auto simp: has_id_lookup)
  have "lookup t k \<noteq> None" "lookup t' k \<noteq> None"
    using assms l by (simp_all add: has_id_lookup)
  then show ?thesis
    using u l by (auto simp: crud_put_def split: option.splits)
qed

lemma crud_put_missing: "\<not> has_id t k \<Longrightarrow> crud_put msg k v t = (ErrorJson 500 msg, t)"
  by (simp add: crud_put_def update_def)

lemma crud_get_missing: "\<not> has_id t k \<Longrightarrow> crud_get msg k t = ErrorJson 404 msg"
  by (simp add: crud_get_def has_id_lookup)

text \<open>
  The client \<open>[id]\<close> handlers answer 500 whatever the id and the database, and
  change nothing.
\<close>

lemma cliente_id_handlers_fail:
  "cliente_get sid d = ErrorJson 500 ''Internal Server Error'' \<and>
   cliente_put sid c d = (ErrorJson 500 ''Internal Server Error'', d) \<and>
   cliente_delete sid d = (ErrorJson 500 ''Internal Server Error'', d)"
  by (simp add: cliente_get_def cliente_put_def cliente_delete_def where_id_def)

lemma find_many_ordered_sorted:
  "sorted (map (\<lambda>(_, v). key v) (find_many_ordered key t)) \<and> mset (find_many_ordered key t) = mset (rows t)"
  by (simp add: find_many_ordered_def sorted_sort_key case_prod_unfold)

lemma refs_ok_drop_matching:
  assumes wf: "wf_table p" and refs: "refs_ok fk c p"
  shows "refs_ok fk (delete_many (\<lambda>_ r. case lookup p (fk r) of None \<Rightarrow> False | Some v \<Rightarrow> P v) c)
           (delete_many (\<lambda>_ v. P v) p)"
  unfolding refs_ok_def list_all_iff
proof (intro ballI, clarify)
  fix a r
  assume "(a, r) \<in> set (rows (delete_many (\<lambda>_ r. case lookup p (fk r) of None \<Rightarrow> False | Some v \<Rightarrow> P v) c))"
  then have r: "(a, r) \<in> set (rows c)" and n: "\<not> (case lookup p (fk r) of None \<Rightarrow> False | Some v \<Rightarrow> P v)"
    by (auto simp: delete_many_def)
  obtain v where v: "(fk r, v) \<in> set (rows p)"
    using refs r by (force simp: refs_ok_def list_all_iff has_id_def)
  then have "lookup p (fk r) = Some v"
    using wf by (simp add: wf_table_def lookup_def)
  then have "\<not> P v"
    using n by simp
  then show "has_id (delete_many (\<lambda>_ v. P v) p) (fk r)"
    using v by (force simp: has_id_def delete_many_def)
qed

lemma refs_ok_parent_delete_many:
  "refs_ok fk c p \<Longrightarrow>
   refs_ok fk (delete_many (\<lambda>_ r. fk r = k) c) (p\<lparr>rows := filter (\<lambda>(k', _). k' \<noteq> k) (rows p)\<rparr>)"
  using refs_ok_parent_delete [of fk c p k] by (simp add: delete_many_def)

lemma db_ok_drop_vendas:
  assumes ok: "db_ok d"
  shows "wf_table (vendas (drop_vendas P d)) \<and> wf_table (venda_items (drop_vendas P d)) \<and>
         refs_ok vi_vendaId (venda_items (drop_vendas P d)) (vendas (drop_vendas P d)) \<and>
         refs_ok vi_produtoId (venda_items (drop_vendas P d)) (produtos d)"
  using ok refs_ok_drop_matching [of "vendas d" vi_vendaId "venda_items d" P]
  by (simp add: db_ok_def drop_vendas_def venda_matches_def wf_delete_many)
     (simp add: delete_many_def refs_ok_child_filter)

lemma db_ok_delete_produto_row:
  assumes ok: "db_ok d" and del: "delete_produto_row k d = Inr d'"
  shows "db_ok d'"
proof -
  obtain ps where ps: "delete k (produtos d) = Inr ps"
    and d': "d' = d\<lparr>produtos := ps, venda_items := delete_many (\<lambda>_ i. vi_produtoId i = k) (venda_items d)\<rparr>"
    using del by (auto simp: delete_produto_row_def split: sum.splits if_splits)
  have "ps = (produtos d)\<lparr>rows := filter (\<lambda>(k', _). k' \<noteq> k) (rows (produtos d))\<rparr>"
    using ps by (simp add: delete_InrD)
  then show ?thesis
    using ok refs_ok_parent_delete_many [of vi_produtoId "venda_items d" "produtos d" k]
    by (simp add: d' db_ok_def wf_delete_many wf_filter_rows)
       (simp add: delete_many_def refs_ok_child_filter)
qed

lemma db_ok_delete_material_row:
  assumes ok: "db_ok d" and del: "delete_material_row k d = Inr d'"
  shows "db_ok d'"
proof -
  obtain ms where ms: "delete k (materials d) = Inr ms"
    and d': "d' = d\<lparr>materials := ms,
                    orcamento_materiais := delete_many (\<lambda>_ m. om_materialId m = k) (orcamento_materiais d)\<rparr>"
    using del by (auto simp: delete_material_row_def split: sum.splits if_splits)
  have "ms = (materials d)\<lparr>rows := filter (\<lambda>(k', _). k' \<noteq> k) (rows (materials d))\<rparr>"
    using ms by (simp add: delete_InrD)
  then show ?thesis
    using ok refs_ok_parent_delete_many [of om_materialId "orcamento_materiais d" "materials d" k]
    by (simp add: d' db_ok_def wf_delete_many wf_filter_rows)
       (simp add: delete_many_def refs_ok_child_filter)
qed

lemma db_ok_delete_vendedor_row:
  assumes ok: "db_ok d" and del: "delete_vendedor_row k d = Inr d'"
  shows "db_ok d'"
proof -
  obtain vs where vs: "delete k (vendedores d) = Inr vs"
    and d': "d' = (drop_vendas (\<lambda>v. v_vendedorId v = k) d)\<lparr>vendedores := vs\<rparr>"
    using del by (auto simp: delete_vendedor_row_def split: sum.splits if_splits)
  have "vs = (vendedores d)\<lparr>rows := filter (\<lambda>(k', _). k' \<noteq> k) (rows (vendedores d))\<rparr>"
    using vs by (simp add: delete_InrD)
  then show ?thesis
    using ok db_ok_drop_vendas [OF ok, of "\<lambda>v. v_vendedorId v = k"]
      refs_ok_parent_delete_many [of v_vendedorId "vendas d" "vendedores d" k]
    by (simp add: d' db_ok_def wf_filter_rows drop_vendas_def)
       (simp add: delete_many_def refs_ok_child_filter)
qed

lemma db_ok_drop_orcamentos:
  assumes ok: "db_ok d"
  shows "wf_table (orcamentos (drop_orcamentos P d)) \<and> wf_table (orcamento_items (drop_orcamentos P d)) \<and>
         wf_table (orcamento_materiais (drop_orcamentos P d)) \<and>
         refs_ok oi_orcamentoId (orcamento_items (drop_orcamentos P d)) (orcamentos (drop_orcamentos P d)) \<and>
         refs_ok om_itemId (orcamento_materiais (drop_orcamentos P d)) (orcamento_items (drop_orcamentos P d)) \<and>
         refs_ok om_materialId (orcamento_materiais (drop_orcamentos P d)) (materials d) \<and>
         refs_ok o_clienteId (orcamentos (drop_orcamentos P d)) (clientes d)"
proof -
  have i: "refs_ok oi_orcamentoId (orcamento_items (drop_orcamentos P d)) (orcamentos (drop_orcamentos P d))"
    using ok refs_ok_drop_matching [of "orcamentos d" oi_orcamentoId "orcamento_items d" P]
    by (simp add: db_ok_def drop_orcamentos_def orc_matches_def)
  have m: "refs_ok om_itemId (orcamento_materiais (drop_orcamentos P d)) (orcamento_items (drop_orcamentos P d))"
    using ok refs_ok_drop_matching [of "orcamento_items d" om_itemId "orcamento_materiais d"
        "\<lambda>i. orc_matches d P (oi_orcamentoId i)"]
    by (simp add: db_ok_def drop_orcamentos_def item_matches_def)
  show ?thesis
    using ok i m by (simp add: db_ok_def drop_orcamentos_def wf_delete_many)
      (simp add: delete_many_def refs_ok_child_filter)
qed

lemma db_ok_delete_cliente_row:
  assumes ok: "db_ok d" and del: "delete_cliente_row k d = Inr d'"
  shows "db_ok d'"
proof -
  define d1 where "d1 = drop_vendas (\<lambda>v. v_clienteId v = k) d"
  obtain cs where cs: "delete k (clientes d) = Inr cs"
    and d': "d' = (drop_orcamentos (\<lambda>q. o_clienteId q = k) d1)\<lparr>clientes := cs\<rparr>"
    using del by (auto simp: delete_cliente_row_def d1_def split: sum.splits if_splits)
  have cs_eq: "cs = (clientes d)\<lparr>rows := filter (\<lambda>(k', _). k' \<noteq> k) (rows (clientes d))\<rparr>"
    using cs by (simp add: delete_InrD)
  have ok1: "db_ok d1"
    using ok db_ok_drop_vendas [OF ok, of "\<lambda>v. v_clienteId v = k"]
    by (simp add: d1_def db_ok_def drop_vendas_def delete_many_def refs_ok_child_filter)
  have v: "refs_ok v_clienteId (vendas d1) cs"
    using ok refs_ok_parent_delete_many [of v_clienteId "vendas d" "clientes d" k]
    by (simp add: d1_def drop_vendas_def db_ok_def cs_eq)
  have q: "refs_ok o_clienteId (orcamentos (drop_orcamentos (\<lambda>q. o_clienteId q = k) d1)) cs"
    using ok1 refs_ok_parent_delete_many [of o_clienteId "orcamentos d1" "clientes d1" k]
    by (simp add: drop_orcamentos_def db_ok_def cs_eq d1_def drop_vendas_def)
  have wf: "wf_table cs"
    using ok by (simp add: db_ok_def wf_delete [OF _ cs])
  show ?thesis
    using ok1 db_ok_drop_orcamentos [OF ok1, of "\<lambda>q. o_clienteId q = k"] v q wf
    by (simp add: d' db_ok_def) (simp add: drop_orcamentos_def)
qed

lemma vendas_of_fresh:
  "db_ok d \<Longrightarrow> vendas_of_vendedor (next_id (vendedores d)) d = []"
  by (force simp: vendas_of_vendedor_def select_def db_ok_def refs_ok_def list_all_iff filter_empty_conv
      dest: has_id_lt_next)

lemma vendedor_post_get:
  assumes ok: "db_ok d"
  shows "vendedor_get (next_id (vendedores d)) (snd (vendedor_post s d)) = Json (next_id (vendedores d), s, [])"
proof -
  have "lookup (snd (create s (vendedores d))) (next_id (vendedores d)) = Some s"
    using ok lookup_create [of "vendedores d" s] by (simp add: db_ok_def)
  moreover have "vendas_of_vendedor (next_id (vendedores d)) (d\<lparr>vendedores := snd (create s (vendedores d))\<rparr>) = []"
    using vendas_of_fresh [OF ok] by (simp add: vendas_of_vendedor_def)
  ultimately show ?thesis
    by (simp add: vendedor_get_def vendedor_post_def crud_post_def)
qed

text \<open>
  C14. Create then read: on a consistent database, \<open>POST\<close> answers the posted row under
  the next id for each of the four CRUD resources, and \<open>GET\<close> on that id returns it for
  materials, products and sellers (a seller with an empty list of sales). The new client
  cannot be read back: \<open>GET /api/clientes/[id]\<close> answers 500 for every path segment.
\<close>

theorem crud_post_then_get:
  assumes "db_ok d"
  shows "cliente_post c d = (Json (next_id (clientes d), c), snd (cliente_post c d)) \<and>
         cliente_get sid (snd (cliente_post c d)) = ErrorJson 500 ''Internal Server Error'' \<and>
         material_post m d = (Json (next_id (materials d), m), snd (material_post m d)) \<and>
         material_get (next_id (materials d)) (snd (material_post m d)) = Json (next_id (materials d), m) \<and>
         produto_post p d = (Json (next_id (produtos d), p), snd (produto_post p d)) \<and>
         produto_get (next_id (produtos d)) (snd (produto_post p d)) = Json (next_id (produtos d), p) \<and>
         vendedor_post s d = (Json (next_id (vendedores d), s), snd (vendedor_post s d)) \<and>
         vendedor_get (next_id (vendedores d)) (snd (vendedor_post s d)) = Json (next_id (vendedores d), s, [])"
  using assms vendedor_post_get [OF assms, of s] cliente_id_handlers_fail [of sid "snd (cliente_post c d)"]
    crud_post_get [of "materials d" "''Material not found''" m]
    crud_post_get [of "produtos d" "''Produto not found''" p]
  by (simp add: db_ok_def cliente_post_def material_post_def material_get_def
      produto_post_def produto_get_def vendedor_post_def crud_post_def)

text \<open>
  C15. The by-id routes' errors. The client routes answer 500 and change nothing for
  every path segment, the client's id existing or not (\<open>params.id\<close> is a string where
  an \<open>Int\<close> is expected). For an id that does not exist, the material, product and seller
  routes answer 404 to \<open>GET\<close> but 500 to \<open>PUT\<close> and \<open>DELETE\<close> (Prisma's
  \<open>RecordNotFound\<close> caught as an internal error; the spec prescribes 404), and the
  database is unchanged.
\<close>

theorem crud_missing_id:
  "(cliente_get sid d = ErrorJson 500 ''Internal Server Error'' \<and>
    cliente_put sid c d = (ErrorJson 500 ''Internal Server Error'', d) \<and>
    cliente_delete sid d = (ErrorJson 500 ''Internal Server Error'', d)) \<and>
   (\<not> has_id (materials d) k \<longrightarrow>
      material_get k d = ErrorJson 404 ''Material not found'' \<and>
      material_put k m d = (ErrorJson 500 ''Internal Server Error'', d) \<and>
      material_delete k d = (ErrorJson 500 ''Internal Server Error'', d)) \<and>
   (\<not> has_id (produtos d) k \<longrightarrow>
      produto_get k d = ErrorJson 404 ''Produto not found'' \<and>
      produto_put k p d = (ErrorJson 500 ''Error updating produto'', d) \<and>
      produto_delete k d = (ErrorJson 500 ''Error deleting produto'', d)) \<and>
   (\<not> has_id (vendedores d) k \<longrightarrow>
      vendedor_get k d = ErrorJson 404 ''Vendedor not found'' \<and>
      vendedor_put k s d = (ErrorJson 500 ''Error updating vendedor'', d) \<and>
      vendedor_delete k d = (ErrorJson 500 ''Error deleting vendedor'', d))"
  by (simp add: cliente_id_handlers_fail
      material_get_def material_put_def material_delete_def delete_material_row_def
      produto_get_def produto_put_def produto_delete_def delete_produto_row_def
      vendedor_get_def vendedor_put_def vendedor_delete_def delete_vendedor_row_def
      crud_get_missing crud_put_missing delete_def has_id_lookup)

lemma crud_put_cases:
  "snd (crud_put msg k v t) = t \<or> update k (\<lambda>_. v) t = Inr (snd (crud_put msg k v t))"
  by (auto simp: crud_put_def split: sum.splits option.splits)

lemma db_ok_clientes:
  assumes "db_ok d" "wf_table t" "\<And>k. has_id t k = has_id (clientes d) k"
  shows "db_ok (d\<lparr>clientes := t\<rparr>)"
  using assms(1,2) by (simp add: db_ok_def has_id_ext [OF assms(3)])

lemma db_ok_materials:
  assumes "db_ok d" "wf_table t" "\<And>k. has_id t k = has_id (materials d) k"
  shows "db_ok (d\<lparr>materials := t\<rparr>)"
  using assms(1,2) by (simp add: db_ok_def has_id_ext [OF assms(3)])

lemma db_ok_vendedores:
  assumes "db_ok d" "wf_table t" "\<And>k. has_id t k = has_id (vendedores d) k"
  shows "db_ok (d\<lparr>vendedores := t\<rparr>)"
  using assms(1,2) by (simp add: db_ok_def has_id_ext [OF assms(3)])

lemma crud_put_table:
  assumes "wf_table t"
  shows "wf_table (snd (crud_put msg k v t)) \<and> (\<forall>j. has_id (snd (crud_put msg k v t)) j = has_id t j)"
  using crud_put_cases [of msg k v t]
proof
  assume "snd (crud_put msg k v t) = t"
  then show ?thesis using assms by simp
next
  assume u: "update k (\<lambda>_. v) t = Inr (snd (crud_put msg k v t))"
  show ?thesis using wf_update [OF assms u] has_id_update [OF u] by simp
qed

lemma db_ok_cliente_handlers:
  assumes ok: "db_ok d"
  shows "db_ok (snd (cliente_post c d)) \<and> db_ok (snd (cliente_put sid c d)) \<and> db_ok (snd (cliente_delete sid d))"
  using ok cliente_id_handlers_fail [of sid d c]
  by (simp add: cliente_post_def crud_post_def db_ok_def wf_create refs_ok_parent_create)

lemma db_ok_material_handlers:
  assumes ok: "db_ok d"
  shows "db_ok (snd (material_post m d)) \<and> db_ok (snd (material_put k m d)) \<and> db_ok (snd (material_delete k d))"
proof (intro conjI)
  show "db_ok (snd (material_post m d))"
    using ok by (simp add: material_post_def crud_post_def db_ok_def wf_create refs_ok_parent_create)
  show "db_ok (snd (material_put k m d))"
  proof -
    have "wf_table (materials d)"
      using ok by (simp add: db_ok_def)
    from crud_put_table [OF this, of "''Internal Server Error''" k m] show ?thesis
      by (simp add: material_put_def case_prod_unfold Let_def db_ok_materials [OF ok])
  qed
  show "db_ok (snd (material_delete k d))"
    using ok db_ok_delete_material_row [OF ok]
    by (simp add: material_delete_def split: sum.splits)
qed

lemma db_ok_produto_handlers:
  assumes ok: "db_ok d"
  shows "db_ok (snd (produto_post p d)) \<and> db_ok (snd (produto_put k p d)) \<and> db_ok (snd (produto_delete k d))"
proof (intro conjI)
  show "db_ok (snd (produto_post p d))"
    using ok by (simp add: produto_post_def crud_post_def db_ok_def wf_create refs_ok_parent_create)
  show "db_ok (snd (produto_put k p d))"
  proof -
    have "wf_table (produtos d)"
      using ok by (simp add: db_ok_def)
    from crud_put_table [OF this, of "''Error updating produto''" k p] show ?thesis
      by (simp add: produto_put_def case_prod_unfold Let_def db_ok_produtos [OF ok])
  qed
  show "db_ok (snd (produto_delete k d))"
    using ok db_ok_delete_produto_row [OF ok]
    by (simp add: produto_delete_def split: sum.splits)
qed

lemma db_ok_vendedor_handlers:
  assumes ok: "db_ok d"
  shows "db_ok (snd (vendedor_post s d)) \<and> db_ok (snd (vendedor_put k s d)) \<and> db_ok (snd (vendedor_delete k d))"
proof (intro conjI)
  show "db_ok (snd (vendedor_post s d))"
    using ok by (simp add: vendedor_post_def crud_post_def db_ok_def wf_create refs_ok_parent_create)
  show "db_ok (snd (vendedor_put k s d))"
  proof -
    have "wf_table (vendedores d)"
      using ok by (simp add: db_ok_def)
    from crud_put_table [OF this, of "''Error updating vendedor''" k s] show ?thesis
      by (simp add: vendedor_put_def case_prod_unfold Let_def db_ok_vendedores [OF ok])
  qed
  show "db_ok (snd (vendedor_delete k d))"
    using ok db_ok_delete_vendedor_row [OF ok]
    by (simp add: vendedor_delete_def split: sum.splits)
qed

text \<open>
  Each list endpoint returns every row of its table exactly once, ordered by name
  (\<open>orderBy: {nome|name: 'asc'}\<close>, as the lexicographic order of the strings).
\<close>

lemma crud_lists_sorted:
  "(\<exists>xs. clientes_list d = Json xs \<and> sorted (map (\<lambda>(_, c). cl_nome c) xs) \<and> mset xs = mset (rows (clientes d))) \<and>
   (\<exists>xs. materials_list d = Json xs \<and> sorted (map (\<lambda>(_, m). mt_name m) xs) \<and> mset xs = mset (rows (materials d))) \<and>
   (\<exists>xs. produtos_list d = Json xs \<and> sorted (map (\<lambda>(_, p). pr_nome p) xs) \<and> mset xs = mset (rows (produtos d))) \<and>
   (\<exists>xs. vendedores_list d = Json xs \<and> sorted (map (\<lambda>(_, s). vd_nome s) xs) \<and> mset xs = mset (rows (vendedores d)))"
  using find_many_ordered_sorted [of cl_nome "clientes d"] find_many_ordered_sorted [of mt_name "materials d"]
    find_many_ordered_sorted [of pr_nome "produtos d"] find_many_ordered_sorted [of vd_nome "vendedores d"]
  by (simp add: clientes_list_def materials_list_def produtos_list_def vendedores_list_def)

section \<open>The example, evaluated\<close>

lemma crud_demo_db_ok: "db_ok (crud_demo_db a)"
  by (simp add: crud_demo_db_def db_ok_def empty_db_def wf_table_def refs_ok_def empty_table_def has_id_def)

theorem crud_post_then_get_witness:
  "cliente_post crud_demo_cliente (crud_demo_db Cascade) = (Json (1, crud_demo_cliente), snd (cliente_post crud_demo_cliente (crud_demo_db Cascade))) \<and>
   cliente_get ''1'' (snd (cliente_post crud_demo_cliente (crud_demo_db Cascade))) = ErrorJson 500 ''Internal Server Error'' \<and>
   material_post crud_demo_material (crud_demo_db Cascade) = (Json (1, crud_demo_material), snd (material_post crud_demo_material (crud_demo_db Cascade))) \<and>
   material_get 1 (snd (material_post crud_demo_material (crud_demo_db Cascade))) = Json (1, crud_demo_material) \<and>
   produto_post crud_demo_produto (crud_demo_db Cascade) = (Json (1, crud_demo_produto), snd (produto_post crud_demo_produto (crud_demo_db Cascade))) \<and>
   produto_get 1 (snd (produto_post crud_demo_produto (crud_demo_db Cascade))) = Json (1, crud_demo_produto) \<and>
   vendedor_post crud_demo_vendedor (crud_demo_db Cascade) = (Json (1, crud_demo_vendedor), snd (vendedor_post crud_demo_vendedor (crud_demo_db Cascade))) \<and>
   vendedor_get 1 (snd (vendedor_post crud_demo_vendedor (crud_demo_db Cascade))) = Json (1, crud_demo_vendedor, [])"
  using crud_post_then_get [OF crud_demo_db_ok [of Cascade], of crud_demo_cliente "''1''" crud_demo_material crud_demo_produto crud_demo_vendedor]
  by (simp add: crud_demo_db_def)

theorem crud_missing_id_witness:
  "cliente_get ''0'' (crud_demo_db Restrict) = ErrorJson 500 ''Internal Server Error'' \<and>
   cliente_put ''0'' crud_demo_cliente (crud_demo_db Restrict) = (ErrorJson 500 ''Internal Server Error'', crud_demo_db Restrict) \<and>
   cliente_delete ''0'' (crud_demo_db Restrict) = (ErrorJson 500 ''Internal Server Error'', crud_demo_db Restrict) \<and>
   material_get 3 (crud_demo_db Restrict) = ErrorJson 404 ''Material not found'' \<and>
   material_put 3 crud_demo_material (crud_demo_db Restrict) = (ErrorJson 500 ''Internal Server Error'', crud_demo_db Restrict) \<and>
   material_delete 3 (crud_demo_db Restrict) = (ErrorJson 500 ''Internal Server Error'', crud_demo_db Restrict) \<and>
   produto_get 3 (crud_demo_db Restrict) = ErrorJson 404 ''Produto not found'' \<and>
   produto_put 3 crud_demo_produto (crud_demo_db Restrict) = (ErrorJson 500 ''Error updating produto'', crud_demo_db Restrict) \<and>
   produto_delete 3 (crud_demo_db Restrict) = (ErrorJson 500 ''Error deleting produto'', crud_demo_db Restrict) \<and>
   vendedor_get 3 (crud_demo_db Restrict) = ErrorJson 404 ''Vendedor not found'' \<and>
   vendedor_put 3 crud_demo_vendedor (crud_demo_db Restrict) = (ErrorJson 500 ''Error updating vendedor'', crud_demo_db Restrict) \<and>
   vendedor_delete 3 (crud_demo_db Restrict) = (ErrorJson 500 ''Error deleting vendedor'', crud_demo_db Restrict)"
proof -
  have "\<not> has_id (materials (crud_demo_db Restrict)) 3"
    "\<not> has_id (produtos (crud_demo_db Restrict)) 3" "\<not> has_id (vendedores (crud_demo_db Restrict)) 3"
    by (simp_all add: crud_demo_db_def has_id_def)
  then show ?thesis
    using crud_missing_id [of "''0''" "crud_demo_db Restrict" crud_demo_cliente 3 crud_demo_material crud_demo_produto crud_demo_vendedor] by simp
qed

end
