(* ===== verification/Table.thy ===== *)
theory Table
  imports Prelude
begin

text \<open>
  Row selection in the shared table component \<open>src/src/components/Table.tsx\<close>. The
  component keeps no state of its own: the page passes the rows (\<open>data\<close>), the ids of
  the selected rows (\<open>selectedRows\<close>) and a callback \<open>onSelectionChange\<close>; the
  component computes the new selection when a checkbox changes and whether the header
  checkbox is ticked. Rows are abstract, each with an id (\<open>row[idField]\<close>).
\<close>

section \<open>The component's functions\<close>

text \<open>\<open>handleSelectAll\<close>: every row's id when ticked, nothing when cleared.\<close>

definition select_all :: "('r \<Rightarrow> 'i) \<Rightarrow> 'r list \<Rightarrow> bool \<Rightarrow> 'i list" where
  "select_all row_id data checked = (if checked then map row_id data else [])"

text \<open>\<open>handleSelectRow\<close>: append the row's id when ticked, remove it when cleared.\<close>

definition select_row :: "'i list \<Rightarrow> bool \<Rightarrow> 'i \<Rightarrow> 'i list" where
  "select_row selected checked rowId =
     (if checked then selected @ [rowId] else filter (\<lambda>i. i \<noteq> rowId) selected)"

text \<open>\<open>allSelected\<close>: the header checkbox compares lengths only.\<close>

definition all_selected :: "'r list \<Rightarrow> 'i list \<Rightarrow> bool" where
  "all_selected data selected \<longleftrightarrow> 0 < length data \<and> length selected = length data"

text \<open>\<open>checked={selectedRows.includes(row[idField])}\<close> of a row's checkbox.\<close>

definition row_checked :: "'i list \<Rightarrow> 'i \<Rightarrow> bool" where
  "row_checked selected rowId \<longleftrightarrow> rowId \<in> set selected"

section \<open>Clicks on the checkboxes\<close>

text \<open>
  A click flips a checkbox, so the \<open>e.target.checked\<close> the handler receives is the
  negation of the checkbox's rendered state.
\<close>

datatype 'i table_click = ClickRow 'i | ClickAll

fun click_selection :: "('r \<Rightarrow> 'i) \<Rightarrow> 'r list \<Rightarrow> 'i list \<Rightarrow> 'i table_click \<Rightarrow> 'i list" where
  "click_selection row_id data selected (ClickRow k) = select_row selected (\<not> row_checked selected k) k"
| "click_selection row_id data selected ClickAll = select_all row_id data (\<not> all_selected data selected)"

text \<open>What the header checkbox is meant to show: every displayed row is ticked.\<close>

definition every_row_checked :: "('r \<Rightarrow> 'i) \<Rightarrow> 'r list \<Rightarrow> 'i list \<Rightarrow> bool" where
  "every_row_checked row_id data selected \<longleftrightarrow>
     data \<noteq> [] \<and> list_all (\<lambda>r. row_checked selected (row_id r)) data"

text \<open>Selections reachable by clicks on a fixed list of rows, from the empty one.\<close>

inductive selection_reachable :: "('r \<Rightarrow> 'i) \<Rightarrow> 'r list \<Rightarrow> 'i list \<Rightarrow> bool" for row_id data where
  empty: "selection_reachable row_id data []"
| click: "selection_reachable row_id data sel \<Longrightarrow> k \<in> set (map row_id data) \<Longrightarrow>
          selection_reachable row_id data (click_selection row_id data sel (ClickRow k))"
| click_all: "selection_reachable row_id data sel \<Longrightarrow>
          selection_reachable row_id data (click_selection row_id data sel ClickAll)"

section \<open>The header checkbox\<close>

lemma selection_reachable_ok:
  assumes "selection_reachable row_id data sel" "distinct (map row_id data)"
  shows "distinct sel \<and> set sel \<subseteq> set (map row_id data)"
  using assms
proof (induction rule: selection_reachable.induct)
  case empty
  then show ?case by simp
next
  case (click sel k)
  then show ?case by (auto simp: select_row_def row_checked_def)
next
  case (click_all sel)
  then show ?case by (simp add: select_all_def)
qed

lemma all_selected_iff_subset:
  assumes "distinct sel" "set sel \<subseteq> set (map row_id data)" "distinct (map row_id data)"
  shows "all_selected data sel \<longleftrightarrow> every_row_checked row_id data sel"
proof -
  have cd: "card (set (map row_id data)) = length data"
    using distinct_card [OF assms(3)] by simp
  have cs: "card (set sel) = length sel"
    using distinct_card [OF assms(1)] .
  show ?thesis
  proof
    assume a: "all_selected data sel"
    have "card (set sel) = card (set (map row_id data))"
      using a cd cs by (simp add: all_selected_def)
    then have "set sel = set (map row_id data)"
      using assms(2) by (simp add: card_subset_eq)
    then show "every_row_checked row_id data sel"
      using a by (auto simp: every_row_checked_def all_selected_def row_checked_def list_all_iff)
  next
    assume e: "every_row_checked row_id data sel"
    then have "set (map row_id data) \<subseteq> set sel"
      by (auto simp: every_row_checked_def row_checked_def list_all_iff)
    then have "set sel = set (map row_id data)"
      using assms(2) by blast
    then have "length sel = length data"
      using cd cs by simp
    then show "all_selected data sel"
      using e by (simp add: all_selected_def every_row_checked_def)
  qed
qed

text \<open>
  C24: on every selection the clicks can reach, and with distinct row ids, the header
  checkbox's length comparison is ticked exactly when every displayed row is ticked.
\<close>

theorem header_checkbox_correct:
  assumes "selection_reachable row_id data sel" "distinct (map row_id data)"
  shows "all_selected data sel \<longleftrightarrow> every_row_checked row_id data sel"
  using selection_reachable_ok [OF assms] assms(2) by (simp add: all_selected_iff_subset)

theorem header_checkbox_correct_witness:
  "selection_reachable id [1::nat, 2] [1, 2] \<and> distinct (map id [1::nat, 2]) \<and>
   (all_selected [1::nat, 2] [1::nat, 2] \<longleftrightarrow> every_row_checked id [1::nat, 2] [1, 2])"
proof -
  have r: "selection_reachable id [1::nat, 2] [1, 2]"
    using selection_reachable.click_all [OF selection_reachable.empty, of id "[1::nat, 2]"]
    by (simp add: select_all_def all_selected_def)
  show ?thesis
    using header_checkbox_correct [OF r] r by simp
qed

text \<open>
  C23: whatever the selection, at most two clicks on the header checkbox select every
  displayed row: the first selects them all unless the length test says all are
  selected, in which case it clears the selection and the second selects them all.
\<close>

theorem header_select_all_two_clicks:
  "click_selection row_id data sel ClickAll = map row_id data \<or>
   click_selection row_id data (click_selection row_id data sel ClickAll) ClickAll = map row_id data"
  by (auto simp: select_all_def all_selected_def)

end
