(* ===== verification/Browser.thy ===== *)
theory Browser
  imports Prelude "HOL-Library.Sublist"
begin

text \<open>
  What the client pages under \<open>src/src/app/*/page.tsx\<close> take from the JavaScript
  runtime and their libraries: the \<open>react-hot-toast\<close> notifications they raise, and the
  string functions \<open>toLowerCase\<close> and \<open>includes\<close> their search boxes use. Strings are
  UTF-8 byte lists, as everywhere in the model; \<open>toLowerCase\<close> is modelled on ASCII and
  on the Latin-1 letters of Portuguese (\<open>U+00C0\<close> to \<open>U+00DE\<close>, two bytes
  \<open>C3 80\<close> to \<open>C3 9E\<close> in UTF-8, except the multiplication sign \<open>C3 97\<close>), which
  JavaScript lowers by adding \<open>0x20\<close> to the code point.
\<close>

section \<open>Notifications\<close>

datatype toast = ToastSuccess string | ToastError string

section \<open>String functions\<close>

definition is_upper_ascii :: "char \<Rightarrow> bool" where
  "is_upper_ascii c \<longleftrightarrow> 65 \<le> (of_char c :: nat) \<and> (of_char c :: nat) \<le> 90"

definition is_upper_latin1_tail :: "char \<Rightarrow> bool" where
  "is_upper_latin1_tail c \<longleftrightarrow> 0x80 \<le> (of_char c :: nat) \<and> (of_char c :: nat) \<le> 0x9E \<and> (of_char c :: nat) \<noteq> 0x97"

definition plus_20 :: "char \<Rightarrow> char" where
  "plus_20 c = char_of ((of_char c :: nat) + 32)"

text \<open>\<open>s.toLowerCase()\<close>.\<close>

fun js_lower :: "string \<Rightarrow> string" where
  "js_lower [] = []"
| "js_lower (c # cs) =
     (if is_upper_ascii c then plus_20 c # js_lower cs
      else if (of_char c :: nat) = 0xC3 \<and> cs \<noteq> [] \<and> is_upper_latin1_tail (hd cs)
      then c # plus_20 (hd cs) # js_lower (tl cs)
      else c # js_lower cs)"

text \<open>\<open>s.startsWith(t)\<close> and \<open>s.includes(t)\<close>, as the scan the specification of
  \<open>String.prototype.includes\<close> describes: \<open>t\<close> occurs at some position of \<open>s\<close>.\<close>

fun starts_with :: "string \<Rightarrow> string \<Rightarrow> bool" where
  "starts_with s [] = True"
| "starts_with [] (c # cs) = False"
| "starts_with (d # ds) (c # cs) = (d = c \<and> starts_with ds cs)"

fun js_includes :: "string \<Rightarrow> string \<Rightarrow> bool" where
  "js_includes [] t = (t = [])"
| "js_includes (c # cs) t = (starts_with (c # cs) t \<or> js_includes cs t)"

text \<open>A number in a template literal (\<open>`${n}`\<close>), for the integers the pages print.\<close>

fun string_of_nat :: "nat \<Rightarrow> string" where
  "string_of_nat n =
     (if n < 10 then [''0123456789'' ! n] else string_of_nat (n div 10) @ [''0123456789'' ! (n mod 10)])"

definition string_of_int :: "int \<Rightarrow> string" where
  "string_of_int i = (if i < 0 then CHR ''-'' # string_of_nat (nat (- i)) else string_of_nat (nat i))"

text \<open>
  \<open>s.length\<close>: the UTF-16 code units of a UTF-8 string. A continuation byte
  (\<open>80\<close> to \<open>BF\<close>) adds none, the lead byte of a four-byte sequence (\<open>F0\<close> and above)
  two, every other byte one.
\<close>

fun js_length :: "string \<Rightarrow> nat" where
  "js_length [] = 0"
| "js_length (c # cs) =
     (if 0x80 \<le> (of_char c :: nat) \<and> (of_char c :: nat) \<le> 0xBF then 0
      else if 0xF0 \<le> (of_char c :: nat) then 2 else 1) + js_length cs"

text \<open>\<open>xs.join(sep)\<close> of strings.\<close>

fun js_join :: "string \<Rightarrow> string list \<Rightarrow> string" where
  "js_join sep [] = []"
| "js_join sep [x] = x"
| "js_join sep (x # y # xs) = x @ sep @ js_join sep (y # xs)"

text \<open>
  \<open>x.toFixed(2)\<close> of an amount held in cents: the sign, the whole part and two decimals.
\<close>

definition to_fixed2 :: "int \<Rightarrow> string" where
  "to_fixed2 c =
     (if c < 0 then ''-'' else []) @ string_of_nat (nat \<bar>c\<bar> div 100) @ ''.'' @
     [''0123456789'' ! (nat \<bar>c\<bar> mod 100 div 10), ''0123456789'' ! (nat \<bar>c\<bar> mod 10)]"

text \<open>
  \<open>x.toLocaleString('pt-BR', {style: 'currency', currency: 'BRL'})\<close> of an amount held in
  cents, as the ECMAScript Internationalization API formats it for that locale: the sign,
  \<open>R$\<close>, a no-break space (\<open>U+00A0\<close>, \<open>C2 A0\<close> in UTF-8), the whole part with a
  dot between groups of three digits, a comma and two decimals.
\<close>

definition pad3 :: "nat \<Rightarrow> string" where
  "pad3 n = [''0123456789'' ! (n div 100 mod 10), ''0123456789'' ! (n div 10 mod 10), ''0123456789'' ! (n mod 10)]"

fun group_thousands :: "nat \<Rightarrow> string" where
  "group_thousands n =
     (if n < 1000 then string_of_nat n else group_thousands (n div 1000) @ ''.'' @ pad3 (n mod 1000))"

declare group_thousands.simps [simp del]

definition to_locale_brl :: "int \<Rightarrow> string" where
  "to_locale_brl c =
     (if c < 0 then ''-'' else []) @ ''R$'' @ [CHR 0xC2, CHR 0xA0] @ group_thousands (nat \<bar>c\<bar> div 100) @ '','' @
     [''0123456789'' ! (nat \<bar>c\<bar> mod 100 div 10), ''0123456789'' ! (nat \<bar>c\<bar> mod 10)]"

section \<open>React: a component's mount\<close>

text \<open>
  React renders a function component, commits the result, and then runs its
  \<open>useEffect\<close>: after the first commit always; after a later commit, when the effect
  has no dependency array (\<open>deps = None\<close>) or when an entry of its array differs from
  the last commit's (\<open>Object.is\<close>, here \<open>=\<close> on the array's entries). An effect that
  calls a state setter with a value other than the current one makes React render and
  commit again; one that does not leaves the component at rest. \<open>react_commit\<close> is
  that loop from one commit on: \<open>prev\<close> is the array of the last commit that ran the
  effect (\<open>None\<close> before the first), \<open>n\<close> the number of renders so far; the result
  is the state at rest and the number of renders, \<open>None\<close> when the loop never stops.
  The effect returns the new state and whether it set a new value. Development mode's
  second run of each effect (\<open>StrictMode\<close>) is not modelled.
\<close>

partial_function (option) react_commit ::
  "('s \<Rightarrow> 'k list) option \<Rightarrow> ('s \<Rightarrow> 's \<times> bool) \<Rightarrow> 'k list option \<Rightarrow> nat \<Rightarrow> 's \<Rightarrow> ('s \<times> nat) option"
where
  "react_commit deps effect prev n s =
     (let cur = map_option (\<lambda>f. f s) deps in
      if prev \<noteq> None \<and> prev = cur then Some (s, n)
      else (case effect s of
              (s', changed) \<Rightarrow> if changed then react_commit deps effect cur (Suc n) s' else Some (s', n)))"

definition react_mount ::
  "('s \<Rightarrow> 'k list) option \<Rightarrow> ('s \<Rightarrow> 's \<times> bool) \<Rightarrow> 's \<Rightarrow> ('s \<times> nat) option" where
  "react_mount deps effect s0 = react_commit deps effect None 1 s0"

section \<open>Properties of the string functions\<close>

lemma starts_with_prefix: "starts_with s t \<longleftrightarrow> prefix t s"
  by (induction s t rule: starts_with.induct) auto

text \<open>\<open>includes\<close>, a scan over the positions of the text, is the sublist test.\<close>

lemma js_includes_sublist: "js_includes s t \<longleftrightarrow> sublist t s"
  by (induction s t rule: js_includes.induct) (auto simp: starts_with_prefix sublist_Cons_right)

lemma length_js_lower [simp]: "length (js_lower s) = length s"
  by (induction s rule: js_lower.induct) auto

lemma of_char_plus_20: "(of_char c :: nat) < 224 \<Longrightarrow> (of_char (plus_20 c) :: nat) = of_char c + 32"
  by (simp add: plus_20_def)

lemma js_lower_hd_tail: "is_upper_latin1_tail (hd (js_lower (d # ds))) = is_upper_latin1_tail d"
  by (auto simp: is_upper_ascii_def is_upper_latin1_tail_def of_char_plus_20)

lemma js_lower_idem: "js_lower (js_lower s) = js_lower s"
proof (induction s rule: js_lower.induct)
  case 1
  then show ?case by simp
next
  case (2 c cs)
  show ?case
  proof (cases "is_upper_ascii c")
    case True
    then have "\<not> is_upper_ascii (plus_20 c)" "(of_char (plus_20 c) :: nat) \<noteq> 0xC3"
      by (auto simp: is_upper_ascii_def of_char_plus_20)
    then show ?thesis using True 2 by simp
  next
    case False
    show ?thesis
    proof (cases "(of_char c :: nat) = 0xC3 \<and> cs \<noteq> [] \<and> is_upper_latin1_tail (hd cs)")
      case True
      then obtain d ds where cs: "cs = d # ds" by (cases cs) auto
      have "\<not> is_upper_latin1_tail (plus_20 d)" "\<not> is_upper_ascii (plus_20 d)"
        using True cs by (auto simp: is_upper_latin1_tail_def is_upper_ascii_def of_char_plus_20)
      moreover have "(of_char (plus_20 d) :: nat) \<noteq> 0xC3"
        using True cs by (auto simp: is_upper_latin1_tail_def of_char_plus_20)
      ultimately show ?thesis using True False 2 cs
        by (cases "js_lower ds") (auto simp: Let_def)
    next
      case nl: False
      have h: "is_upper_latin1_tail (hd (js_lower cs)) = is_upper_latin1_tail (hd cs)" if "cs \<noteq> []"
        using js_lower_hd_tail [of "hd cs" "tl cs"] that by (metis list.collapse)
      have ne: "js_lower cs \<noteq> [] \<longleftrightarrow> cs \<noteq> []"
        using length_js_lower [of cs] by (metis length_0_conv)
      have cond: "\<not> ((of_char c :: nat) = 0xC3 \<and> js_lower cs \<noteq> [] \<and> is_upper_latin1_tail (hd (js_lower cs)))"
        using nl h ne by blast
      have e1: "js_lower (c # cs) = c # js_lower cs"
        using False nl by auto
      have e2: "js_lower (c # js_lower cs) = c # js_lower (js_lower cs)"
        using False cond by auto
      show ?thesis
        unfolding e1 e2 using "2.IH"(3) [OF False nl] by simp
    qed
  qed
qed

text \<open>
  Lower-casing a joined string: a space never pairs with the byte before it, so each
  joined string keeps its lower-cased bytes, and a member of the list occurs, lower-cased,
  in the lower-cased join.
\<close>

lemma js_lower_append_sep:
  "\<not> is_upper_latin1_tail c \<Longrightarrow> js_lower (a @ c # b) = js_lower a @ js_lower (c # b)"
proof (induction a rule: js_lower.induct)
  case 1
  then show ?case by simp
next
  case (2 d ds)
  show ?case
  proof (cases "ds = []")
    case True
    then show ?thesis using "2.prems" by simp
  next
    case False
    then show ?thesis using 2 by (auto simp: Let_def)
  qed
qed

lemma js_lower_space: "js_lower (CHR '' '' # b) = CHR '' '' # js_lower b"
  by (simp add: is_upper_ascii_def)

lemma js_join_member_sublist:
  "x \<in> set xs \<Longrightarrow> sublist (js_lower x) (js_lower (js_join '' '' xs))"
proof (induction "'' ''" xs rule: js_join.induct)
  case 1
  then show ?case by simp
next
  case (2 y)
  then show ?case by simp
next
  case (3 y z zs)
  have sp: "\<not> is_upper_latin1_tail (CHR '' '')" by (simp add: is_upper_latin1_tail_def)
  have e: "js_lower (js_join '' '' (y # z # zs)) = js_lower y @ CHR '' '' # js_lower (js_join '' '' (z # zs))"
    using js_lower_append_sep [OF sp, of y "js_join '' '' (z # zs)"] by (simp del: js_lower.simps add: js_lower_space)
  show ?case
  proof (cases "x = y")
    case True
    then show ?thesis unfolding e by simp
  next
    case False
    then have "sublist (js_lower x) (js_lower (js_join '' '' (z # zs)))" using 3 by simp
    then have "sublist (js_lower x) (CHR '' '' # js_lower (js_join '' '' (z # zs)))"
      by (simp add: sublist_Cons_right)
    then show ?thesis unfolding e by (rule sublist_order.order.trans) (rule sublist_append_leftI)
  qed
qed

section \<open>Properties of the currency format\<close>

text \<open>
  The dots of the pt-BR format only group the digits: removing them from the whole part
  gives the decimal digits of the number, the same digits \<open>toFixed\<close> prints.
\<close>

lemma string_of_nat_snoc:
  assumes "0 < a" "d < 10"
  shows "string_of_nat (a * 10 + d) = string_of_nat a @ [''0123456789'' ! d]"
proof -
  have "\<not> a * 10 + d < 10" using assms by simp
  then show ?thesis
    using assms by (subst string_of_nat.simps) simp
qed

lemma string_of_nat_pad3:
  assumes "0 < a" "b < 1000"
  shows "string_of_nat (a * 1000 + b) = string_of_nat a @ pad3 b"
proof -
  have h1: "b = b div 10 * 10 + b mod 10" by simp
  have h2: "b div 10 = b div 100 * 10 + b div 10 mod 10"
    using div_mult2_eq [of b 10 10] by simp
  have "((a * 10 + b div 100) * 10 + b div 10 mod 10) * 10 + b mod 10 =
        a * 1000 + (b div 100 * 10 + b div 10 mod 10) * 10 + b mod 10"
    by (simp add: algebra_simps)
  also have "\<dots> = a * 1000 + b" using h1 h2 by presburger
  finally have e: "a * 1000 + b = ((a * 10 + b div 100) * 10 + b div 10 mod 10) * 10 + b mod 10"
    by simp
  have p1: "0 < a * 10 + b div 100" and p2: "0 < (a * 10 + b div 100) * 10 + b div 10 mod 10"
    using assms by simp_all
  have "string_of_nat (((a * 10 + b div 100) * 10 + b div 10 mod 10) * 10 + b mod 10) =
        string_of_nat a @ [''0123456789'' ! (b div 100), ''0123456789'' ! (b div 10 mod 10),
                           ''0123456789'' ! (b mod 10)]"
    using string_of_nat_snoc [OF p2, of "b mod 10"] string_of_nat_snoc [OF p1, of "b div 10 mod 10"]
      string_of_nat_snoc [OF assms(1), of "b div 100"] assms(2)
    by (simp del: string_of_nat.simps)
  then show ?thesis
    unfolding e using assms(2) by (simp add: pad3_def del: string_of_nat.simps)
qed


lemma digit_not_dot: "k < 10 \<Longrightarrow> ''0123456789'' ! k \<noteq> CHR ''.''"
proof -
  assume "k < 10"
  then have "''0123456789'' ! k \<in> set ''0123456789''" by (intro nth_mem) simp
  moreover have "CHR ''.'' \<notin> set ''0123456789''" by simp
  ultimately show ?thesis by metis
qed

lemma string_of_nat_no_dot: "CHR ''.'' \<notin> set (string_of_nat n)"
proof (induction n rule: string_of_nat.induct)
  case (1 n)
  show ?case
    using 1 digit_not_dot [of n] digit_not_dot [of "n mod 10"]
    by (subst string_of_nat.simps) (auto simp del: string_of_nat.simps)
qed

lemma pad3_no_dot: "CHR ''.'' \<notin> set (pad3 n)"
  using digit_not_dot [of "n div 100 mod 10"] digit_not_dot [of "n div 10 mod 10"] digit_not_dot [of "n mod 10"]
  by (auto simp: pad3_def)

lemma group_thousands_digits:
  "filter (\<lambda>ch. ch \<noteq> CHR ''.'') (group_thousands n) = string_of_nat n"
proof (induction n rule: group_thousands.induct)
  case (1 n)
  show ?case
  proof (cases "n < 1000")
    case True
    then have "group_thousands n = string_of_nat n"
      by (simp add: group_thousands.simps [of n] del: string_of_nat.simps)
    then show ?thesis
      using string_of_nat_no_dot [of n] by (auto simp: filter_id_conv simp del: string_of_nat.simps)
  next
    case False
    have g: "group_thousands n = group_thousands (n div 1000) @ ''.'' @ pad3 (n mod 1000)"
      using False by (simp add: group_thousands.simps [of n])
    have p: "filter (\<lambda>ch. ch \<noteq> CHR ''.'') (pad3 (n mod 1000)) = pad3 (n mod 1000)"
      using pad3_no_dot [of "n mod 1000"] by (auto simp: filter_id_conv)
    have "string_of_nat n = string_of_nat (n div 1000) @ pad3 (n mod 1000)"
      using string_of_nat_pad3 [of "n div 1000" "n mod 1000"] False by (simp del: string_of_nat.simps)
    then show ?thesis
      using False "1.IH" p g by (simp del: string_of_nat.simps)
  qed
qed

section \<open>Properties of the mount\<close>

lemma react_mount_const_deps:
  "react_mount (Some (\<lambda>_. ks)) effect s0 = Some (fst (effect s0), if snd (effect s0) then 2 else 1)"
proof (cases "effect s0")
  case (Pair s1 changed)
  show ?thesis
  proof (cases changed)
    case True
    have "react_commit (Some (\<lambda>_. ks)) effect (Some ks) 2 s1 = Some (s1, 2)"
      by (subst react_commit.simps) simp
    then show ?thesis
      using Pair True by (simp add: react_mount_def react_commit.simps [of _ _ None] numeral_2_eq_2)
  next
    case False
    then show ?thesis
      using Pair by (simp add: react_mount_def react_commit.simps [of _ _ None])
  qed
qed

lemma react_commit_returns_deps:
  "react_commit deps effect prev n s = Some r \<Longrightarrow> deps \<noteq> None \<or> (\<exists>s. \<not> snd (effect s))"
  by (rule react_commit.raw_induct [where P = "\<lambda>deps effect prev n s r. deps \<noteq> None \<or> (\<exists>s. \<not> snd (effect s))"])
     (auto simp: Let_def split: prod.splits if_splits, metis snd_conv, metis snd_conv)

lemma react_commit_no_deps_diverges:
  assumes "\<And>s. snd (effect s)"
  shows "react_commit None effect prev n s = None"
  using react_commit_returns_deps [of None effect prev n s] assms by (cases "react_commit None effect prev n s") auto

end
