(* ===== verification/TableRender.thy ===== *)
theory TableRender
  imports Table Browser
begin

text \<open>
  The rendering half of the shared table component \<open>src/src/components/Table.tsx\<close>:
  the header row and, for each row of \<open>data\<close>, one cell per column, either the
  column's \<open>render(row[column.key], row)\<close> or the raw value \<open>row[column.key]\<close> as React
  prints it. A row is read by key through a function \<open>get\<close>, the model of
  \<open>row[key]\<close>; cells are the text they show (class names and markup are left out).
\<close>

section \<open>Values and their text\<close>

text \<open>
  The JSON values a row holds: strings, integers, decimal amounts (held in cents),
  \<open>null\<close> and \<open>undefined\<close> (a key the row does not have).
\<close>

datatype jsval = JStr string | JNum int | JCents int | JNull | JUndef

text \<open>
  How React prints a value placed in JSX: a string as itself, a number by
  \<open>Number.prototype.toString\<close> (no trailing zeros after the point), \<open>null\<close> and
  \<open>undefined\<close> as nothing.
\<close>

definition js_number_cents :: "int \<Rightarrow> string" where
  "js_number_cents c =
     (if c < 0 then ''-'' else []) @ string_of_nat (nat \<bar>c\<bar> div 100) @
     (if nat \<bar>c\<bar> mod 100 = 0 then []
      else if nat \<bar>c\<bar> mod 10 = 0 then [CHR ''.'', ''0123456789'' ! (nat \<bar>c\<bar> mod 100 div 10)]
      else [CHR ''.'', ''0123456789'' ! (nat \<bar>c\<bar> mod 100 div 10), ''0123456789'' ! (nat \<bar>c\<bar> mod 10)])"

text \<open>An optional field as the API's JSON has it: \<open>null\<close> when absent.\<close>

definition js_opt :: "string option \<Rightarrow> jsval" where
  "js_opt v = (case v of Some x \<Rightarrow> JStr x | None \<Rightarrow> JNull)"

fun react_text :: "jsval \<Rightarrow> string" where
  "react_text (JStr s) = s"
| "react_text (JNum n) = string_of_int n"
| "react_text (JCents c) = js_number_cents c"
| "react_text JNull = []"
| "react_text JUndef = []"

section \<open>Columns and cells\<close>

text \<open>\<open>interface Column {key, header, render?}\<close>.\<close>

record 'r column =
  col_key :: string
  col_header :: string
  col_render :: "(jsval \<Rightarrow> 'r \<Rightarrow> string) option"

text \<open>\<open>columns.map(column => <th>{column.header}</th>)\<close>.\<close>

definition table_headers :: "'r column list \<Rightarrow> string list" where
  "table_headers cols = map col_header cols"

text \<open>\<open>column.render ? column.render(row[column.key], row) : row[column.key]\<close>.\<close>

definition table_cell :: "('r \<Rightarrow> string \<Rightarrow> jsval) \<Rightarrow> 'r \<Rightarrow> 'r column \<Rightarrow> string" where
  "table_cell get row c =
     (case col_render c of
        Some f \<Rightarrow> f (get row (col_key c)) row
      | None \<Rightarrow> react_text (get row (col_key c)))"

text \<open>\<open>data.map(row => <tr>{columns.map(column => <td>...</td>)}</tr>)\<close>.\<close>

definition table_body :: "('r \<Rightarrow> string \<Rightarrow> jsval) \<Rightarrow> 'r column list \<Rightarrow> 'r list \<Rightarrow> string list list" where
  "table_body get cols data = map (\<lambda>row. map (table_cell get row) cols) data"

section \<open>Properties of the rendering\<close>

text \<open>
  The table has one line per row and one cell per column, and a column without a
  \<open>render\<close> shows nothing for a key the row lacks.
\<close>

lemma table_body_shape:
  "length (table_body get cols data) = length data \<and>
   (\<forall>line \<in> set (table_body get cols data). length line = length cols)"
  by (auto simp: table_body_def)

lemma table_body_nth:
  "i < length data \<Longrightarrow> j < length cols \<Longrightarrow>
   table_body get cols data ! i ! j = table_cell get (data ! i) (cols ! j)"
  by (simp add: table_body_def)

lemma table_cell_missing_key:
  "col_render c = None \<Longrightarrow> get row (col_key c) = JUndef \<Longrightarrow> table_cell get row c = []"
  by (simp add: table_cell_def)

end
