(* ===== verification/EstoquePage.thy ===== *)
theory EstoquePage
  imports Crud TableRender
begin

text \<open>
  The inventory page \<open>src/src/app/estoque/page.tsx\<close> with its form
  \<open>estoque/components/MaterialForm.tsx\<close>: the page's React state, the values it
  derives for the cards and the table, and the handlers that call the materials API
  (\<open>Crud\<close>). A handler runs against the server's database and the page state together:
  it takes the database and the state and returns both after every request it issued
  and every \<open>setState\<close> has taken effect, with the toasts it raised. \<open>fetch\<close> resolves
  for every HTTP status, so a handler sees no difference between 200 and 500.
\<close>

section \<open>The form\<close>

text \<open>
  The values \<open>react-hook-form\<close> hands to the schema: the number inputs are registered
  with \<open>valueAsNumber\<close>, so an empty or malformed number is \<open>NaN\<close> (\<open>None\<close>). The
  description is the text input's string, or \<open>null\<close> (\<open>None\<close>) when the form was
  opened on a row whose description is \<open>null\<close> and the field was left untouched:
  \<open>react-hook-form\<close> submits a default value it never wrote to as it was given.
\<close>

record material_form =
  mf_name :: string
  mf_type :: string
  mf_description :: "string option"
  mf_quantity :: "qty option"
  mf_unit :: string
  mf_price :: "money option"
  mf_minStock :: "qty option"

text \<open>
  \<open>materialSchema\<close>: the material it lets through to \<open>onSubmit\<close>, if any.
  \<open>description: z.string().optional()\<close> accepts a string (or \<open>undefined\<close>, which the
  text input never yields) and rejects \<open>null\<close>.
\<close>

definition material_schema :: "material_form \<Rightarrow> material option" where
  "material_schema f =
     (case (mf_description f, mf_quantity f, mf_price f, mf_minStock f) of
        (Some ds, Some q, Some p, Some ms) \<Rightarrow>
          (if mf_name f \<noteq> [] \<and> mf_type f \<in> {''Chapa'', ''Ferragem'', ''Acabamento''} \<and>
              0 \<le> q \<and> mf_unit f \<noteq> [] \<and> 0 \<le> p \<and> 0 \<le> ms
           then Some \<lparr>mt_name = mf_name f, mt_type = mf_type f, mt_description = Some ds,
                      mt_quantity = q, mt_unit = mf_unit f, mt_price = p, mt_minStock = ms\<rparr>
           else None)
      | _ \<Rightarrow> None)"

text \<open>
  The form opened on a material (\<open>defaultValues: initialData\<close>): every field holds the
  material's value.
\<close>

definition material_form_of :: "material \<Rightarrow> material_form" where
  "material_form_of m =
     \<lparr>mf_name = mt_name m, mf_type = mt_type m, mf_description = mt_description m,
      mf_quantity = Some (mt_quantity m), mf_unit = mt_unit m, mf_price = Some (mt_price m),
      mf_minStock = Some (mt_minStock m)\<rparr>"

text \<open>The materials the schema describes: the conditions of its seven fields.\<close>

definition material_valid :: "material \<Rightarrow> bool" where
  "material_valid m \<longleftrightarrow>
     mt_name m \<noteq> [] \<and> mt_type m \<in> {''Chapa'', ''Ferragem'', ''Acabamento''} \<and> 0 \<le> mt_quantity m \<and>
     mt_unit m \<noteq> [] \<and> 0 \<le> mt_price m \<and> 0 \<le> mt_minStock m"

text \<open>The database keeps only valid materials.\<close>

definition materials_valid :: "db \<Rightarrow> bool" where
  "materials_valid d \<longleftrightarrow> list_all (\<lambda>(_, m). material_valid m) (rows (materials d))"

section \<open>Page state\<close>

record estoque_state =
  es_materials :: "(ident \<times> material) list"
  es_selected_material :: "(ident \<times> material) option"
  es_selected :: "ident list"
  es_modal_open :: bool
  es_loading :: bool
  es_filter :: string
  es_search :: string

definition estoque_init :: estoque_state where
  "estoque_init =
     \<lparr>es_materials = [], es_selected_material = None, es_selected = [], es_modal_open = False,
      es_loading = False, es_filter = ''all'', es_search = []\<rparr>"

section \<open>Derived values\<close>

text \<open>The status column: \<open>row.quantity <= row.minStock ? 'Baixo' : 'Normal'\<close>.\<close>

definition material_status :: "material \<Rightarrow> string" where
  "material_status m = (if mt_quantity m \<le> mt_minStock m then ''Baixo'' else ''Normal'')"

text \<open>The three cards: item count, items at or below the minimum, stock value.\<close>

definition total_itens :: "estoque_state \<Rightarrow> nat" where
  "total_itens s = length (es_materials s)"

definition itens_abaixo :: "estoque_state \<Rightarrow> nat" where
  "itens_abaixo s = length (filter (\<lambda>(_, m). mt_quantity m \<le> mt_minStock m) (es_materials s))"

definition valor_total :: "estoque_state \<Rightarrow> money" where
  "valor_total s = foldl (\<lambda>acc (_, m). acc + mt_price m * mt_quantity m) 0 (es_materials s)"

text \<open>
  The price column (\<open>`R$ ${value.toFixed(2)}`\<close>) and the text of the value card.
\<close>

definition estoque_price_cell :: "material \<Rightarrow> string" where
  "estoque_price_cell m = ''R$ '' @ to_fixed2 (mt_price m)"

definition estoque_valor_card :: "estoque_state \<Rightarrow> string" where
  "estoque_valor_card s = ''R$ '' @ to_fixed2 (valor_total s)"

text \<open>
  The table: \<open>row[key]\<close> of an API row, and \<open>columns\<close>. The price column's render
  formats its value, the row's price; the status column's render reads the row.
\<close>

definition material_field :: "ident \<times> material \<Rightarrow> string \<Rightarrow> jsval" where
  "material_field r key =
     (let m = snd r in
      if key = ''id'' then JNum (int (fst r)) else if key = ''name'' then JStr (mt_name m)
      else if key = ''type'' then JStr (mt_type m) else if key = ''description'' then js_opt (mt_description m)
      else if key = ''quantity'' then JNum (mt_quantity m) else if key = ''unit'' then JStr (mt_unit m)
      else if key = ''price'' then JCents (mt_price m) else if key = ''minStock'' then JNum (mt_minStock m)
      else JUndef)"

definition estoque_columns :: "(ident \<times> material) column list" where
  "estoque_columns =
     [\<lparr>col_key = ''name'', col_header = ''Nome'', col_render = None\<rparr>,
      \<lparr>col_key = ''type'', col_header = ''Tipo'', col_render = None\<rparr>,
      \<lparr>col_key = ''quantity'', col_header = ''Quantidade'', col_render = None\<rparr>,
      \<lparr>col_key = ''unit'', col_header = ''Unidade'', col_render = None\<rparr>,
      \<lparr>col_key = ''price'', col_header = ''Pre'' @ [CHR 0xC3, CHR 0xA7] @ ''o'',
       col_render = Some (\<lambda>_ r. estoque_price_cell (snd r))\<rparr>,
      \<lparr>col_key = ''minStock'', col_header = ''Estoque M'' @ [CHR 0xC3, CHR 0xAD] @ ''nimo'', col_render = None\<rparr>,
      \<lparr>col_key = ''status'', col_header = ''Status'', col_render = Some (\<lambda>_ r. material_status (snd r))\<rparr>]"

text \<open>\<open>filteredMaterials\<close>: type filter and case-insensitive search on the name.\<close>

definition filtered_materials :: "estoque_state \<Rightarrow> (ident \<times> material) list" where
  "filtered_materials s =
     filter (\<lambda>(_, m). (es_filter s = ''all'' \<or> mt_type m = es_filter s) \<and>
                      js_includes (js_lower (mt_name m)) (js_lower (es_search s)))
       (es_materials s)"

section \<open>Handlers\<close>

text \<open>\<open>fetchMaterials\<close>: \<open>GET /api/materials\<close>, then \<open>setMaterials(data)\<close>.\<close>

definition fetch_materials :: "db \<Rightarrow> estoque_state \<Rightarrow> estoque_state" where
  "fetch_materials d s =
     (case materials_list d of Json xs \<Rightarrow> s\<lparr>es_materials := xs\<rparr> | _ \<Rightarrow> s)"

text \<open>
  The mount: \<open>useEffect(() => { fetchMaterials() }, [])\<close>, an effect with an empty
  dependency array. Its \<open>setMaterials(data)\<close> stores a freshly parsed array, never the
  current one, whenever the list answers: \<open>Object.is\<close> tells the new array from the old
  even when their contents agree, so React always renders again (the effect reports a
  change).
\<close>

definition estoque_effect_deps :: "(estoque_state \<Rightarrow> unit list) option" where
  "estoque_effect_deps = Some (\<lambda>_. [])"

definition estoque_mount_effect :: "db \<Rightarrow> estoque_state \<Rightarrow> estoque_state \<times> bool" where
  "estoque_mount_effect d s = (fetch_materials d s, case materials_list d of Json _ \<Rightarrow> True | _ \<Rightarrow> False)"

definition estoque_mount :: "db \<Rightarrow> (estoque_state \<times> nat) option" where
  "estoque_mount d = react_mount estoque_effect_deps (estoque_mount_effect d) estoque_init"

text \<open>
  \<open>handleSubmit(data)\<close>: \<open>PUT\<close> when a material is being edited, \<open>POST\<close> otherwise; then
  the success toast whatever the response, the refresh, and the modal closed.
\<close>

definition estoque_submit :: "material \<Rightarrow> db \<Rightarrow> estoque_state \<Rightarrow> (db \<times> estoque_state) \<times> toast list" where
  "estoque_submit m d s =
     (let (d', msg) =
        (case es_selected_material s of
           Some (k, _) \<Rightarrow> (snd (material_put k m d), ''Material atualizado com sucesso'')
         | None \<Rightarrow> (snd (material_post m d), ''Material criado com sucesso''))
      in ((d', fetch_materials d' (s\<lparr>es_modal_open := False, es_loading := False\<rparr>)), [ToastSuccess msg]))"

text \<open>\<open>handleDelete(id)\<close>, after \<open>window.confirm\<close> answered \<open>ok\<close>.\<close>

definition estoque_delete :: "bool \<Rightarrow> ident \<Rightarrow> db \<Rightarrow> estoque_state \<Rightarrow> (db \<times> estoque_state) \<times> toast list" where
  "estoque_delete ok k d s =
     (if \<not> ok then ((d, s), [])
      else (let d' = snd (material_delete k d)
            in ((d', fetch_materials d' s), [ToastSuccess (''Material exclu'' @ [CHR 0xC3, CHR 0xAD] @ ''do com sucesso'')])))"

text \<open>
  \<open>handleBulkDelete()\<close>: one \<open>DELETE\<close> per selected id through \<open>Promise.all\<close>. The
  requests are independent; \<open>bulk_delete_in\<close> serves them in the order the server
  receives them.
\<close>

definition bulk_delete_in :: "ident list \<Rightarrow> db \<Rightarrow> db" where
  "bulk_delete_in ks d = foldl (\<lambda>d k. snd (material_delete k d)) d ks"

definition estoque_bulk_delete :: "bool \<Rightarrow> db \<Rightarrow> estoque_state \<Rightarrow> (db \<times> estoque_state) \<times> toast list" where
  "estoque_bulk_delete ok d s =
     (if \<not> ok then ((d, s), [])
      else (let d' = bulk_delete_in (es_selected s) d
            in ((d', fetch_materials d' (s\<lparr>es_selected := [], es_loading := False\<rparr>)),
                [ToastSuccess (''Materiais exclu'' @ [CHR 0xC3, CHR 0xAD] @ ''dos com sucesso'')])))"

text \<open>
  The buttons that open and close the modal: \<open>Adicionar Material\<close>, a click on a row
  (\<open>onRowClick\<close>) and the modal's \<open>onClose\<close>.
\<close>

definition estoque_open_new :: "estoque_state \<Rightarrow> estoque_state" where
  "estoque_open_new s = s\<lparr>es_selected_material := None, es_modal_open := True\<rparr>"

definition estoque_open_edit :: "ident \<times> material \<Rightarrow> estoque_state \<Rightarrow> estoque_state" where
  "estoque_open_edit r s = s\<lparr>es_selected_material := Some r, es_modal_open := True\<rparr>"

definition estoque_close_modal :: "estoque_state \<Rightarrow> estoque_state" where
  "estoque_close_modal s = s\<lparr>es_modal_open := False, es_selected_material := None\<rparr>"

text \<open>The button that clears the selection: \<open>setSelectedMaterials([])\<close>.\<close>

definition estoque_clear_selection :: "estoque_state \<Rightarrow> estoque_state" where
  "estoque_clear_selection s = s\<lparr>es_selected := []\<rparr>"

text \<open>The filter buttons, the search box and the table's selection callback.\<close>

definition estoque_set_filter :: "string \<Rightarrow> estoque_state \<Rightarrow> estoque_state" where
  "estoque_set_filter f s = s\<lparr>es_filter := f\<rparr>"

definition estoque_set_search :: "string \<Rightarrow> estoque_state \<Rightarrow> estoque_state" where
  "estoque_set_search t s = s\<lparr>es_search := t\<rparr>"

definition estoque_click :: "ident table_click \<Rightarrow> estoque_state \<Rightarrow> estoque_state" where
  "estoque_click c s = s\<lparr>es_selected := click_selection fst (filtered_materials s) (es_selected s) c\<rparr>"

section \<open>The form's submit and the modal\<close>

text \<open>
  The issues \<open>zodResolver(materialSchema)\<close> reports, path and message, in the order of
  the schema's fields. A number input left empty or malformed is \<open>NaN\<close>, which
  \<open>z.number()\<close> rejects with zod's \<open>invalid_type\<close> message; the type's
  \<open>errorMap\<close> answers \<open>Tipo inv\'{a}lido\<close> for every issue of that field.
\<close>

definition msg_nan :: string where
  "msg_nan = ''Expected number, received nan''"

definition num_issue :: "string \<Rightarrow> string \<Rightarrow> int option \<Rightarrow> (string \<times> string) list" where
  "num_issue path msg v =
     (case v of None \<Rightarrow> [(path, msg_nan)] | Some x \<Rightarrow> if x < 0 then [(path, msg)] else [])"

definition material_schema_errors :: "material_form \<Rightarrow> (string \<times> string) list" where
  "material_schema_errors f =
     (if mf_name f = [] then [(''name'', ''Nome '' @ [CHR 0xC3, CHR 0xA9] @ '' obrigat'' @ [CHR 0xC3, CHR 0xB3] @ ''rio'')] else []) @
     (if mf_type f \<in> {''Chapa'', ''Ferragem'', ''Acabamento''} then []
      else [(''type'', ''Tipo inv'' @ [CHR 0xC3, CHR 0xA1] @ ''lido'')]) @
     (case mf_description f of None \<Rightarrow> [(''description'', ''Expected string, received null'')] | Some _ \<Rightarrow> []) @
     num_issue ''quantity'' ''Quantidade deve ser maior ou igual a 0'' (mf_quantity f) @
     (if mf_unit f = [] then [(''unit'', ''Unidade '' @ [CHR 0xC3, CHR 0xA9] @ '' obrigat'' @ [CHR 0xC3, CHR 0xB3] @ ''ria'')] else []) @
     num_issue ''price'' (''Pre'' @ [CHR 0xC3, CHR 0xA7] @ ''o deve ser maior ou igual a 0'') (mf_price f) @
     num_issue ''minStock'' (''Estoque m'' @ [CHR 0xC3, CHR 0xAD] @ ''nimo deve ser maior ou igual a 0'') (mf_minStock f)"

text \<open>
  What the form shows under its inputs, in the order of the render: Nome, Tipo, Unidade,
  Quantidade, Estoque M\'{i}nimo, Pre\c{c}o, Descri\c{c}\~{a}o; each the first issue of its field
  (\<open>errors.x?.message\<close>).
\<close>

definition material_form_messages :: "(string \<times> string) list \<Rightarrow> string option list" where
  "material_form_messages errs =
     map (map_of errs) [''name'', ''type'', ''unit'', ''quantity'', ''minStock'', ''price'', ''description'']"

text \<open>
  \<open>handleSubmit(onSubmit)\<close> of \<open>react-hook-form\<close>: with issues, the errors are shown
  and \<open>onSubmit\<close> is not called; without, \<open>onSubmit\<close> receives the parsed material.
  \<open>onSubmit\<close> is a parameter over any world, as for the quote form.
\<close>

definition material_form_submit ::
  "(material \<Rightarrow> 'w \<Rightarrow> 'w \<times> toast list) \<Rightarrow> material_form \<Rightarrow> 'w \<Rightarrow>
   ('w \<times> string option list) \<times> toast list" where
  "material_form_submit on_submit f w =
     (case material_schema f of
        None \<Rightarrow> ((w, material_form_messages (material_schema_errors f)), [])
      | Some m \<Rightarrow> (let (w', ts) = on_submit m w in ((w', material_form_messages []), ts)))"

text \<open>
  \<open>MaterialModal\<close>: the title, and the form opened with the selected material as its
  \<open>defaultValues\<close> (an empty form for a new one) and the page's \<open>handleSubmit\<close>.
\<close>

definition material_modal_title :: "estoque_state \<Rightarrow> string" where
  "material_modal_title s = (if es_selected_material s \<noteq> None then ''Editar Material'' else ''Novo Material'')"

definition estoque_form_submit ::
  "material_form \<Rightarrow> db \<Rightarrow> estoque_state \<Rightarrow> ((db \<times> estoque_state) \<times> string option list) \<times> toast list" where
  "estoque_form_submit f d s = material_form_submit (\<lambda>m (d, s). estoque_submit m d s) f (d, s)"

section \<open>Example data\<close>

text \<open>A hinge (\<open>Dobradi\c{c}a\<close>) below its minimum beside the sheet of \<open>Crud\<close>.\<close>

definition estoque_demo_ferragem :: material where
  "estoque_demo_ferragem =
     \<lparr>mt_name = ''Dobradi'' @ [CHR 0xC3, CHR 0xA7] @ ''a'', mt_type = ''Ferragem'', mt_description = Some ''35mm'',
      mt_quantity = 20, mt_unit = ''un'', mt_price = 350, mt_minStock = 50\<rparr>"

definition estoque_demo_db :: db where
  "estoque_demo_db =
     (crud_demo_db Cascade)\<lparr>materials :=
        \<lparr>rows = [(0, crud_demo_material), (1, estoque_demo_ferragem)], next_id = 2\<rparr>\<rparr>"

text \<open>
  The page after loading that list, ticking the sheet's row and then pressing the
  \<open>Ferragens\<close> filter: the sheet is still selected but no longer displayed.
\<close>

definition estoque_demo_hidden :: estoque_state where
  "estoque_demo_hidden =
     estoque_set_filter ''Ferragem'' (estoque_click (ClickRow 0) (fetch_materials estoque_demo_db estoque_init))"

section \<open>Properties of the inventory page\<close>

subsection \<open>Shared lemmas\<close>

lemma material_delete_eq:
  "snd (material_delete k d) =
     (if has_id (materials d) k \<and>
         \<not> (on_delete d = Restrict \<and> list_ex (\<lambda>(_, m). om_materialId m = k) (rows (orcamento_materiais d)))
      then d\<lparr>materials := (materials d)\<lparr>rows := filter (\<lambda>(k', _). k' \<noteq> k) (rows (materials d))\<rparr>,
             orcamento_materiais := delete_many (\<lambda>_ m. om_materialId m = k) (orcamento_materiais d)\<rparr>
      else d)"
  by (simp add: material_delete_def delete_material_row_def delete_def)

lemma has_id_filter_other:
  "k1 \<noteq> k2 \<Longrightarrow> has_id (t\<lparr>rows := filter (\<lambda>(k', _). k' \<noteq> k2) (rows t)\<rparr>) k1 = has_id t k1"
  by (auto simp: has_id_def)

lemma list_ex_delete_many_other:
  "k1 \<noteq> k2 \<Longrightarrow>
   list_ex (\<lambda>(_, m). om_materialId m = k1) (rows (delete_many (\<lambda>_ m. om_materialId m = k2) t)) =
   list_ex (\<lambda>(_, m). om_materialId m = k1) (rows t)"
  by (auto simp: delete_many_def list_ex_iff)

lemma delete_many_commute: "delete_many P (delete_many Q t) = delete_many Q (delete_many P t)"
  by (simp add: delete_many_def) (metis (mono_tags, lifting) filter_filter filter_cong)

lemma filter_rows_commute:
  "(t\<lparr>rows := filter P (rows t)\<rparr>)\<lparr>rows := filter Q (rows (t\<lparr>rows := filter P (rows t)\<rparr>))\<rparr> =
   (t\<lparr>rows := filter Q (rows t)\<rparr>)\<lparr>rows := filter P (rows (t\<lparr>rows := filter Q (rows t)\<rparr>))\<rparr>"
  by (simp add: conj_commute)

lemma material_delete_commute:
  "snd (material_delete k1 (snd (material_delete k2 d))) = snd (material_delete k2 (snd (material_delete k1 d)))"
proof (cases "k1 = k2")
  case True
  then show ?thesis by simp
next
  case False
  then have F: "k2 \<noteq> k1" by simp
  show ?thesis
    unfolding material_delete_eq [of _ d] material_delete_eq [of k1] material_delete_eq [of k2]
    using False F
    by (simp add: has_id_filter_other list_ex_delete_many_other delete_many_commute filter_rows_commute
        split del: if_split) (auto split: if_split simp: has_id_filter_other list_ex_delete_many_other
        delete_many_commute conj_commute)
qed

lemma foldl_swap_front:
  assumes "\<And>d x y. f (f d x) y = f (f d y) x"
  shows "foldl f (f d x) ys = f (foldl f d ys) x"
  by (induction ys arbitrary: d) (simp_all add: assms)

lemma foldl_perm:
  assumes c: "\<And>d x y. f (f d x) y = f (f d y) x"
  shows "mset xs = mset ys \<Longrightarrow> foldl f d xs = foldl f d ys"
proof (induction xs arbitrary: d ys)
  case Nil
  then show ?case by simp
next
  case (Cons x xs)
  then have "x \<in> set ys" by (metis list.set_intros(1) set_mset_mset)
  then obtain ys1 ys2 where ys: "ys = ys1 @ x # ys2" by (meson split_list)
  have "mset xs = mset (ys1 @ ys2)"
    using Cons.prems ys by simp
  then have "foldl f (f d x) xs = foldl f (f d x) (ys1 @ ys2)"
    by (rule Cons.IH)
  also have "\<dots> = foldl f (f (foldl f d ys1) x) ys2"
  proof -
    have "foldl f (f d x) ys1 = f (foldl f d ys1) x"
      by (rule foldl_swap_front) (rule c)
    then show ?thesis by simp
  qed
  finally show ?case
    by (simp add: ys)
qed

lemma fetch_materials_eq:
  "fetch_materials d s = s\<lparr>es_materials := find_many_ordered mt_name (materials d)\<rparr>"
  by (simp add: fetch_materials_def materials_list_def)

lemma set_find_many_ordered: "set (find_many_ordered key t) = set (rows t)"
  by (simp add: find_many_ordered_def)

lemma on_delete_material_delete [simp]: "on_delete (snd (material_delete k d)) = on_delete d"
  by (simp add: material_delete_eq)

lemma has_id_material_delete_mono:
  "has_id (materials (snd (material_delete k d))) j \<Longrightarrow> has_id (materials d) j"
  by (auto simp: material_delete_eq has_id_def split: if_splits)

lemma material_delete_cascade_gone:
  "on_delete d = Cascade \<Longrightarrow> \<not> has_id (materials (snd (material_delete k d))) k"
  by (auto simp: material_delete_eq has_id_def)

lemma bulk_delete_in_Nil [simp]: "bulk_delete_in [] d = d"
  by (simp add: bulk_delete_in_def)

lemma bulk_delete_in_Cons [simp]:
  "bulk_delete_in (j # ks) d = bulk_delete_in ks (snd (material_delete j d))"
  by (simp add: bulk_delete_in_def)

lemma bulk_delete_in_absent:
  "\<not> has_id (materials d) k \<Longrightarrow> \<not> has_id (materials (bulk_delete_in ks d)) k"
  by (induction ks arbitrary: d) (auto dest: has_id_material_delete_mono)

lemma bulk_delete_in_gone:
  "on_delete d = Cascade \<Longrightarrow> k \<in> set ks \<Longrightarrow> \<not> has_id (materials (bulk_delete_in ks d)) k"
proof (induction ks arbitrary: d)
  case Nil
  then show ?case by simp
next
  case (Cons j ks)
  show ?case
  proof (cases "k = j")
    case True
    then show ?thesis
      using material_delete_cascade_gone [OF Cons.prems(1)] by (simp add: bulk_delete_in_absent)
  next
    case False
    then show ?thesis
      using Cons.IH [of "snd (material_delete j d)"] Cons.prems by simp
  qed
qed

lemma materials_post_rows:
  "rows (materials (snd (material_post m d))) = rows (materials d) @ [(next_id (materials d), m)]"
  by (simp add: material_post_def crud_post_def create_def)

lemma material_put_saved:
  assumes "has_id (materials d) k"
  shows "(k, m) \<in> set (rows (materials (snd (material_put k m d))))"
proof -
  have t: "materials (snd (material_put k m d)) = snd (crud_put ''Internal Server Error'' k m (materials d))"
    by (simp add: material_put_def split: prod.splits)
  have "map_of (rows (materials (snd (material_put k m d)))) k = Some m"
    using crud_put_table_lookup [OF assms, of "''Internal Server Error''" m] by (simp add: t lookup_def)
  then show ?thesis
    by (rule map_of_SomeD)
qed

lemma material_put_missing:
  "\<not> has_id (materials d) k \<Longrightarrow> material_put k m d = (ErrorJson 500 ''Internal Server Error'', d)"
  by (simp add: material_put_def crud_put_missing)

lemma js_includes_Nil [simp]: "js_includes s []"
  by (cases s) simp_all

text \<open>What the schema lets through: the form's fields, each satisfying its condition.\<close>

lemma material_schema_SomeD:
  assumes s: "material_schema f = Some m"
  shows "\<exists>ds q p ms. mf_description f = Some ds \<and> mf_quantity f = Some q \<and> mf_price f = Some p \<and>
           mf_minStock f = Some ms \<and>
           mf_name f \<noteq> [] \<and> mf_type f \<in> {''Chapa'', ''Ferragem'', ''Acabamento''} \<and> 0 \<le> q \<and>
           mf_unit f \<noteq> [] \<and> 0 \<le> p \<and> 0 \<le> ms \<and>
           m = \<lparr>mt_name = mf_name f, mt_type = mf_type f, mt_description = Some ds,
                mt_quantity = q, mt_unit = mf_unit f, mt_price = p, mt_minStock = ms\<rparr>"
  using s by (auto simp: material_schema_def split: option.splits if_splits)

lemma material_schema_valid:
  assumes s: "material_schema f = Some m"
  shows "material_valid m"
  using material_schema_SomeD [OF s] by (auto simp: material_valid_def)

lemma materials_valid_post:
  "materials_valid d \<Longrightarrow> material_valid m \<Longrightarrow> materials_valid (snd (material_post m d))"
  by (simp add: materials_valid_def materials_post_rows)

lemma materials_valid_put:
  assumes v: "materials_valid d" and m: "material_valid m"
  shows "materials_valid (snd (material_put k m d))"
proof -
  have t: "materials (snd (material_put k m d)) = snd (crud_put ''Internal Server Error'' k m (materials d))"
    by (simp add: material_put_def split: prod.splits)
  have "list_all (\<lambda>(_, m). material_valid m) (rows (snd (crud_put ''Internal Server Error'' k m (materials d))))"
    using crud_put_cases [of "''Internal Server Error''" k m "materials d"]
  proof
    assume "snd (crud_put ''Internal Server Error'' k m (materials d)) = materials d"
    then show ?thesis using v by (simp add: materials_valid_def)
  next
    assume u: "update k (\<lambda>_. m) (materials d) = Inr (snd (crud_put ''Internal Server Error'' k m (materials d)))"
    have r: "rows (snd (crud_put ''Internal Server Error'' k m (materials d))) = map_vals_at k (\<lambda>_. m) (rows (materials d))"
      using update_InrD [OF u] by simp
    show ?thesis
      using v m unfolding r by (auto simp: materials_valid_def list_all_iff dest!: in_map_vals_at)
  qed
  then show ?thesis
    by (simp add: materials_valid_def t)
qed

lemma materials_valid_delete:
  "materials_valid d \<Longrightarrow> materials_valid (snd (material_delete k d))"
  by (auto simp: materials_valid_def material_delete_eq list_all_iff)

lemma materials_valid_bulk:
  "materials_valid d \<Longrightarrow> materials_valid (bulk_delete_in ks d)"
  by (induction ks arbitrary: d) (simp_all add: materials_valid_delete)

subsection \<open>The page's claims\<close>

text \<open>
  Each line of the inventory table: name, type, quantity, unit, \<open>R$\<close> and the price
  with two decimals, minimum stock, and the status.
\<close>

lemma estoque_table_lines:
  "table_body material_field estoque_columns xs =
     map (\<lambda>(k, m). [mt_name m, mt_type m, string_of_int (mt_quantity m), mt_unit m,
                    estoque_price_cell m, string_of_int (mt_minStock m), material_status m]) xs"
  by (auto simp: table_body_def estoque_columns_def table_cell_def material_field_def)

text \<open>
  The issues and the parse agree: the schema lets a form through exactly when it reports
  no issue, and a rejected form leaves the page and the database as they were.
\<close>

lemma material_schema_errors_iff: "material_schema_errors f = [] \<longleftrightarrow> material_schema f \<noteq> None"
  by (auto simp: material_schema_errors_def material_schema_def num_issue_def split: option.splits if_splits)

lemma estoque_form_submit_rejected:
  "material_schema f = None \<Longrightarrow>
   estoque_form_submit f d s = (((d, s), material_form_messages (material_schema_errors f)), [])"
  by (simp add: estoque_form_submit_def material_form_submit_def)

lemma estoque_form_submit_accepted:
  "material_schema f = Some m \<Longrightarrow>
   estoque_form_submit f d s = (((fst (estoque_submit m d s)), material_form_messages []), snd (estoque_submit m d s))"
  by (simp add: estoque_form_submit_def material_form_submit_def split: prod.splits)

text \<open>
  C17: The \<open>Itens Abaixo do M\'{i}nimo\<close> card counts exactly the rows whose
  status column reads \<open>Baixo\<close>, and it never exceeds the \<open>Total de Itens\<close> card.
\<close>

theorem estoque_cards_consistent:
  "itens_abaixo s = length (filter (\<lambda>(_, m). material_status m = ''Baixo'') (es_materials s)) \<and>
   itens_abaixo s \<le> total_itens s"
  by (simp add: itens_abaixo_def total_itens_def material_status_def case_prod_unfold)

text \<open>
  C18: the inventory page keeps the materials table valid: a material the form's schema
  let through, saved by \<open>POST\<close> or \<open>PUT\<close>, and every delete and bulk delete leave every
  stored material satisfying the schema's conditions. The server checks none of them,
  so the guarantee holds only for what this page sends.
\<close>

theorem estoque_keeps_materials_valid:
  assumes "materials_valid d"
  shows "(material_schema f = Some m \<longrightarrow> materials_valid (fst (fst (estoque_submit m d s)))) \<and>
         materials_valid (fst (fst (estoque_delete ok k d s))) \<and>
         materials_valid (fst (fst (estoque_bulk_delete ok d s)))"
proof (intro conjI impI)
  assume "material_schema f = Some m"
  then have "material_valid m"
    by (rule material_schema_valid)
  then show "materials_valid (fst (fst (estoque_submit m d s)))"
    using assms materials_valid_post materials_valid_put
    by (simp add: estoque_submit_def split: option.splits prod.splits)
next
  show "materials_valid (fst (fst (estoque_delete ok k d s)))"
    using assms by (simp add: estoque_delete_def Let_def materials_valid_delete)
next
  show "materials_valid (fst (fst (estoque_bulk_delete ok d s)))"
    using assms by (simp add: estoque_bulk_delete_def Let_def materials_valid_bulk)
qed


theorem estoque_keeps_materials_valid_witness:
  "materials_valid estoque_demo_db \<and>
   material_schema (material_form_of estoque_demo_ferragem) = Some estoque_demo_ferragem \<and>
   materials_valid (fst (fst (estoque_submit estoque_demo_ferragem estoque_demo_db estoque_init)))"
proof -
  have v: "materials_valid estoque_demo_db"
    by (simp add: materials_valid_def estoque_demo_db_def material_valid_def crud_demo_material_def
        estoque_demo_ferragem_def)
  have s: "material_schema (material_form_of estoque_demo_ferragem) = Some estoque_demo_ferragem"
    by (simp add: material_schema_def material_form_of_def estoque_demo_ferragem_def)
  show ?thesis
    using estoque_keeps_materials_valid [OF v, of "material_form_of estoque_demo_ferragem" estoque_demo_ferragem]
      v s by simp
qed

text \<open>
  The stock value card, a \<open>reduce\<close> from 0, is the sum of price times
  quantity over the loaded materials; it is nonnegative when every material satisfies the
  form's schema.
\<close>

lemma valor_total_sum:
  "valor_total s = sum_list (map (\<lambda>(_, m). mt_price m * mt_quantity m) (es_materials s)) \<and>
   (list_all (\<lambda>(_, m). material_valid m) (es_materials s) \<longrightarrow> 0 \<le> valor_total s)"
proof -
  have v: "valor_total s = sum_list (map (\<lambda>(_, m). mt_price m * mt_quantity m) (es_materials s))"
    by (simp add: valor_total_def case_prod_unfold foldl_add_sum_list)
  moreover have "0 \<le> valor_total s" if "list_all (\<lambda>(_, m). material_valid m) (es_materials s)"
    unfolding v using that
    by (intro sum_list_nonneg) (auto simp: list_all_iff material_valid_def)
  ultimately show ?thesis by blast
qed

lemma valor_total_demo:
  "list_all (\<lambda>(_, m). material_valid m) (es_materials (fetch_materials estoque_demo_db estoque_init)) \<and>
   valor_total (fetch_materials estoque_demo_db estoque_init) = 96900 \<and>
   0 \<le> valor_total (fetch_materials estoque_demo_db estoque_init)"
proof -
  have v: "list_all (\<lambda>(_, m). material_valid m) (es_materials (fetch_materials estoque_demo_db estoque_init))"
    by (simp add: fetch_materials_eq estoque_init_def estoque_demo_db_def find_many_ordered_def
        material_valid_def crud_demo_material_def estoque_demo_ferragem_def)
  show ?thesis
    using valor_total_sum [of "fetch_materials estoque_demo_db estoque_init"] v
    by (simp add: fetch_materials_eq estoque_init_def estoque_demo_db_def find_many_ordered_def
        crud_demo_material_def estoque_demo_ferragem_def)
qed

text \<open>
  C19: The form's schema accepts a form exactly when it is the form of a valid
  material whose description is a string, and then passes on that material: the edit
  form opened on such a material submits it unchanged, nothing invalid reaches
  \<open>onSubmit\<close>, and the edit form of a material whose description is \<open>null\<close> (one not
  created through this form) is refused whatever its other fields.
\<close>

theorem material_schema_iff:
  "material_schema f = Some m \<longleftrightarrow> material_valid m \<and> mt_description m \<noteq> None \<and> f = material_form_of m"
proof
  assume s: "material_schema f = Some m"
  show "material_valid m \<and> mt_description m \<noteq> None \<and> f = material_form_of m"
    using material_schema_SomeD [OF s] by (cases f) (auto simp: material_valid_def material_form_of_def)
next
  assume "material_valid m \<and> mt_description m \<noteq> None \<and> f = material_form_of m"
  then show "material_schema f = Some m"
    by (auto simp: material_schema_def material_valid_def material_form_of_def)
qed

theorem material_schema_iff_witness:
  "material_valid estoque_demo_ferragem \<and> mt_description estoque_demo_ferragem \<noteq> None \<and>
   material_schema (material_form_of estoque_demo_ferragem) = Some estoque_demo_ferragem \<and>
   material_schema (material_form_of crud_demo_material) = None"
proof -
  have v: "material_valid estoque_demo_ferragem" "mt_description estoque_demo_ferragem \<noteq> None"
    by (simp_all add: material_valid_def estoque_demo_ferragem_def)
  have s: "material_schema (material_form_of estoque_demo_ferragem) = Some estoque_demo_ferragem"
    using material_schema_iff [of "material_form_of estoque_demo_ferragem" estoque_demo_ferragem] v by simp
  have n: "material_schema (material_form_of crud_demo_material) = None"
  proof (rule ccontr)
    assume "material_schema (material_form_of crud_demo_material) \<noteq> None"
    then obtain m where "material_schema (material_form_of crud_demo_material) = Some m"
      by blast
    then have "mt_description m \<noteq> None" "material_form_of crud_demo_material = material_form_of m"
      using material_schema_iff [of "material_form_of crud_demo_material" m] by simp_all
    then show False
      by (simp add: material_form_of_def crud_demo_material_def)
  qed
  show ?thesis
    using v s n by simp
qed

text \<open>
  C20: After a submit the table shows the server's list: a new material
  appears under the id the server gave it, an edited one that exists appears with its new
  fields, and the modal is closed and the button no longer loading.
\<close>

theorem estoque_submit_saves:
  assumes "estoque_submit m d s = ((d', s'), ts)"
  shows "(case es_selected_material s of
            None \<Rightarrow> (next_id (materials d), m) \<in> set (es_materials s')
          | Some (k, _) \<Rightarrow> has_id (materials d) k \<longrightarrow> (k, m) \<in> set (es_materials s')) \<and>
         es_materials s' = find_many_ordered mt_name (materials d') \<and> \<not> es_modal_open s' \<and> \<not> es_loading s'"
proof (cases "es_selected_material s")
  case None
  then show ?thesis
    using assms by (auto simp: estoque_submit_def fetch_materials_eq materials_post_rows set_find_many_ordered)
next
  case (Some r)
  obtain k x where r: "r = (k, x)"
    by (cases r)
  then show ?thesis
    using assms Some material_put_saved [of d k m]
    by (auto simp: estoque_submit_def fetch_materials_eq set_find_many_ordered)
qed

theorem estoque_submit_saves_witness:
  "(2, crud_demo_material) \<in> set (es_materials (snd (fst (estoque_submit crud_demo_material estoque_demo_db estoque_init)))) \<and>
   \<not> es_modal_open (snd (fst (estoque_submit crud_demo_material estoque_demo_db estoque_init)))"
proof -
  have e: "estoque_submit crud_demo_material estoque_demo_db estoque_init =
      ((fst (fst (estoque_submit crud_demo_material estoque_demo_db estoque_init)),
        snd (fst (estoque_submit crud_demo_material estoque_demo_db estoque_init))),
       snd (estoque_submit crud_demo_material estoque_demo_db estoque_init))"
    by simp
  have n: "es_selected_material estoque_init = None" "next_id (materials estoque_demo_db) = 2"
    by (simp_all add: estoque_init_def estoque_demo_db_def)
  show ?thesis
    using estoque_submit_saves [OF e] unfolding n option.simps by blast
qed

text \<open>
  C21: Editing a material another tab has deleted: the server answers
  500 and keeps its database, and the page still raises the success toast.
\<close>

theorem estoque_submit_failed_put:
  assumes "es_selected_material s = Some (k, x)" "\<not> has_id (materials d) k"
  shows "fst (material_put k m d) = ErrorJson 500 ''Internal Server Error'' \<and>
         estoque_submit m d s =
           ((d, fetch_materials d (s\<lparr>es_modal_open := False, es_loading := False\<rparr>)),
            [ToastSuccess ''Material atualizado com sucesso''])"
  using assms by (simp add: estoque_submit_def material_put_missing)

theorem estoque_submit_failed_put_witness:
  "es_selected_material (estoque_open_edit (5, crud_demo_material) estoque_init) = Some (5, crud_demo_material) \<and>
   \<not> has_id (materials estoque_demo_db) 5 \<and>
   fst (material_put 5 crud_demo_material estoque_demo_db) = ErrorJson 500 ''Internal Server Error'' \<and>
   fst (fst (estoque_submit crud_demo_material estoque_demo_db (estoque_open_edit (5, crud_demo_material) estoque_init))) =
     estoque_demo_db \<and>
   snd (estoque_submit crud_demo_material estoque_demo_db (estoque_open_edit (5, crud_demo_material) estoque_init)) =
     [ToastSuccess ''Material atualizado com sucesso'']"
proof -
  have s: "es_selected_material (estoque_open_edit (5, crud_demo_material) estoque_init) = Some (5, crud_demo_material)"
    by (simp add: estoque_open_edit_def)
  have h: "\<not> has_id (materials estoque_demo_db) 5"
    by (simp add: estoque_demo_db_def has_id_def)
  show ?thesis
    using estoque_submit_failed_put [OF s h, of crud_demo_material] s h by simp
qed

text \<open>
  The bulk delete's requests run through \<open>Promise.all\<close> in any order:
  serving the same ids in any permutation gives the same database.
\<close>

lemma bulk_delete_order:
  "mset ks = mset ks' \<Longrightarrow> bulk_delete_in ks d = bulk_delete_in ks' d"
  unfolding bulk_delete_in_def by (rule foldl_perm) (simp add: material_delete_commute)

text \<open>
  C22: Under \<open>Cascade\<close> the bulk delete removes every selected
  material from the server and from the table and clears the selection, whether or not
  the current filter displays it.
\<close>

theorem estoque_bulk_delete_removes_selected:
  assumes "on_delete d = Cascade" "k \<in> set (es_selected s)"
  shows "\<not> has_id (materials (fst (fst (estoque_bulk_delete True d s)))) k \<and>
         es_selected (snd (fst (estoque_bulk_delete True d s))) = [] \<and>
         (\<forall>m. (k, m) \<notin> set (es_materials (snd (fst (estoque_bulk_delete True d s)))))"
proof -
  have g: "\<not> has_id (materials (bulk_delete_in (es_selected s) d)) k"
    using bulk_delete_in_gone [OF assms] .
  then have "(k, m) \<notin> set (rows (materials (bulk_delete_in (es_selected s) d)))" for m
    by (force simp: has_id_def)
  then show ?thesis
    using g by (simp add: estoque_bulk_delete_def fetch_materials_eq Let_def set_find_many_ordered)
qed

theorem estoque_bulk_delete_removes_selected_witness:
  "on_delete estoque_demo_db = Cascade \<and> 0 \<in> set (es_selected estoque_demo_hidden) \<and>
   0 \<notin> fst ` set (filtered_materials estoque_demo_hidden) \<and>
   \<not> has_id (materials (fst (fst (estoque_bulk_delete True estoque_demo_db estoque_demo_hidden)))) 0"
proof -
  have c: "on_delete estoque_demo_db = Cascade"
    by (simp add: estoque_demo_db_def crud_demo_db_def empty_db_def)
  have s: "0 \<in> set (es_selected estoque_demo_hidden)"
    by (simp add: estoque_demo_hidden_def estoque_set_filter_def estoque_click_def select_row_def
        row_checked_def fetch_materials_eq estoque_init_def)
  have f: "0 \<notin> fst ` set (filtered_materials estoque_demo_hidden)"
    by (simp add: estoque_demo_hidden_def estoque_demo_db_def estoque_init_def fetch_materials_eq
        estoque_click_def estoque_set_filter_def filtered_materials_def find_many_ordered_def
        crud_demo_material_def estoque_demo_ferragem_def)
  show ?thesis
    using estoque_bulk_delete_removes_selected [OF c s] c s f by simp
qed

text \<open>
  The search box ignores case: a term and its lower-case form
  select the same rows; with the \<open>Todos\<close> filter and an empty term every material
  is displayed.
\<close>

lemma filtered_search_case_insensitive:
  "filtered_materials (estoque_set_search (js_lower t) s) = filtered_materials (estoque_set_search t s) \<and>
   filtered_materials (estoque_set_filter ''all'' (estoque_set_search [] s)) = es_materials s"
  by (simp add: filtered_materials_def estoque_set_search_def estoque_set_filter_def js_lower_idem)

text \<open>
  The header checkbox compares lengths, so after a filter change it can
  be ticked while its displayed row is not, and a click on it then clears the selection
  instead of selecting the displayed rows.
\<close>

lemma estoque_header_stale:
  "all_selected (filtered_materials estoque_demo_hidden) (es_selected estoque_demo_hidden) \<and>
   \<not> every_row_checked fst (filtered_materials estoque_demo_hidden) (es_selected estoque_demo_hidden) \<and>
   es_selected (estoque_click ClickAll estoque_demo_hidden) = []"
  by (simp add: estoque_demo_hidden_def estoque_demo_db_def estoque_init_def fetch_materials_eq
      estoque_click_def estoque_set_filter_def filtered_materials_def find_many_ordered_def
      crud_demo_material_def estoque_demo_ferragem_def all_selected_def every_row_checked_def
      row_checked_def select_row_def select_all_def)

text \<open>
  A material is displayed exactly when it is loaded, its type passes the filter, and the
  lower-cased search term occurs as a contiguous piece of its lower-cased name.
\<close>

lemma filtered_materials_iff:
  "r \<in> set (filtered_materials s) \<longleftrightarrow>
     r \<in> set (es_materials s) \<and> (es_filter s = ''all'' \<or> mt_type (snd r) = es_filter s) \<and>
     sublist (js_lower (es_search s)) (js_lower (mt_name (snd r)))"
  by (cases r) (auto simp: filtered_materials_def js_includes_sublist)

end
