(* ===== verification/OrcamentoForm.thy ===== *)
theory OrcamentoForm
  imports Entities Browser
begin

text \<open>
  The quote form \<open>src/src/app/orcamentos/components/OrcamentoForm.tsx\<close>. It keeps the
  line items in React state, edits them with a stock guard against the \<open>produtos\<close>
  it is given, validates them (a stock check, then the zod schema) and hands the payload
  to the page's \<open>onSubmit\<close>. Values the handlers read from inputs are what
  \<open>Number\<close>, \<open>parseInt\<close> and \<open>parseFloat\<close> return: an integer, or \<open>None\<close>
  for \<open>NaN\<close>; money is in cents as everywhere in the model. The page behind
  \<open>onSubmit\<close> is a parameter: any function of a payload and a world that returns the
  world and the toasts it raised (the quotes page of \<open>OrcamentosPage\<close> is one).
\<close>

section \<open>State\<close>

record form_item =
  fi_produtoId :: int
  fi_quantidade :: qty
  fi_precoUnit :: money

datatype item_field = FProdutoId | FQuantidade | FPrecoUnit

record orc_form_state =
  of_items :: "form_item list"
  of_submitting :: bool
  of_errors :: "(string \<times> string) list"

text \<open>
  \<open>useState(initialData?.items?.map(...) || [])\<close>: the items of the initial data when it
  has an \<open>items\<close> array, none otherwise.
\<close>

definition orc_form_init :: "form_item list option \<Rightarrow> orc_form_state" where
  "orc_form_init init =
     \<lparr>of_items = (case init of None \<Rightarrow> [] | Some xs \<Rightarrow> xs), of_submitting = False, of_errors = []\<rparr>"

text \<open>\<open>produtos.find(p => p.id === produtoId)\<close>.\<close>

definition find_produto :: "(ident \<times> produto) list \<Rightarrow> int \<Rightarrow> produto option" where
  "find_produto ps k = map_option snd (find (\<lambda>(i, _). int i = k) ps)"

section \<open>Editing the items\<close>

definition handle_add_item :: "orc_form_state \<Rightarrow> orc_form_state" where
  "handle_add_item s =
     s\<lparr>of_items := of_items s @ [\<lparr>fi_produtoId = 0, fi_quantidade = 1, fi_precoUnit = 0\<rparr>]\<rparr>"

definition handle_remove_item :: "nat \<Rightarrow> orc_form_state \<Rightarrow> orc_form_state" where
  "handle_remove_item i s =
     s\<lparr>of_items := map fst (filter (\<lambda>(_, j). j \<noteq> i) (zip (of_items s) [0..<length (of_items s)]))\<rparr>"

text \<open>The toast of the stock guard, \<open>Quantidade maior que o estoque dispon\'{i}vel (n unidades)\<close>.\<close>

definition msg_estoque :: "produto \<Rightarrow> string" where
  "msg_estoque p =
     ''Quantidade maior que o estoque dispon'' @ [CHR 0xC3, CHR 0xAD] @ ''vel ('' @
     string_of_int (pr_estoque p) @ '' unidades)''"

text \<open>
  \<open>handleItemChange(index, field, value)\<close>. Choosing a product checks the row's quantity
  (\<open>|| 1\<close>: 0 counts as 1) against its stock and copies its price; a quantity is
  \<open>Math.max(1, parseInt(value) || 0)\<close> and checked against the row's product; a price
  is \<open>Math.max(0, parseFloat(value) || 0)\<close>. A rejected change raises a toast and leaves
  the state; an accepted one also clears the validation errors. The rows on screen call
  it with their own index. An index past the rows leaves the model (\<open>None\<close>): choosing
  an existing product reads \<open>newItems[index].quantidade\<close> and a quantity reads
  \<open>newItems[index].produtoId\<close>, both of \<open>undefined\<close>, and throw a \<open>TypeError\<close>; a price
  writes a row holding only \<open>precoUnit\<close> past the end. Choosing an id no product has
  reads no row and only clears the errors.
\<close>

fun handle_item_change ::
  "(ident \<times> produto) list \<Rightarrow> nat \<Rightarrow> item_field \<Rightarrow> int option \<Rightarrow> orc_form_state \<Rightarrow>
   (orc_form_state \<times> toast list) option"
where
  "handle_item_change ps i FProdutoId v s =
     (case v of
        None \<Rightarrow> Some (s\<lparr>of_errors := []\<rparr>, [])
      | Some pid \<Rightarrow>
          (case find_produto ps pid of
             None \<Rightarrow> Some (s\<lparr>of_errors := []\<rparr>, [])
           | Some p \<Rightarrow>
               (if length (of_items s) \<le> i then None else
                let q = (if fi_quantidade (of_items s ! i) = 0 then 1 else fi_quantidade (of_items s ! i))
                in if pr_estoque p < q then Some (s, [ToastError (msg_estoque p)])
                   else Some (s\<lparr>of_items := (of_items s)[i := (of_items s ! i)\<lparr>fi_produtoId := pid, fi_precoUnit := pr_preco p\<rparr>],
                                of_errors := []\<rparr>, []))))"
| "handle_item_change ps i FQuantidade v s =
     (if length (of_items s) \<le> i then None else
      (let n = max 1 (case v of None \<Rightarrow> 0 | Some x \<Rightarrow> x)
       in case find_produto ps (fi_produtoId (of_items s ! i)) of
            Some p \<Rightarrow>
              (if pr_estoque p < n then Some (s, [ToastError (msg_estoque p)])
               else Some (s\<lparr>of_items := (of_items s)[i := (of_items s ! i)\<lparr>fi_quantidade := n\<rparr>], of_errors := []\<rparr>, []))
          | None \<Rightarrow> Some (s\<lparr>of_items := (of_items s)[i := (of_items s ! i)\<lparr>fi_quantidade := n\<rparr>], of_errors := []\<rparr>, [])))"
| "handle_item_change ps i FPrecoUnit v s =
     (if length (of_items s) \<le> i then None else
      (let x = max 0 (case v of None \<Rightarrow> 0 | Some y \<Rightarrow> y)
       in Some (s\<lparr>of_items := (of_items s)[i := (of_items s ! i)\<lparr>fi_precoUnit := x\<rparr>], of_errors := []\<rparr>, [])))"

text \<open>The total under the items: \<open>items.reduce((acc, item) => acc + precoUnit * quantidade, 0)\<close>.\<close>

definition form_total :: "orc_form_state \<Rightarrow> money" where
  "form_total s = foldl (\<lambda>acc it. acc + fi_precoUnit it * fi_quantidade it) 0 (of_items s)"

section \<open>Validation and submission\<close>

text \<open>
  The fields \<open>Form\<close> collects with \<open>FormData\<close>: the client select through
  \<open>Number\<close> (the empty option is 0), the status and the notes as strings.
\<close>

record form_data =
  fd_clienteId :: int
  fd_status :: string
  fd_observacoes :: string

record orc_payload =
  op_clienteId :: int
  op_status :: string
  op_observacoes :: string
  op_items :: "form_item list"

text \<open>The \<open>data\<close> object \<open>handleSubmit\<close> builds: \<open>|| 'Pendente'\<close>, \<open>|| ''\<close>, and the items.\<close>

definition form_payload :: "form_data \<Rightarrow> orc_form_state \<Rightarrow> orc_payload" where
  "form_payload fd s =
     \<lparr>op_clienteId = fd_clienteId fd, op_status = (if fd_status fd = [] then ''Pendente'' else fd_status fd),
      op_observacoes = fd_observacoes fd, op_items = of_items s\<rparr>"

text \<open>\<open>estoqueInvalido\<close>: some item asks for more than its product's stock.\<close>

definition stock_invalid :: "(ident \<times> produto) list \<Rightarrow> form_item list \<Rightarrow> bool" where
  "stock_invalid ps its =
     list_ex (\<lambda>it. case find_produto ps (fi_produtoId it) of None \<Rightarrow> False | Some p \<Rightarrow> pr_estoque p < fi_quantidade it) its"

text \<open>
  \<open>orcamentoSchema.parse\<close>: the issues zod reports, path and message, in the order of
  the schema's fields; \<open>validationErrors\<close> maps each path to its message.
\<close>

definition item_errors :: "nat \<Rightarrow> form_item \<Rightarrow> (string \<times> string) list" where
  "item_errors i it =
     (let pre = ''items.'' @ string_of_nat i @ ''.'' in
      (if fi_produtoId it < 1 then [(pre @ ''produtoId'', ''Selecione um produto'')] else []) @
      (if fi_quantidade it < 1 then [(pre @ ''quantidade'', ''Quantidade deve ser maior que 0'')] else []) @
      (if fi_precoUnit it < 0
       then [(pre @ ''precoUnit'', ''Pre'' @ [CHR 0xC3, CHR 0xA7] @ ''o deve ser maior ou igual a 0'')] else []))"

text \<open>A string between single quotes, as zod prints the values of an enum.\<close>

definition quoted :: "string \<Rightarrow> string" where
  "quoted t = CHR 0x27 # t @ [CHR 0x27]"

definition orcamento_schema_errors :: "orc_payload \<Rightarrow> (string \<times> string) list" where
  "orcamento_schema_errors p =
     (if op_clienteId p < 1 then [(''clienteId'', ''Selecione um cliente'')] else []) @
     (if op_status p \<in> {''Pendente'', ''Aprovado'', ''Rejeitado''} then []
      else [(''status'', ''Invalid enum value. Expected '' @ quoted ''Pendente'' @ '' | '' @ quoted ''Aprovado'' @
                         '' | '' @ quoted ''Rejeitado'' @ '', received '' @ quoted (op_status p))]) @
     (if op_items p = [] then [(''items'', ''Adicione pelo menos um item'')] else []) @
     concat (map (\<lambda>(it, i). item_errors i it) (zip (op_items p) [0..<length (op_items p)]))"

text \<open>\<open>validateForm(data)\<close>: the verdict, the state and the toasts.\<close>

definition validate_form ::
  "(ident \<times> produto) list \<Rightarrow> orc_payload \<Rightarrow> orc_form_state \<Rightarrow> bool \<times> orc_form_state \<times> toast list" where
  "validate_form ps p s =
     (if stock_invalid ps (op_items p)
      then (False, s, [ToastError (''Um ou mais itens excedem o estoque dispon'' @ [CHR 0xC3, CHR 0xAD] @ ''vel'')])
      else (let es = orcamento_schema_errors p in
            if es = [] then (True, s, []) else (False, s\<lparr>of_errors := es\<rparr>, [])))"

text \<open>
  \<open>handleSubmit(formData)\<close>: validate, then \<open>await onSubmit(data)\<close> and the form's own
  success toast. The page's \<open>onSubmit\<close> catches its errors, so it never throws here.
\<close>

definition orc_form_submit ::
  "(orc_payload \<Rightarrow> 'w \<Rightarrow> 'w \<times> toast list) \<Rightarrow> bool \<Rightarrow> (ident \<times> produto) list \<Rightarrow> form_data \<Rightarrow>
   'w \<Rightarrow> orc_form_state \<Rightarrow> ('w \<times> orc_form_state) \<times> toast list" where
  "orc_form_submit on_submit editing ps fd w s =
     (let p = form_payload fd s;
          (ok, s1, ts1) = validate_form ps p s
      in if \<not> ok then ((w, s1), ts1)
         else (let (w', ts2) = on_submit p w
               in ((w', s1\<lparr>of_submitting := False\<rparr>),
                   ts1 @ ts2 @ [ToastSuccess (if editing then ''Or'' @ [CHR 0xC3, CHR 0xA7] @ ''amento atualizado!''
                                              else ''Or'' @ [CHR 0xC3, CHR 0xA7] @ ''amento criado!'')])))"

text \<open>The submit button: \<open>disabled={isSubmitting || items.length === 0}\<close>.\<close>

definition orc_form_can_submit :: "orc_form_state \<Rightarrow> bool" where
  "orc_form_can_submit s \<longleftrightarrow> \<not> of_submitting s \<and> of_items s \<noteq> []"

section \<open>What the form shows\<close>

text \<open>
  A product's option in a row's select: name, price and, below 5 units, the stock left
  (\<open>produto.estoque < 5 ? ` (Apenas n em estoque)` : ''\<close>).
\<close>

definition produto_option_label :: "produto \<Rightarrow> string" where
  "produto_option_label p =
     pr_nome p @ '' - R$ '' @ to_fixed2 (pr_preco p) @
     (if pr_estoque p < 5 then '' (Apenas '' @ string_of_int (pr_estoque p) @ '' em estoque)'' else [])"

text \<open>The total line, shown only when there are items.\<close>

definition form_total_text :: "orc_form_state \<Rightarrow> string option" where
  "form_total_text s =
     (if of_items s = [] then None else Some (''Total: R$ '' @ to_fixed2 (form_total s)))"

text \<open>
  \<open>validationErrors[path]\<close>: the message under a field. The errors are written in
  order with \<open>errors[path] = message\<close>, so the last message of a path wins.
\<close>

definition form_field_error :: "orc_form_state \<Rightarrow> string \<Rightarrow> string option" where
  "form_field_error s path = map_of (rev (of_errors s)) path"

text \<open>
  What the form renders. The props it reads: \<open>clientes\<close> and \<open>produtos\<close>
  (\<open>None\<close> when the parent leaves them \<open>undefined\<close>), the fields of
  \<open>initialData\<close>, and \<open>isLoading\<close>. While loading it shows a spinner; otherwise
  \<open>clientes.map\<close> runs first, and \<open>produtos.map\<close> once per row: on \<open>undefined\<close>
  each throws a \<open>TypeError\<close> and the render fails. The status select shows its
  \<open>defaultValue\<close> when that is one of its options and its first option otherwise.
\<close>

record orc_initial =
  ini_clienteId :: "int option"
  ini_status :: "string option"
  ini_observacoes :: "string option"

record orc_form_view =
  ov_cliente_options :: "(string \<times> string) list"
  ov_cliente_default :: string
  ov_cliente_error :: "string option"
  ov_status_shown :: string
  ov_items_error :: "string option"
  ov_produto_options :: "(string \<times> string) list"
  ov_rows :: "(form_item \<times> string option \<times> string option \<times> string option) list"
  ov_total :: "string option"
  ov_observacoes_default :: string
  ov_submit_label :: string
  ov_submit_enabled :: bool

datatype 'v rendered = Spinner | View 'v | RenderThrows string

definition msg_map_undefined :: string where
  "msg_map_undefined = ''TypeError: Cannot read properties of undefined (reading '' @ quoted ''map'' @ '')''"

definition row_errors :: "orc_form_state \<Rightarrow> nat \<Rightarrow> string option \<times> string option \<times> string option" where
  "row_errors s i =
     (let pre = ''items.'' @ string_of_nat i @ ''.'' in
      (form_field_error s (pre @ ''produtoId''), form_field_error s (pre @ ''quantidade''),
       form_field_error s (pre @ ''precoUnit'')))"

definition orc_form_render ::
  "(ident \<times> string) list option \<Rightarrow> (ident \<times> produto) list option \<Rightarrow> orc_initial option \<Rightarrow> bool \<Rightarrow>
   orc_form_state \<Rightarrow> orc_form_view rendered" where
  "orc_form_render cls prods ini loading s =
     (if loading then Spinner
      else case cls of
        None \<Rightarrow> RenderThrows msg_map_undefined
      | Some cs \<Rightarrow>
          (if of_items s \<noteq> [] \<and> prods = None then RenderThrows msg_map_undefined
           else
             (let st = (case ini of Some i \<Rightarrow> (case ini_status i of Some x \<Rightarrow> x | None \<Rightarrow> []) | None \<Rightarrow> []);
                  st_default = (if st = [] then ''Pendente'' else st)
              in View
                \<lparr>ov_cliente_options = ([], ''Selecione um cliente'') # map (\<lambda>(k, n). (string_of_nat k, n)) cs,
                 ov_cliente_default =
                   (case ini of Some i \<Rightarrow> (case ini_clienteId i of Some c \<Rightarrow> if c = 0 then [] else string_of_int c
                                                                   | None \<Rightarrow> [])
                              | None \<Rightarrow> []),
                 ov_cliente_error = form_field_error s ''clienteId'',
                 ov_status_shown =
                   (if st_default \<in> {''Pendente'', ''Aprovado'', ''Rejeitado''} then st_default else ''Pendente''),
                 ov_items_error = form_field_error s ''items'',
                 ov_produto_options =
                   ([], ''Selecione um produto'') #
                   map (\<lambda>(k, p). (string_of_nat k, produto_option_label p)) (case prods of Some ps \<Rightarrow> ps | None \<Rightarrow> []),
                 ov_rows = map (\<lambda>(it, i). (it, row_errors s i)) (zip (of_items s) [0..<length (of_items s)]),
                 ov_total = form_total_text s,
                 ov_observacoes_default =
                   (case ini of Some i \<Rightarrow> (case ini_observacoes i of Some x \<Rightarrow> x | None \<Rightarrow> []) | None \<Rightarrow> []),
                 ov_submit_label =
                   (if of_submitting s then ''Salvando...'' else if ini \<noteq> None then ''Atualizar'' else ''Criar''),
                 ov_submit_enabled = orc_form_can_submit s\<rparr>)))"

section \<open>Edits the user can make\<close>

text \<open>
  Form states reachable from \<open>s0\<close> by adding, removing and editing rows (an edit is a
  call of \<open>handleItemChange\<close> that stays in the model).
\<close>

inductive form_reachable :: "(ident \<times> produto) list \<Rightarrow> orc_form_state \<Rightarrow> orc_form_state \<Rightarrow> bool"
  for ps s0 where
  start: "form_reachable ps s0 s0"
| add: "form_reachable ps s0 s \<Longrightarrow> form_reachable ps s0 (handle_add_item s)"
| remove: "form_reachable ps s0 s \<Longrightarrow> form_reachable ps s0 (handle_remove_item i s)"
| change: "form_reachable ps s0 s \<Longrightarrow> handle_item_change ps i f v s = Some (s', ts) \<Longrightarrow> form_reachable ps s0 s'"

text \<open>The invariant of the item edits: a quantity of at least 1, within the product's stock.\<close>

definition item_ok :: "(ident \<times> produto) list \<Rightarrow> form_item \<Rightarrow> bool" where
  "item_ok ps it \<longleftrightarrow>
     1 \<le> fi_quantidade it \<and>
     (case find_produto ps (fi_produtoId it) of None \<Rightarrow> True | Some p \<Rightarrow> fi_quantidade it \<le> pr_estoque p)"

section \<open>Example data\<close>

text \<open>A chair with 5 units in stock, and two rows of it with 3 units each.\<close>

definition orc_demo_produto :: produto where
  "orc_demo_produto =
     \<lparr>pr_nome = ''Cadeira'', pr_categoria = ''Sala'', pr_preco = 25000, pr_estoque = 5,
      pr_fornecedor = ''Madeiras SA''\<rparr>"

definition orc_demo_produtos :: "(ident \<times> produto) list" where
  "orc_demo_produtos = [(1, orc_demo_produto)]"

definition orc_demo_two_rows :: orc_form_state where
  "orc_demo_two_rows =
     fst (the (handle_item_change orc_demo_produtos 1 FQuantidade (Some 3)
     (fst (the (handle_item_change orc_demo_produtos 0 FQuantidade (Some 3)
     (fst (the (handle_item_change orc_demo_produtos 1 FProdutoId (Some 1)
     (fst (the (handle_item_change orc_demo_produtos 0 FProdutoId (Some 1)
     (handle_add_item (handle_add_item (orc_form_init None))))))))))))))"

definition orc_demo_form_data :: form_data where
  "orc_demo_form_data = \<lparr>fd_clienteId = 1, fd_status = ''Pendente'', fd_observacoes = []\<rparr>"

section \<open>Properties of the form\<close>

lemma items_ok_iff:
  "list_all (item_ok ps) its \<longleftrightarrow> \<not> stock_invalid ps its \<and> list_all (\<lambda>it. 1 \<le> fi_quantidade it) its"
  by (auto simp: item_ok_def stock_invalid_def list_all_iff list_ex_iff not_less split: option.splits)

lemma list_all_update:
  "list_all P xs \<Longrightarrow> P x \<Longrightarrow> list_all P (xs[i := x])"
  by (auto simp: list_all_iff dest: set_update_subset_insert [THEN subsetD])

lemma list_all_nth: "list_all P xs \<Longrightarrow> i < length xs \<Longrightarrow> P (xs ! i)"
  by (simp add: list_all_length)

lemma items_ok_add:
  "find_produto ps 0 = None \<Longrightarrow> list_all (item_ok ps) (of_items s) \<Longrightarrow>
   list_all (item_ok ps) (of_items (handle_add_item s))"
  by (simp add: handle_add_item_def item_ok_def)

lemma items_ok_remove:
  "list_all (item_ok ps) (of_items s) \<Longrightarrow> list_all (item_ok ps) (of_items (handle_remove_item i s))"
proof -
  assume a: "list_all (item_ok ps) (of_items s)"
  have "set (map fst (filter (\<lambda>(_, j). j \<noteq> i) (zip (of_items s) [0..<length (of_items s)]))) \<subseteq> set (of_items s)"
    by (auto dest: set_zip_leftD)
  then show ?thesis
    using a by (auto simp: handle_remove_item_def list_all_iff)
qed

lemma items_ok_change:
  assumes a: "list_all (item_ok ps) (of_items s)" and h: "handle_item_change ps i f v s = Some (s', ts)"
  shows "list_all (item_ok ps) (of_items s')"
proof (cases f)
  case FProdutoId
  then show ?thesis
    using a h list_all_nth [OF a, of i]
    by (auto simp: Let_def item_ok_def not_less intro!: list_all_update
        split: option.splits if_splits)
next
  case FQuantidade
  then show ?thesis
    using a h list_all_nth [OF a, of i]
    by (auto simp: Let_def item_ok_def not_less intro!: list_all_update
        split: option.splits if_splits)
next
  case FPrecoUnit
  then show ?thesis
    using a h list_all_nth [OF a, of i]
    by (auto simp: Let_def item_ok_def intro!: list_all_update split: option.splits if_splits)
qed

lemma form_reachable_change_the:
  "form_reachable ps s0 s \<Longrightarrow> handle_item_change ps i f v s \<noteq> None \<Longrightarrow>
   form_reachable ps s0 (fst (the (handle_item_change ps i f v s)))"
  using form_reachable.change [of ps s0 s i f v "fst (the (handle_item_change ps i f v s))"
      "snd (the (handle_item_change ps i f v s))"]
  by auto

lemma orc_demo_two_rows_reachable: "form_reachable orc_demo_produtos (orc_form_init None) orc_demo_two_rows"
  unfolding orc_demo_two_rows_def
  by (intro form_reachable_change_the form_reachable.add form_reachable.start)
     (simp_all add: orc_demo_produtos_def orc_demo_produto_def handle_add_item_def orc_form_init_def
       find_produto_def Let_def)

lemma orc_demo_two_rows_items:
  "of_items orc_demo_two_rows =
     [\<lparr>fi_produtoId = 1, fi_quantidade = 3, fi_precoUnit = 25000\<rparr>,
      \<lparr>fi_produtoId = 1, fi_quantidade = 3, fi_precoUnit = 25000\<rparr>]"
  by (simp add: orc_demo_two_rows_def orc_demo_produtos_def orc_demo_produto_def handle_add_item_def
      orc_form_init_def find_produto_def Let_def)

lemma orc_demo_two_rows_valid:
  "fst (validate_form orc_demo_produtos (form_payload orc_demo_form_data orc_demo_two_rows) orc_demo_two_rows)"
  by (simp add: orc_demo_two_rows_items validate_form_def form_payload_def orc_demo_form_data_def
      stock_invalid_def find_produto_def orc_demo_produtos_def orc_demo_produto_def
      orcamento_schema_errors_def item_errors_def)

text \<open>
  C28: from an empty form, whatever rows the user adds, removes and edits, every row
  keeps a quantity of at least 1 and at most the stock of its product, so the stock check
  of \<open>validateForm\<close> never fires on them (given that no product has id 0, the id of a
  fresh row: ids start at 1).
\<close>

theorem form_edits_within_stock:
  assumes "find_produto ps 0 = None" "form_reachable ps (orc_form_init None) s"
  shows "\<not> stock_invalid ps (of_items s) \<and> list_all (\<lambda>it. 1 \<le> fi_quantidade it) (of_items s)"
proof -
  have "list_all (item_ok ps) (of_items s)"
    using assms(2)
  proof (induction rule: form_reachable.induct)
    case start
    then show ?case by (simp add: orc_form_init_def)
  next
    case (add s)
    then show ?case using items_ok_add [OF assms(1)] by blast
  next
    case (remove s i)
    then show ?case by (simp add: items_ok_remove)
  next
    case (change s i f v s' ts)
    then show ?case by (blast intro: items_ok_change)
  qed
  then show ?thesis
    by (simp add: items_ok_iff)
qed

theorem form_edits_within_stock_witness:
  "find_produto orc_demo_produtos 0 = None \<and>
   form_reachable orc_demo_produtos (orc_form_init None) orc_demo_two_rows \<and>
   \<not> stock_invalid orc_demo_produtos (of_items orc_demo_two_rows)"
proof -
  have z: "find_produto orc_demo_produtos 0 = None"
    by (simp add: find_produto_def orc_demo_produtos_def)
  show ?thesis
    using form_edits_within_stock [OF z orc_demo_two_rows_reachable] z orc_demo_two_rows_reachable by simp
qed

text \<open>
  The stock guard and the stock check look at one row at a time: two rows of the
  same product, 3 units each against a stock of 5, are reachable by edits and pass
  \<open>validateForm\<close>, though together they ask for 6.
\<close>

lemma form_stock_check_per_item:
  "form_reachable orc_demo_produtos (orc_form_init None) orc_demo_two_rows \<and>
   fst (validate_form orc_demo_produtos (form_payload orc_demo_form_data orc_demo_two_rows) orc_demo_two_rows) \<and>
   map fi_produtoId (of_items orc_demo_two_rows) = [1, 1] \<and>
   pr_estoque orc_demo_produto < sum_list (map fi_quantidade (of_items orc_demo_two_rows))"
  using orc_demo_two_rows_reachable orc_demo_two_rows_valid
  by (simp add: orc_demo_two_rows_items orc_demo_produto_def)

text \<open>The total line under the two example rows: 6 units at R$ 250.00.\<close>

lemma form_total_demo: "form_total_text orc_demo_two_rows = Some ''Total: R$ 1500.00''"
  by (simp add: form_total_text_def form_total_def orc_demo_two_rows_items to_fixed2_def)

end
