(* ===== verification/OrcamentosPage.thy ===== *)
theory OrcamentosPage
  imports Orcamentos OrcamentoForm TableRender
begin

text \<open>
  The quotes page \<open>src/src/app/orcamentos/page.tsx\<close> with its modal
  \<open>OrcamentoModal.tsx\<close>: the page state and its mount, the status cards, the search and
  the table, \<open>handleSubmit\<close>, which sends the quote form's payload to the quotes API of
  \<open>Orcamentos\<close>, and what the modal renders: the modal passes the form no
  \<open>clientes\<close> or \<open>produtos\<close>, so the form's render throws before any submit.
\<close>

section \<open>Page state\<close>

type_synonym orc_row = "ident \<times> orcamento \<times> cliente option \<times> (orcamento_item \<times> orcamento_material list) list"

record orcamentos_state =
  os_orcamentos :: "orc_row list"
  os_selected :: "orc_row option"
  os_modal_open :: bool
  os_loading :: bool
  os_filter :: string
  os_search :: string

definition orcamentos_init :: orcamentos_state where
  "orcamentos_init =
     \<lparr>os_orcamentos = [], os_selected = None, os_modal_open = False, os_loading = False,
      os_filter = ''all'', os_search = []\<rparr>"

text \<open>\<open>fetchOrcamentos\<close>: \<open>GET /api/orcamentos\<close>, then \<open>setOrcamentos(data)\<close>.\<close>

definition fetch_orcamentos :: "db \<Rightarrow> orcamentos_state \<Rightarrow> orcamentos_state" where
  "fetch_orcamentos d s =
     (case orcamentos_list d of Json xs \<Rightarrow> s\<lparr>os_orcamentos := xs\<rparr> | _ \<Rightarrow> s)"

text \<open>The mount: \<open>useEffect(() => { fetchOrcamentos() }, [])\<close>.\<close>

definition orcamentos_effect_deps :: "(orcamentos_state \<Rightarrow> unit list) option" where
  "orcamentos_effect_deps = Some (\<lambda>_. [])"

definition orcamentos_mount_effect :: "db \<Rightarrow> orcamentos_state \<Rightarrow> orcamentos_state \<times> bool" where
  "orcamentos_mount_effect d s = (fetch_orcamentos d s, case orcamentos_list d of Json _ \<Rightarrow> True | _ \<Rightarrow> False)"

definition orcamentos_mount :: "db \<Rightarrow> (orcamentos_state \<times> nat) option" where
  "orcamentos_mount d = react_mount orcamentos_effect_deps (orcamentos_mount_effect d) orcamentos_init"

section \<open>The cards and the filter\<close>

text \<open>
  \<open>statusCounts[st] || 0\<close>: the rows with status \<open>st\<close>. The cards ask for
  \<open>'APROVADO'\<close> and \<open>'EM_PRODUCAO'\<close>, the filter buttons set \<open>'PENDENTE'\<close>,
  \<open>'APROVADO'\<close> and \<open>'EM_PRODUCAO'\<close>.
\<close>

definition orc_status_count :: "string \<Rightarrow> orcamentos_state \<Rightarrow> nat" where
  "orc_status_count st s = length (filter (\<lambda>(_, q, _). o_status q = st) (os_orcamentos s))"

definition orc_card_total :: "orcamentos_state \<Rightarrow> nat" where
  "orc_card_total s = length (os_orcamentos s)"

definition orc_card_aprovados :: "orcamentos_state \<Rightarrow> nat" where
  "orc_card_aprovados s = orc_status_count ''APROVADO'' s"

definition orc_card_em_producao :: "orcamentos_state \<Rightarrow> nat" where
  "orc_card_em_producao s = orc_status_count ''EM_PRODUCAO'' s"

definition orcamentos_set_filter :: "string \<Rightarrow> orcamentos_state \<Rightarrow> orcamentos_state" where
  "orcamentos_set_filter f s = s\<lparr>os_filter := f\<rparr>"

text \<open>The rows the status filter lets through (\<open>matchesFilter\<close>).\<close>

definition orc_matches_filter :: "orcamentos_state \<Rightarrow> orc_row \<Rightarrow> bool" where
  "orc_matches_filter s r \<longleftrightarrow> os_filter s = ''all'' \<or> o_status (fst (snd r)) = os_filter s"

text \<open>
  \<open>matchesSearch\<close>: the client's name includes the term, both lower-cased
  (\<open>cliente?.nome?.toLowerCase()\<close>: a quote without a client does not match this way),
  or the quote's number includes the term as typed (\<open>numero?.toString()\<close>).
\<close>

definition orc_matches_search :: "orcamentos_state \<Rightarrow> orc_row \<Rightarrow> bool" where
  "orc_matches_search s r \<longleftrightarrow>
     (case fst (snd (snd r)) of
        Some c \<Rightarrow> js_includes (js_lower (cl_nome c)) (js_lower (os_search s))
      | None \<Rightarrow> False) \<or>
     js_includes (o_numero (fst (snd r))) (os_search s)"

definition filtered_orcamentos :: "orcamentos_state \<Rightarrow> orc_row list" where
  "filtered_orcamentos s = filter (\<lambda>r. orc_matches_filter s r \<and> orc_matches_search s r) (os_orcamentos s)"

definition orcamentos_set_search :: "string \<Rightarrow> orcamentos_state \<Rightarrow> orcamentos_state" where
  "orcamentos_set_search t s = s\<lparr>os_search := t\<rparr>"

text \<open>
  The row's \<open>valorTotal\<close>. No handler writes such a field (\<open>orc_row\<close> builds the quote
  from \<open>numero\<close>, \<open>data\<close>, \<open>status\<close>, \<open>observacoes\<close> and \<open>clienteId\<close>), and the
  schema that might give it a default is not in the sources: the reading is a parameter
  \<open>vt\<close>, \<open>None\<close> for \<open>undefined\<close> or \<open>null\<close>.
\<close>

text \<open>
  \<open>totalValue\<close>: the sum of \<open>valorTotal || 0\<close> over the quotes with status
  \<open>'APROVADO'\<close> or \<open>'EM_PRODUCAO'\<close>, and its card.
\<close>

definition orc_total_value :: "(orc_row \<Rightarrow> money option) \<Rightarrow> orcamentos_state \<Rightarrow> money" where
  "orc_total_value vt s =
     foldl (\<lambda>acc r. acc + (case vt r of Some v \<Rightarrow> v | None \<Rightarrow> 0)) 0
       (filter (\<lambda>r. o_status (fst (snd r)) = ''APROVADO'' \<or> o_status (fst (snd r)) = ''EM_PRODUCAO'')
         (os_orcamentos s))"

definition orc_valor_card :: "(orc_row \<Rightarrow> money option) \<Rightarrow> orcamentos_state \<Rightarrow> string" where
  "orc_valor_card vt s = ''R$ '' @ to_fixed2 (orc_total_value vt s)"

text \<open>
  The table. \<open>row[key]\<close> of an API row, with the reading \<open>vt\<close> of \<open>valorTotal\<close>;
  the client is an object, which only the client column's render reads (from the row
  here). The columns: the number; \<open>value?.nome || '-'\<close>; the date as
  \<open>toLocaleDateString('pt-BR')\<close>, which depends on the browser's time zone and is the
  parameter \<open>fmt_date\<close>; \<open>`R$ ${value?.toFixed(2) || '0,00'}`\<close>; and the status, whose
  colour is \<open>colors[value] || 'text-gray-600'\<close>.
\<close>

definition orc_field :: "(orc_row \<Rightarrow> money option) \<Rightarrow> orc_row \<Rightarrow> string \<Rightarrow> jsval" where
  "orc_field vt r key =
     (let q = fst (snd r) in
      if key = ''id'' then JNum (int (fst r)) else if key = ''numero'' then JStr (o_numero q)
      else if key = ''data'' then JNum (o_data q) else if key = ''status'' then JStr (o_status q)
      else if key = ''observacoes'' then js_opt (o_observacoes q)
      else if key = ''clienteId'' then JNum (int (o_clienteId q))
      else if key = ''valorTotal'' then (case vt r of Some v \<Rightarrow> JCents v | None \<Rightarrow> JUndef)
      else JUndef)"

definition orc_cliente_cell :: "orc_row \<Rightarrow> string" where
  "orc_cliente_cell r =
     (case fst (snd (snd r)) of Some c \<Rightarrow> if cl_nome c = [] then ''-'' else cl_nome c | None \<Rightarrow> ''-'')"

definition orc_valor_cell :: "(orc_row \<Rightarrow> money option) \<Rightarrow> orc_row \<Rightarrow> string" where
  "orc_valor_cell vt r = ''R$ '' @ (case vt r of Some v \<Rightarrow> to_fixed2 v | None \<Rightarrow> ''0,00'')"

definition orc_status_color :: "string \<Rightarrow> string" where
  "orc_status_color st =
     (if st = ''PENDENTE'' then ''text-yellow-600'' else if st = ''APROVADO'' then ''text-green-600''
      else if st = ''REPROVADO'' then ''text-red-600'' else if st = ''EM_PRODUCAO'' then ''text-blue-600''
      else ''text-gray-600'')"

definition orc_columns :: "(int \<Rightarrow> string) \<Rightarrow> (orc_row \<Rightarrow> money option) \<Rightarrow> orc_row column list" where
  "orc_columns fmt_date vt =
     [\<lparr>col_key = ''numero'', col_header = ''N'' @ [CHR 0xC3, CHR 0xBA] @ ''mero'', col_render = None\<rparr>,
      \<lparr>col_key = ''cliente'', col_header = ''Cliente'', col_render = Some (\<lambda>_ r. orc_cliente_cell r)\<rparr>,
      \<lparr>col_key = ''data'', col_header = ''Data'', col_render = Some (\<lambda>_ r. fmt_date (o_data (fst (snd r))))\<rparr>,
      \<lparr>col_key = ''valorTotal'', col_header = ''Valor Total'', col_render = Some (\<lambda>_ r. orc_valor_cell vt r)\<rparr>,
      \<lparr>col_key = ''status'', col_header = ''Status'', col_render = Some (\<lambda>v _. react_text v)\<rparr>]"

text \<open>\<open>Exportar\<close>: only an error toast.\<close>

definition orcamentos_export :: "toast list" where
  "orcamentos_export = [ToastError ''Funcionalidade em desenvolvimento'']"

section \<open>The modal and the submit\<close>

text \<open>
  \<open>Novo Or\c{c}amento\<close> and a click on a row open the modal. The form's initial items are
  \<open>initialData?.items\<close>; a row of the API names its array \<open>itens\<close>, so the form opens
  with no items either way.
\<close>

definition orcamentos_open_new :: "orcamentos_state \<Rightarrow> orcamentos_state \<times> orc_form_state" where
  "orcamentos_open_new s = (s\<lparr>os_selected := None, os_modal_open := True\<rparr>, orc_form_init None)"

definition orcamentos_open_edit :: "orc_row \<Rightarrow> orcamentos_state \<Rightarrow> orcamentos_state \<times> orc_form_state" where
  "orcamentos_open_edit r s = (s\<lparr>os_selected := Some r, os_modal_open := True\<rparr>, orc_form_init None)"

definition orcamentos_close_modal :: "orcamentos_state \<Rightarrow> orcamentos_state" where
  "orcamentos_close_modal s = s\<lparr>os_modal_open := False, os_selected := None\<rparr>"

text \<open>
  What the route reads of \<open>JSON.stringify(data)\<close>: the form's payload has
  \<open>clienteId\<close>, \<open>status\<close>, \<open>observacoes\<close> and \<open>items\<close>, so \<open>data.data\<close> and
  \<open>data.itens\<close> are undefined (\<open>None\<close>) and \<open>data.numero\<close> is never read: building
  the nested create fails on \<open>data.itens.map\<close> first.
\<close>

definition orcamento_body :: "orc_payload \<Rightarrow> orcamento_in" where
  "orcamento_body p =
     \<lparr>oin_numero = [], oin_data = None, oin_status = op_status p, oin_observacoes = Some (op_observacoes p),
      oin_clienteId = nat (op_clienteId p), oin_itens = None\<rparr>"

text \<open>
  \<open>handleSubmit(data)\<close>: \<open>PUT\<close> on the selected quote or \<open>POST\<close>, the success toast
  whatever the response, the refresh, the modal closed.
\<close>

definition orcamentos_submit ::
  "orc_payload \<Rightarrow> db \<times> orcamentos_state \<Rightarrow> (db \<times> orcamentos_state) \<times> toast list" where
  "orcamentos_submit p w =
     (let (d, s) = w;
          (d', msg) =
            (case os_selected s of
               Some (k, _) \<Rightarrow> (snd (orcamento_put k (orcamento_body p) d),
                               ''Or'' @ [CHR 0xC3, CHR 0xA7] @ ''amento atualizado com sucesso'')
             | None \<Rightarrow> (snd (orcamento_post (orcamento_body p) d),
                        ''Or'' @ [CHR 0xC3, CHR 0xA7] @ ''amento criado com sucesso''))
      in ((d', fetch_orcamentos d' (s\<lparr>os_modal_open := False, os_loading := False\<rparr>)), [ToastSuccess msg]))"

text \<open>
  \<open>OrcamentoModal\<close>: the modal (the shared \<open>Modal\<close>, not in the sources, shows its
  title and children while open) with the title \<open>Editar Or\c{c}amento\<close> when there is
  initial data and \<open>Novo Or\c{c}amento\<close> otherwise, around \<open>OrcamentoForm\<close> with
  \<open>initialData\<close>, \<open>onSubmit\<close>, \<open>onCancel\<close> and \<open>isLoading\<close>. It passes neither
  \<open>clientes\<close> nor \<open>produtos\<close>.
\<close>

definition orcamento_modal_lists :: "(ident \<times> string) list option \<times> (ident \<times> produto) list option" where
  "orcamento_modal_lists = (None, None)"

definition orc_initial_of :: "orc_row \<Rightarrow> orc_initial" where
  "orc_initial_of r =
     \<lparr>ini_clienteId = Some (int (o_clienteId (fst (snd r)))), ini_status = Some (o_status (fst (snd r))),
      ini_observacoes = o_observacoes (fst (snd r))\<rparr>"

definition orcamentos_modal_render ::
  "orcamentos_state \<Rightarrow> orc_form_state \<Rightarrow> (string \<times> orc_form_view rendered) option" where
  "orcamentos_modal_render s fs =
     (if \<not> os_modal_open s then None
      else Some (if os_selected s \<noteq> None then ''Editar Or'' @ [CHR 0xC3, CHR 0xA7] @ ''amento''
                 else ''Novo Or'' @ [CHR 0xC3, CHR 0xA7] @ ''amento'',
                 orc_form_render (fst orcamento_modal_lists) (snd orcamento_modal_lists)
                   (map_option orc_initial_of (os_selected s)) (os_loading s) fs))"

section \<open>Example data\<close>

text \<open>A quote approved through the form, as the list returns it.\<close>

definition orc_demo_aprovado :: orcamentos_state where
  "orc_demo_aprovado =
     orcamentos_init\<lparr>os_orcamentos :=
       [(0, \<lparr>o_numero = ''ORC-001'', o_data = 0, o_status = ''Aprovado'', o_observacoes = None,
             o_clienteId = 0\<rparr>, None, [])]\<rparr>"

section \<open>Properties of the page\<close>

lemma validate_form_ok:
  "fst (validate_form ps p s) \<Longrightarrow> validate_form ps p s = (True, s, [])"
  by (simp add: validate_form_def Let_def split: if_splits)

lemma build_itens_body [simp]: "build_itens (orcamento_body p) = None"
  by (simp add: build_itens_def orcamento_body_def)

lemma orcamento_post_body: "orcamento_post (orcamento_body p) d = (ErrorJson 500 ''Internal Server Error'', d)"
  by (simp add: orcamento_post_def)

lemma orcamento_put_body:
  "itens_view k (snd (orcamento_put k (orcamento_body p) d)) = [] \<and>
   orcamentos (snd (orcamento_put k (orcamento_body p) d)) = orcamentos d"
  unfolding orcamento_put_def Let_def delete_orc_itens_cleared
  by (simp add: itens_view_def delete_orc_materiais_def itens_of_cleared)


lemma foldl_add_zeros:
  "\<forall>r \<in> set xs. f r = 0 \<Longrightarrow> foldl (\<lambda>acc r. acc + f r) a xs = (a :: int)"
  by (induction xs arbitrary: a) simp_all

text \<open>
  The approved-value card reads a field nobody writes: whatever quotes are approved, it
  shows \<open>R$ 0.00\<close> when the field is absent, null or 0; the total column then shows
  \<open>R$ 0,00\<close> (absent or null, with a comma) or \<open>R$ 0.00\<close> (0, with a point).
\<close>

lemma orc_total_unwritten:
  assumes "\<forall>r \<in> set (os_orcamentos s). vt r = None \<or> vt r = Some 0"
  shows "orc_total_value vt s = 0 \<and> orc_valor_card vt s = ''R$ 0.00''"
proof -
  have "\<forall>r \<in> set (filter (\<lambda>r. o_status (fst (snd r)) = ''APROVADO'' \<or> o_status (fst (snd r)) = ''EM_PRODUCAO'')
          (os_orcamentos s)). (case vt r of Some v \<Rightarrow> v | None \<Rightarrow> 0) = 0"
    using assms by auto
  then have "orc_total_value vt s = 0"
    unfolding orc_total_value_def by (rule foldl_add_zeros)
  then show ?thesis
    by (simp add: orc_valor_card_def to_fixed2_def)
qed

lemma orc_table_lines:
  "table_body (orc_field vt) (orc_columns fmt_date vt) xs =
     map (\<lambda>r. [o_numero (fst (snd r)), orc_cliente_cell r, fmt_date (o_data (fst (snd r))),
               orc_valor_cell vt r, o_status (fst (snd r))]) xs"
  by (auto simp: table_body_def orc_columns_def table_cell_def orc_field_def)

lemma orc_valor_cell_unwritten:
  "orc_valor_cell (\<lambda>_. None) r = ''R$ 0,00'' \<and> orc_valor_cell (\<lambda>_. Some 0) r = ''R$ 0.00''"
  by (simp add: orc_valor_cell_def to_fixed2_def)

text \<open>
  After a fetch each row carries the client of its \<open>clienteId\<close>, and under the
  \<open>all\<close> filter a search for part of that client's name, in any case, keeps the row.
\<close>

lemma fetch_orcamentos_cliente:
  "(k, q, co, its) \<in> set (os_orcamentos (fetch_orcamentos d s)) \<Longrightarrow> co = lookup (clientes d) (o_clienteId q)"
  by (auto simp: fetch_orcamentos_def orcamentos_list_def)

lemma orc_search_finds_client:
  assumes "os_filter s = ''all''" "(k, q, Some c, its) \<in> set (os_orcamentos s)"
    and "sublist (js_lower t) (js_lower (cl_nome c))"
  shows "(k, q, Some c, its) \<in> set (filtered_orcamentos (orcamentos_set_search t s))"
  using assms
  by (simp add: filtered_orcamentos_def orc_matches_filter_def orc_matches_search_def
      orcamentos_set_search_def js_includes_sublist)

text \<open>The number, unlike the client's name, is searched case-sensitively.\<close>

lemma orc_search_numero_case:
  "\<not> orc_matches_search (orcamentos_set_search ''orc'' orc_demo_aprovado) (hd (os_orcamentos orc_demo_aprovado)) \<and>
   orc_matches_search (orcamentos_set_search ''ORC'' orc_demo_aprovado) (hd (os_orcamentos orc_demo_aprovado))"
  by code_simp

text \<open>
  C25: the quotes modal cannot show its form: whenever it is open and nothing is
  loading, the form's render calls \<open>clientes.map\<close> on the \<open>undefined\<close> the modal
  passes and throws, for a new quote and for an edit alike.
\<close>

theorem quote_modal_throws:
  assumes "os_modal_open s" "\<not> os_loading s"
  shows "\<exists>t. orcamentos_modal_render s fs = Some (t, RenderThrows msg_map_undefined)"
  using assms by (simp add: orcamentos_modal_render_def orcamento_modal_lists_def orc_form_render_def)

theorem quote_modal_throws_witness:
  "\<exists>t. orcamentos_modal_render (fst (orcamentos_open_new orcamentos_init)) (snd (orcamentos_open_new orcamentos_init)) =
     Some (t, RenderThrows msg_map_undefined)"
  by (rule quote_modal_throws) (simp_all add: orcamentos_open_new_def orcamentos_init_def)

text \<open>
  C29: the status cards and filter buttons use \<open>'APROVADO'\<close>, \<open>'EM_PRODUCAO'\<close> and
  \<open>'PENDENTE'\<close>, while the form's schema only produces \<open>'Pendente'\<close>,
  \<open>'Aprovado'\<close> and \<open>'Rejeitado'\<close>: over quotes with the form's statuses both cards
  show 0 and the \<open>Aprovados\<close> filter shows nothing, approved quotes included.
\<close>

theorem orc_cards_miss_form_statuses:
  assumes "list_all (\<lambda>(_, q, _). o_status q \<in> {''Pendente'', ''Aprovado'', ''Rejeitado''}) (os_orcamentos s)"
  shows "orc_card_aprovados s = 0 \<and> orc_card_em_producao s = 0 \<and>
         \<not> list_ex (orc_matches_filter (orcamentos_set_filter ''APROVADO'' s)) (os_orcamentos s)"
  using assms
  by (auto simp: orc_card_aprovados_def orc_card_em_producao_def orc_status_count_def orc_matches_filter_def
      orcamentos_set_filter_def list_all_iff list_ex_iff filter_empty_conv)

theorem orc_cards_miss_form_statuses_witness:
  "list_all (\<lambda>(_, q, _). o_status q \<in> {''Pendente'', ''Aprovado'', ''Rejeitado''}) (os_orcamentos orc_demo_aprovado) \<and>
   list_ex (\<lambda>(_, q, _). o_status q = ''Aprovado'') (os_orcamentos orc_demo_aprovado) \<and>
   orc_card_aprovados orc_demo_aprovado = 0"
proof -
  have h: "list_all (\<lambda>(_, q, _). o_status q \<in> {''Pendente'', ''Aprovado'', ''Rejeitado''}) (os_orcamentos orc_demo_aprovado)"
    by (simp add: orc_demo_aprovado_def)
  show ?thesis
    using orc_cards_miss_form_statuses [OF h] h by (simp add: orc_demo_aprovado_def)
qed

end
