(* ===== verification/ClientesPage.thy ===== *)
theory ClientesPage
  imports Crud TableRender
begin

text \<open>
  The clients page \<open>src/src/app/clientes/page.tsx\<close>: its state and mount effect, the
  handlers that call the clients API of \<open>Crud\<close>, the modal buttons, the activity cards,
  the table and its search, and the client form of \<open>ClienteForm.tsx\<close> with its modal. The page's rows are the API's client rows; the card fields the
  page's \<open>Cliente\<close> interface declares (\<open>ultimaCompra\<close>) are not part of them.
\<close>

section \<open>Page state\<close>

record clientes_state =
  cs_clientes :: "(ident \<times> cliente) list"
  cs_selected :: "(ident \<times> cliente) option"
  cs_modal_open :: bool
  cs_loading :: bool
  cs_search :: string

text \<open>\<open>fetchClientes\<close>: \<open>GET /api/clientes\<close>, then \<open>setClientes(data)\<close>.\<close>

definition fetch_clientes :: "db \<Rightarrow> clientes_state \<Rightarrow> clientes_state" where
  "fetch_clientes d s = (case clientes_list d of Json xs \<Rightarrow> s\<lparr>cs_clientes := xs\<rparr> | _ \<Rightarrow> s)"

text \<open>
  The mount: \<open>useEffect(() => { fetchClientes() }, [])\<close>. The page's first render shows
  \<open>clientesIniciais\<close>, rows of the page's own \<open>Cliente\<close> interface that the fetch
  replaces; the mount is stated from any first state \<open>s0\<close>.
\<close>

definition clientes_effect_deps :: "(clientes_state \<Rightarrow> unit list) option" where
  "clientes_effect_deps = Some (\<lambda>_. [])"

definition clientes_mount_effect :: "db \<Rightarrow> clientes_state \<Rightarrow> clientes_state \<times> bool" where
  "clientes_mount_effect d s = (fetch_clientes d s, case clientes_list d of Json _ \<Rightarrow> True | _ \<Rightarrow> False)"

definition clientes_mount :: "db \<Rightarrow> clientes_state \<Rightarrow> (clientes_state \<times> nat) option" where
  "clientes_mount d s0 = react_mount clientes_effect_deps (clientes_mount_effect d) s0"

text \<open>
  The first render, before \<open>fetchClientes\<close> answers: \<open>useState(clientesIniciais)\<close>,
  two placeholder rows of the page's own \<open>Cliente\<close> interface, not rows of the
  database.
\<close>

record cliente_inicial =
  ci_id :: int
  ci_nome :: string
  ci_email :: string
  ci_telefone :: string
  ci_endereco :: string
  ci_ultimaCompra :: string

definition clientes_iniciais :: "cliente_inicial list" where
  "clientes_iniciais =
     [\<lparr>ci_id = 1, ci_nome = ''Jo'' @ [CHR 0xC3, CHR 0xA3] @ ''o Silva'', ci_email = ''joao@email.com'',
       ci_telefone = ''(11) 99999-9999'', ci_endereco = ''Rua A, 123'', ci_ultimaCompra = ''2024-05-10''\<rparr>,
      \<lparr>ci_id = 2, ci_nome = ''Maria Santos'', ci_email = ''maria@email.com'',
       ci_telefone = ''(11) 88888-8888'', ci_endereco = ''Rua B, 456'', ci_ultimaCompra = ''2024-05-08''\<rparr>]"

section \<open>Handlers\<close>

text \<open>
  \<open>handleSubmit(data)\<close>: \<open>PUT /api/clientes/${selectedCliente.id}\<close> on the selected
  client (the id printed into the path, which the route reads back as the string
  \<open>params.id\<close>) or \<open>POST\<close>, the success toast whatever the response, the refresh and the
  modal closed; the selection is kept.
\<close>

definition clientes_submit :: "cliente \<Rightarrow> db \<Rightarrow> clientes_state \<Rightarrow> (db \<times> clientes_state) \<times> toast list" where
  "clientes_submit c d s =
     (let (d', msg) =
        (case cs_selected s of
           Some (k, _) \<Rightarrow> (snd (cliente_put (string_of_nat k) c d), ''Cliente atualizado com sucesso'')
         | None \<Rightarrow> (snd (cliente_post c d), ''Cliente criado com sucesso''))
      in ((d', fetch_clientes d' (s\<lparr>cs_modal_open := False, cs_loading := False\<rparr>)), [ToastSuccess msg]))"

text \<open>
  \<open>handleDelete(id)\<close>, after \<open>window.confirm\<close> answered \<open>ok\<close>:
  \<open>DELETE /api/clientes/${id}\<close>, the success toast whatever the response, the refresh.
\<close>

definition clientes_delete :: "bool \<Rightarrow> ident \<Rightarrow> db \<Rightarrow> clientes_state \<Rightarrow> (db \<times> clientes_state) \<times> toast list" where
  "clientes_delete ok k d s =
     (if \<not> ok then ((d, s), [])
      else (let d' = snd (cliente_delete (string_of_nat k) d)
            in ((d', fetch_clientes d' s), [ToastSuccess (''Cliente exclu'' @ [CHR 0xC3, CHR 0xAD] @ ''do com sucesso'')])))"

text \<open>\<open>Novo Cliente\<close> only opens the modal; a row click selects the client first.\<close>

definition clientes_open_new :: "clientes_state \<Rightarrow> clientes_state" where
  "clientes_open_new s = s\<lparr>cs_modal_open := True\<rparr>"

definition clientes_open_edit :: "ident \<times> cliente \<Rightarrow> clientes_state \<Rightarrow> clientes_state" where
  "clientes_open_edit r s = s\<lparr>cs_selected := Some r, cs_modal_open := True\<rparr>"

definition clientes_close_modal :: "clientes_state \<Rightarrow> clientes_state" where
  "clientes_close_modal s = s\<lparr>cs_modal_open := False, cs_selected := None\<rparr>"

definition clientes_set_search :: "string \<Rightarrow> clientes_state \<Rightarrow> clientes_state" where
  "clientes_set_search t s = s\<lparr>cs_search := t\<rparr>"

section \<open>The cards\<close>

text \<open>
  \<open>cliente.ultimaCompra\<close> of a row: the API's rows have no such field, so it is
  \<open>undefined\<close> (\<open>None\<close>) for each of them.
\<close>

definition ultima_compra :: "ident \<times> cliente \<Rightarrow> int option" where
  "ultima_compra r = None"

text \<open>
  \<open>Clientes Ativos\<close>: rows whose last purchase is not before one month ago
  (\<open>new Date(undefined)\<close> is invalid and compares false); \<open>Clientes Inativos\<close>: rows
  with no last purchase.
\<close>

definition clientes_ativos :: "int \<Rightarrow> clientes_state \<Rightarrow> nat" where
  "clientes_ativos um_mes_atras s =
     length (filter (\<lambda>r. case ultima_compra r of None \<Rightarrow> False | Some t \<Rightarrow> um_mes_atras \<le> t) (cs_clientes s))"

definition clientes_inativos :: "clientes_state \<Rightarrow> nat" where
  "clientes_inativos s = length (filter (\<lambda>r. ultima_compra r = None) (cs_clientes s))"

definition clientes_cards :: "int \<Rightarrow> clientes_state \<Rightarrow> nat \<times> nat \<times> nat" where
  "clientes_cards um_mes_atras s = (length (cs_clientes s), clientes_ativos um_mes_atras s, clientes_inativos s)"

section \<open>The table and the search\<close>

text \<open>
  \<open>row[key]\<close> of an API row: the id, the client's fields, \<open>null\<close> for an absent
  optional field, and \<open>undefined\<close> for any other key (\<open>ultimaCompra\<close> among them).
\<close>

definition cliente_field :: "ident \<times> cliente \<Rightarrow> string \<Rightarrow> jsval" where
  "cliente_field r key =
     (let c = snd r in
      if key = ''id'' then JNum (int (fst r)) else if key = ''nome'' then JStr (cl_nome c)
      else if key = ''email'' then js_opt (cl_email c) else if key = ''telefone'' then JStr (cl_telefone c)
      else if key = ''cpf'' then js_opt (cl_cpf c) else if key = ''cnpj'' then js_opt (cl_cnpj c)
      else if key = ''endereco'' then js_opt (cl_endereco c) else if key = ''cidade'' then js_opt (cl_cidade c)
      else if key = ''estado'' then js_opt (cl_estado c) else if key = ''cep'' then js_opt (cl_cep c)
      else JUndef)"

text \<open>\<open>columns\<close>: five columns, none with a \<open>render\<close>.\<close>

definition clientes_columns :: "(ident \<times> cliente) column list" where
  "clientes_columns =
     [\<lparr>col_key = ''nome'', col_header = ''Nome'', col_render = None\<rparr>,
      \<lparr>col_key = ''email'', col_header = ''Email'', col_render = None\<rparr>,
      \<lparr>col_key = ''telefone'', col_header = ''Telefone'', col_render = None\<rparr>,
      \<lparr>col_key = ''endereco'', col_header = ''Endere'' @ [CHR 0xC3, CHR 0xA7] @ ''o'', col_render = None\<rparr>,
      \<lparr>col_key = ''ultimaCompra'', col_header = [CHR 0xC3, CHR 0x9A] @ ''ltima Compra'', col_render = None\<rparr>]"

text \<open>
  \<open>filteredClientes\<close>: \<open>Object.values(cliente).join(' ')\<close>, lower-cased, includes the
  lower-cased term. The order of \<open>Object.values\<close> is the order of the row's keys, which
  the Prisma schema fixes and the sources do not contain: it is the parameter
  \<open>keys\<close>, the row's keys in that order.
\<close>

definition clientes_filtered :: "string list \<Rightarrow> clientes_state \<Rightarrow> (ident \<times> cliente) list" where
  "clientes_filtered keys s =
     filter (\<lambda>r. js_includes (js_lower (js_join '' '' (map (\<lambda>k. react_text (cliente_field r k)) keys)))
                             (js_lower (cs_search s)))
       (cs_clientes s)"

section \<open>The client form\<close>

text \<open>
  The values \<open>react-hook-form\<close> hands to \<open>clienteSchema\<close> in
  \<open>clientes/components/ClienteForm.tsx\<close> for a new client: every field is a text
  input, so each is a string, empty when left blank.
\<close>

record cliente_form =
  cf_nome :: string
  cf_email :: string
  cf_telefone :: string
  cf_cpf :: string
  cf_cnpj :: string
  cf_endereco :: string
  cf_cidade :: string
  cf_estado :: string
  cf_cep :: string

text \<open>
  \<open>clienteSchema\<close> and the body the page then sends. zod's \<open>.email()\<close> is the
  library's regular expression, a parameter here (\<open>is_email\<close>); \<open>.or(z.literal(''))\<close>
  also lets the empty string through; the refinement asks for a non-empty CPF or CNPJ
  (\<open>data.cpf || data.cnpj\<close>: the empty string is falsy). The body carries every field
  as a string, so the stored optional fields are \<open>Some\<close>, possibly of the empty string.
\<close>

definition cliente_schema :: "(string \<Rightarrow> bool) \<Rightarrow> cliente_form \<Rightarrow> cliente option" where
  "cliente_schema is_email f =
     (if cf_nome f \<noteq> [] \<and> (is_email (cf_email f) \<or> cf_email f = []) \<and> cf_telefone f \<noteq> [] \<and>
         (cf_cpf f \<noteq> [] \<or> cf_cnpj f \<noteq> [])
      then Some \<lparr>cl_nome = cf_nome f, cl_email = Some (cf_email f), cl_telefone = cf_telefone f,
                 cl_cpf = Some (cf_cpf f), cl_cnpj = Some (cf_cnpj f), cl_endereco = Some (cf_endereco f),
                 cl_cidade = Some (cf_cidade f), cl_estado = Some (cf_estado f), cl_cep = Some (cf_cep f)\<rparr>
      else None)"

text \<open>
  The edit path. \<open>ClienteModal\<close> opens the form with the selected API row as
  \<open>defaultValues\<close>; \<open>react-hook-form\<close> submits the default value of every field the
  user does not touch, so an optional field the database holds as \<open>null\<close> reaches
  \<open>clienteSchema\<close> as \<open>null\<close>. The issues the schema then reports, field by field
  in its order: \<open>null\<close> fails both branches of \<open>.optional().or(z.literal(''))\<close>,
  and \<open>zodResolver\<close> shows the first branch's message; such an issue aborts the
  object, so the CPF/CNPJ refinement only runs when no field is \<open>null\<close>.
\<close>

definition msg_null :: string where
  "msg_null = ''Expected string, received null''"

definition opt_issue :: "string \<Rightarrow> string option \<Rightarrow> (string \<times> string) list" where
  "opt_issue path v = (case v of None \<Rightarrow> [(path, msg_null)] | Some _ \<Rightarrow> [])"

definition cliente_issues :: "(string \<Rightarrow> bool) \<Rightarrow> cliente \<Rightarrow> (string \<times> string) list" where
  "cliente_issues is_email c =
     (let base =
        (if cl_nome c = [] then [(''nome'', ''Nome '' @ [CHR 0xC3, CHR 0xA9] @ '' obrigat'' @ [CHR 0xC3, CHR 0xB3] @ ''rio'')] else []) @
        (case cl_email c of
           None \<Rightarrow> [(''email'', msg_null)]
         | Some e \<Rightarrow> if e = [] \<or> is_email e then [] else [(''email'', ''Email inv'' @ [CHR 0xC3, CHR 0xA1] @ ''lido'')]) @
        (if cl_telefone c = [] then [(''telefone'', ''Telefone '' @ [CHR 0xC3, CHR 0xA9] @ '' obrigat'' @ [CHR 0xC3, CHR 0xB3] @ ''rio'')] else []) @
        opt_issue ''cpf'' (cl_cpf c) @ opt_issue ''cnpj'' (cl_cnpj c) @ opt_issue ''endereco'' (cl_endereco c) @
        opt_issue ''cidade'' (cl_cidade c) @ opt_issue ''estado'' (cl_estado c) @ opt_issue ''cep'' (cl_cep c);
          aborted = (None \<in> set [cl_email c, cl_cpf c, cl_cnpj c, cl_endereco c, cl_cidade c, cl_estado c, cl_cep c])
      in if aborted then base
         else base @ (if cl_cpf c \<noteq> Some [] \<or> cl_cnpj c \<noteq> Some [] then [] else [(''cpf'', ''Preencha CPF ou CNPJ'')]))"

text \<open>The values the form submits for a new client: every input's text.\<close>

definition cliente_of_form :: "cliente_form \<Rightarrow> cliente" where
  "cliente_of_form f =
     \<lparr>cl_nome = cf_nome f, cl_email = Some (cf_email f), cl_telefone = cf_telefone f,
      cl_cpf = Some (cf_cpf f), cl_cnpj = Some (cf_cnpj f), cl_endereco = Some (cf_endereco f),
      cl_cidade = Some (cf_cidade f), cl_estado = Some (cf_estado f), cl_cep = Some (cf_cep f)\<rparr>"

text \<open>
  \<open>handleSubmit(onSubmit)\<close> with the page's \<open>handleSubmit\<close>: with issues the form shows
  them and nothing is sent; otherwise the values go to the page (zod drops the row's
  \<open>id\<close>).
\<close>

definition clientes_form_submit ::
  "(string \<Rightarrow> bool) \<Rightarrow> cliente \<Rightarrow> db \<Rightarrow> clientes_state \<Rightarrow>
   ((db \<times> clientes_state) \<times> (string \<times> string) list) \<times> toast list" where
  "clientes_form_submit is_email v d s =
     (let es = cliente_issues is_email v in
      if es = [] then (let (w, ts) = clientes_submit v d s in ((w, []), ts)) else (((d, s), es), []))"

text \<open>\<open>ClienteModal\<close>'s title and the values the form opens with.\<close>

definition cliente_modal_title :: "clientes_state \<Rightarrow> string" where
  "cliente_modal_title s = (if cs_selected s \<noteq> None then ''Editar Cliente'' else ''Novo Cliente'')"

definition cliente_modal_defaults :: "clientes_state \<Rightarrow> cliente option" where
  "cliente_modal_defaults s = map_option snd (cs_selected s)"

section \<open>Example data\<close>

definition clientes_demo_state :: clientes_state where
  "clientes_demo_state =
     \<lparr>cs_clientes = [], cs_selected = None, cs_modal_open = False, cs_loading = False, cs_search = []\<rparr>"

definition clientes_demo_novo :: cliente where
  "clientes_demo_novo =
     \<lparr>cl_nome = ''Carla'', cl_email = None, cl_telefone = ''11977776666'', cl_cpf = Some ''98765432100'',
      cl_cnpj = None, cl_endereco = None, cl_cidade = None, cl_estado = None, cl_cep = None\<rparr>"

section \<open>Properties of the page\<close>

text \<open>
  What the form guarantees of a client it lets through: a name, a phone and a CPF or a
  CNPJ. The API checks none of these (\<open>cliente_post\<close> stores any body).
\<close>

lemma cliente_schema_requires:
  "cliente_schema is_email f = Some c \<Longrightarrow>
   cl_nome c \<noteq> [] \<and> cl_telefone c \<noteq> [] \<and> (cl_cpf c \<noteq> Some [] \<or> cl_cnpj c \<noteq> Some [])"
  by (auto simp: cliente_schema_def split: if_splits)

text \<open>
  C27: the search finds a client by any part of its name typed in any case: whatever the
  schema's key order, as long as the rows have a \<open>nome\<close>, a term whose lower-cased form
  occurs in the lower-cased name keeps that client in the table.
\<close>

theorem clientes_search_finds_name:
  assumes "''nome'' \<in> set keys" "r \<in> set (cs_clientes s)" "sublist (js_lower t) (js_lower (cl_nome (snd r)))"
  shows "r \<in> set (clientes_filtered keys (clientes_set_search t s))"
proof -
  have "cl_nome (snd r) \<in> set (map (\<lambda>k. react_text (cliente_field r k)) keys)"
    using assms(1) by (force simp: cliente_field_def)
  then have "sublist (js_lower (cl_nome (snd r))) (js_lower (js_join '' '' (map (\<lambda>k. react_text (cliente_field r k)) keys)))"
    by (rule js_join_member_sublist)
  then have "js_includes (js_lower (js_join '' '' (map (\<lambda>k. react_text (cliente_field r k)) keys))) (js_lower t)"
    using assms(3) sublist_order.order.trans by (auto simp: js_includes_sublist)
  then show ?thesis
    using assms(2) by (simp add: clientes_filtered_def clientes_set_search_def)
qed

theorem clientes_search_finds_name_witness:
  "''nome'' \<in> set [''nome''] \<and> (0, crud_demo_cliente) \<in> set (cs_clientes (clientes_demo_state\<lparr>cs_clientes := [(0, crud_demo_cliente)]\<rparr>)) \<and>
   sublist (js_lower ''AN'') (js_lower (cl_nome (snd (0::ident, crud_demo_cliente)))) \<and>
   (0, crud_demo_cliente) \<in> set (clientes_filtered [''nome''] (clientes_set_search ''AN''
      (clientes_demo_state\<lparr>cs_clientes := [(0, crud_demo_cliente)]\<rparr>)))"
proof -
  have "sublist (js_lower ''AN'') (js_lower (cl_nome (snd (0::ident, crud_demo_cliente))))"
    unfolding crud_demo_cliente_def by code_simp
  then show ?thesis
    using clientes_search_finds_name [of "[''nome'']" "(0, crud_demo_cliente)"
        "clientes_demo_state\<lparr>cs_clientes := [(0, crud_demo_cliente)]\<rparr>" "''AN''"]
    by simp
qed

text \<open>The \<open>ultimaCompra\<close> column is blank on every row.\<close>

lemma clientes_ultima_compra_blank:
  "line \<in> set (table_body cliente_field clientes_columns xs) \<Longrightarrow> line ! 4 = []"
  by (auto simp: table_body_def clientes_columns_def table_cell_def cliente_field_def)

text \<open>
  For a new client the issues agree with the schema's verdict, and what the schema lets
  through is the form's values.
\<close>

lemma cliente_issues_new:
  "cliente_issues is_email (cliente_of_form f) = [] \<longleftrightarrow> cliente_schema is_email f \<noteq> None"
  by (auto simp: cliente_issues_def cliente_of_form_def cliente_schema_def opt_issue_def Let_def)

lemma cliente_schema_of_form:
  "cliente_schema is_email f \<noteq> None \<Longrightarrow> cliente_schema is_email f = Some (cliente_of_form f)"
  by (auto simp: cliente_schema_def cliente_of_form_def split: if_splits)

text \<open>
  Editing a client that has an optional field at \<open>null\<close> (one not created through this
  form) and saving without touching that field: the schema reports the field and nothing
  is sent.
\<close>

lemma cliente_edit_null_rejected:
  assumes "None \<in> set [cl_email c, cl_cpf c, cl_cnpj c, cl_endereco c, cl_cidade c, cl_estado c, cl_cep c]"
  shows "cliente_issues is_email c \<noteq> [] \<and>
         clientes_form_submit is_email c d s = (((d, s), cliente_issues is_email c), [])"
proof -
  have "cliente_issues is_email c \<noteq> []"
    using assms by (auto simp: cliente_issues_def opt_issue_def Let_def split: option.splits)
  then show ?thesis by (simp add: clientes_form_submit_def Let_def)
qed

lemma clientes_submit_selected:
  "cs_selected (snd (fst (clientes_submit c d s))) = cs_selected s"
  by (simp add: clientes_submit_def fetch_clientes_def del: string_of_nat.simps split: option.splits prod.splits resp.splits)

text \<open>
  The activity cards read no row's last purchase: after any refresh no client is
  active and every client is inactive.
\<close>

theorem clientes_cards_without_purchases:
  "clientes_ativos um_mes_atras (fetch_clientes d s) = 0 \<and>
   clientes_inativos (fetch_clientes d s) = length (rows (clientes d))"
  by (simp add: clientes_ativos_def clientes_inativos_def ultima_compra_def fetch_clientes_def
      clientes_list_def find_many_ordered_def)

text \<open>
  C26: the clients page can neither edit nor delete a client. Saving an edit sends a
  \<open>PUT\<close> that the route answers with 500, deleting sends a \<open>DELETE\<close> answered the same
  way; the database is unchanged and the page raises the success toast all the same.
  \<open>Novo Cliente\<close> does not clear the selection, so a "new" client entered after an edit
  is sent as a \<open>PUT\<close> too: nothing is created and the page toasts an update.
\<close>

theorem clientes_edits_lost:
  "clientes_submit c d (clientes_open_edit r s) =
     ((d, fetch_clientes d ((clientes_open_edit r s)\<lparr>cs_modal_open := False, cs_loading := False\<rparr>)),
      [ToastSuccess ''Cliente atualizado com sucesso'']) \<and>
   clientes_delete True k d s =
     ((d, fetch_clientes d s), [ToastSuccess (''Cliente exclu'' @ [CHR 0xC3, CHR 0xAD] @ ''do com sucesso'')]) \<and>
   (case fst (clientes_submit c_edit d (clientes_open_edit r s)) of (d1, s1) \<Rightarrow>
      (case clientes_submit c_new d1 (clientes_open_new s1) of ((d2, s2), ts) \<Rightarrow>
         d2 = d \<and> ts = [ToastSuccess ''Cliente atualizado com sucesso'']))"
proof (intro conjI)
  show e: "clientes_submit c d (clientes_open_edit r s) =
     ((d, fetch_clientes d ((clientes_open_edit r s)\<lparr>cs_modal_open := False, cs_loading := False\<rparr>)),
      [ToastSuccess ''Cliente atualizado com sucesso''])" for c
    by (simp add: clientes_submit_def clientes_open_edit_def cliente_id_handlers_fail del: string_of_nat.simps split: prod.splits)
  show "clientes_delete True k d s =
     ((d, fetch_clientes d s), [ToastSuccess (''Cliente exclu'' @ [CHR 0xC3, CHR 0xAD] @ ''do com sucesso'')])"
    by (simp add: clientes_delete_def cliente_id_handlers_fail del: string_of_nat.simps)
  have sel: "cs_selected (clientes_open_new (snd (fst (clientes_submit c_edit d (clientes_open_edit r s))))) = Some r"
    using clientes_submit_selected [of c_edit d "clientes_open_edit r s"]
    by (simp add: clientes_open_new_def clientes_open_edit_def)
  show "case fst (clientes_submit c_edit d (clientes_open_edit r s)) of (d1, s1) \<Rightarrow>
      (case clientes_submit c_new d1 (clientes_open_new s1) of ((d2, s2), ts) \<Rightarrow>
         d2 = d \<and> ts = [ToastSuccess ''Cliente atualizado com sucesso''])"
    using e [of c_edit] sel
    by (simp add: clientes_submit_def cliente_id_handlers_fail del: string_of_nat.simps split: prod.splits option.splits)
qed

end
