(* ===== verification/ListaPages.thy ===== *)
theory ListaPages
  imports Browser
begin

text \<open>
  The products page \<open>src/src/app/produtos/page.tsx\<close> and the sellers page
  \<open>src/src/app/vendedores/page.tsx\<close>. Both keep a list in React state, seeded with two
  hard-coded rows, and never call the API: deleting filters the list, the edit and new
  buttons open a modal whose form has no \<open>onSubmit\<close>. The two pages are one state
  machine over their row type (\<open>lista_step\<close>), instantiated with each page's rows.
\<close>

section \<open>The shared state machine\<close>

record 'r lista_state =
  ls_rows :: "'r list"
  ls_modal :: bool
  ls_editing :: "'r option"

definition lista_init :: "'r list \<Rightarrow> 'r lista_state" where
  "lista_init rs = \<lparr>ls_rows = rs, ls_modal = False, ls_editing = None\<rparr>"

text \<open>\<open>handleNovo\<close>: no row being edited, the modal open.\<close>

definition lista_novo :: "'r lista_state \<Rightarrow> 'r lista_state" where
  "lista_novo s = s\<lparr>ls_editing := None, ls_modal := True\<rparr>"

text \<open>\<open>handleEditar(row)\<close>: the row being edited, the modal open.\<close>

definition lista_editar :: "'r \<Rightarrow> 'r lista_state \<Rightarrow> 'r lista_state" where
  "lista_editar r s = s\<lparr>ls_editing := Some r, ls_modal := True\<rparr>"

text \<open>\<open>handleExcluir(id)\<close>, after \<open>confirm\<close> answered \<open>ok\<close>: every row with that id goes.\<close>

definition lista_excluir :: "('r \<Rightarrow> int) \<Rightarrow> bool \<Rightarrow> int \<Rightarrow> 'r lista_state \<Rightarrow> 'r lista_state" where
  "lista_excluir row_id ok k s = (if ok then s\<lparr>ls_rows := filter (\<lambda>r. row_id r \<noteq> k) (ls_rows s)\<rparr> else s)"

text \<open>\<open>Cancelar\<close>: \<open>setModalAberto(false)\<close>.\<close>

definition lista_cancelar :: "'r lista_state \<Rightarrow> 'r lista_state" where
  "lista_cancelar s = s\<lparr>ls_modal := False\<rparr>"

text \<open>
  \<open>Salvar\<close>: a submit button in a \<open>form\<close> with no \<open>onSubmit\<close> and no \<open>action\<close>. The
  browser submits the form by navigating to the page's own URL, which mounts the page
  again: the state is the initial one.
\<close>

definition lista_salvar :: "'r list \<Rightarrow> 'r lista_state \<Rightarrow> 'r lista_state" where
  "lista_salvar rs s = lista_init rs"

text \<open>
  The modal, rendered while \<open>modalAberto\<close>: its title (\<open>Editar\<close> while a row is being
  edited, \<open>Novo\<close> otherwise) and the \<open>defaultValue\<close> of its one input, the edited row's
  name (\<open>undefined\<close>, an empty input, otherwise).
\<close>

definition lista_modal ::
  "string \<Rightarrow> string \<Rightarrow> ('r \<Rightarrow> string) \<Rightarrow> 'r lista_state \<Rightarrow> (string \<times> string) option" where
  "lista_modal novo editar nome s =
     (if ls_modal s
      then Some (case ls_editing s of Some r \<Rightarrow> (editar, nome r) | None \<Rightarrow> (novo, []))
      else None)"

datatype 'r lista_action = Novo | Editar 'r | Excluir bool int | Cancelar | Salvar

fun lista_step :: "('r \<Rightarrow> int) \<Rightarrow> 'r list \<Rightarrow> 'r lista_action \<Rightarrow> 'r lista_state \<Rightarrow> 'r lista_state" where
  "lista_step row_id rs Novo s = lista_novo s"
| "lista_step row_id rs (Editar r) s = lista_editar r s"
| "lista_step row_id rs (Excluir ok k) s = lista_excluir row_id ok k s"
| "lista_step row_id rs Cancelar s = lista_cancelar s"
| "lista_step row_id rs Salvar s = lista_salvar rs s"

definition lista_run :: "('r \<Rightarrow> int) \<Rightarrow> 'r list \<Rightarrow> 'r lista_action list \<Rightarrow> 'r lista_state \<Rightarrow> 'r lista_state" where
  "lista_run row_id rs acts s = foldl (\<lambda>s a. lista_step row_id rs a s) s acts"

section \<open>The products page\<close>

record produto_row =
  prr_id :: int
  prr_nome :: string
  prr_categoria :: string
  prr_preco :: money
  prr_estoque :: qty
  prr_fornecedor :: string
  prr_ultimaAtualizacao :: string

text \<open>\<open>produtosIniciais\<close> (prices in cents).\<close>

definition produtos_iniciais :: "produto_row list" where
  "produtos_iniciais =
     [\<lparr>prr_id = 1, prr_nome = ''Guarda-roupa 6 Portas'', prr_categoria = ''Dormit'' @ [CHR 0xC3, CHR 0xB3] @ ''rio'',
       prr_preco = 249990, prr_estoque = 5, prr_fornecedor = ''M'' @ [CHR 0xC3, CHR 0xB3] @ ''veis Silva'',
       prr_ultimaAtualizacao = ''2024-05-10''\<rparr>,
      \<lparr>prr_id = 2, prr_nome = ''Cozinha Completa'', prr_categoria = ''Cozinha'',
       prr_preco = 399990, prr_estoque = 3, prr_fornecedor = ''Planejados Plus'',
       prr_ultimaAtualizacao = ''2024-05-09''\<rparr>]"

text \<open>
  A row of the products table: name, category, the price as
  \<open>toLocaleString('pt-BR', {style: 'currency', currency: 'BRL'})\<close>, the stock, the supplier
  and the date as stored.
\<close>

definition produto_cells :: "produto_row \<Rightarrow> string list" where
  "produto_cells p =
     [prr_nome p, prr_categoria p, to_locale_brl (prr_preco p), string_of_int (prr_estoque p),
      prr_fornecedor p, prr_ultimaAtualizacao p]"

text \<open>The table's header cells.\<close>

definition produtos_headers :: "string list" where
  "produtos_headers =
     [''Nome'', ''Categoria'', ''Pre'' @ [CHR 0xC3, CHR 0xA7] @ ''o'', ''Estoque'', ''Fornecedor'',
      [CHR 0xC3, CHR 0x9A] @ ''ltima Atualiza'' @ [CHR 0xC3, CHR 0xA7, CHR 0xC3, CHR 0xA3] @ ''o'',
      ''A'' @ [CHR 0xC3, CHR 0xA7, CHR 0xC3, CHR 0xB5] @ ''es'']"

definition produtos_modal :: "produto_row lista_state \<Rightarrow> (string \<times> string) option" where
  "produtos_modal s = lista_modal ''Novo Produto'' ''Editar Produto'' prr_nome s"

definition produtos_step :: "produto_row lista_action \<Rightarrow> produto_row lista_state \<Rightarrow> produto_row lista_state" where
  "produtos_step a s = lista_step prr_id produtos_iniciais a s"

definition produtos_run :: "produto_row lista_action list \<Rightarrow> produto_row lista_state" where
  "produtos_run acts = lista_run prr_id produtos_iniciais acts (lista_init produtos_iniciais)"

section \<open>The sellers page\<close>

record vendedor_row =
  vr_id :: int
  vr_nome :: string
  vr_email :: string
  vr_telefone :: string
  vr_comissao :: int
  vr_vendasMes :: money
  vr_metaMensal :: money
  vr_status :: string

text \<open>\<open>vendedoresIniciais\<close> (amounts in cents).\<close>

definition vendedores_iniciais :: "vendedor_row list" where
  "vendedores_iniciais =
     [\<lparr>vr_id = 1, vr_nome = ''Carlos Oliveira'', vr_email = ''carlos@moveisplus.com'',
       vr_telefone = ''(11) 97777-7777'', vr_comissao = 5, vr_vendasMes = 4500000, vr_metaMensal = 5000000,
       vr_status = ''Ativo''\<rparr>,
      \<lparr>vr_id = 2, vr_nome = ''Ana Paula Silva'', vr_email = ''ana@moveisplus.com'',
       vr_telefone = ''(11) 96666-6666'', vr_comissao = 5, vr_vendasMes = 5200000, vr_metaMensal = 5000000,
       vr_status = ''Ativo''\<rparr>]"

text \<open>
  A row of the sellers table: name, e-mail, phone, the commission with \<open>%\<close>, the month's
  sales and the monthly target in the pt-BR currency format, the status; the status
  badge is green for \<open>'Ativo'\<close> and red for anything else.
\<close>

definition vendedor_cells :: "vendedor_row \<Rightarrow> string list" where
  "vendedor_cells v =
     [vr_nome v, vr_email v, vr_telefone v, string_of_int (vr_comissao v) @ ''%'',
      to_locale_brl (vr_vendasMes v), to_locale_brl (vr_metaMensal v), vr_status v]"

definition vendedor_badge :: "vendedor_row \<Rightarrow> string" where
  "vendedor_badge v = (if vr_status v = ''Ativo'' then ''bg-green-100 text-green-800'' else ''bg-red-100 text-red-800'')"

definition vendedores_headers :: "string list" where
  "vendedores_headers =
     [''Nome'', ''Email'', ''Telefone'', ''Comiss'' @ [CHR 0xC3, CHR 0xA3] @ ''o'', ''Vendas do M'' @ [CHR 0xC3, CHR 0xAA] @ ''s'',
      ''Meta Mensal'', ''Status'', ''A'' @ [CHR 0xC3, CHR 0xA7, CHR 0xC3, CHR 0xB5] @ ''es'']"

definition vendedores_modal :: "vendedor_row lista_state \<Rightarrow> (string \<times> string) option" where
  "vendedores_modal s = lista_modal ''Novo Vendedor'' ''Editar Vendedor'' vr_nome s"

definition vendedores_step :: "vendedor_row lista_action \<Rightarrow> vendedor_row lista_state \<Rightarrow> vendedor_row lista_state" where
  "vendedores_step a s = lista_step vr_id vendedores_iniciais a s"

definition vendedores_run :: "vendedor_row lista_action list \<Rightarrow> vendedor_row lista_state" where
  "vendedores_run acts = lista_run vr_id vendedores_iniciais acts (lista_init vendedores_iniciais)"

section \<open>Properties of the two pages\<close>

lemma lista_step_subseq:
  assumes "subseq (ls_rows s) rs"
  shows "subseq (ls_rows (lista_step row_id rs a s)) rs"
proof (cases a)
  case (Excluir ok k)
  have "subseq (filter (\<lambda>r. row_id r \<noteq> k) (ls_rows s)) rs"
    using subseq_filter_left assms by (rule subseq_order.trans)
  then show ?thesis
    using Excluir assms by (simp add: lista_excluir_def)
qed (insert assms, simp_all add: lista_novo_def lista_editar_def lista_cancelar_def lista_salvar_def lista_init_def)

lemma lista_run_subseq:
  "subseq (ls_rows s) rs \<Longrightarrow> subseq (ls_rows (lista_run row_id rs acts s)) rs"
  by (induction acts arbitrary: s) (simp_all add: lista_run_def lista_step_subseq)

lemma lista_run_append:
  "lista_run row_id rs (acts @ acts') s = lista_run row_id rs acts' (lista_run row_id rs acts s)"
  by (simp add: lista_run_def)

lemma lista_run_salvar:
  "lista_run row_id rs (acts @ [Salvar]) s = lista_init rs"
  by (simp add: lista_run_append lista_run_def lista_salvar_def)

text \<open>
  The money columns of the two hard-coded lists as the tables show them:
  \<open>R$ 2.499,90\<close> and \<open>R$ 3.999,90\<close>; sales of \<open>R$ 45.000,00\<close> against a target of
  \<open>R$ 50.000,00\<close>. The inventory and quotes pages print the same kind of amount as
  \<open>R$ 2499.90\<close> (\<open>to_fixed2\<close>).
\<close>

lemma lista_money_cells:
  "map (\<lambda>p. produto_cells p ! 2) produtos_iniciais =
     [''R$'' @ [CHR 0xC2, CHR 0xA0] @ ''2.499,90'', ''R$'' @ [CHR 0xC2, CHR 0xA0] @ ''3.999,90''] \<and>
   map (\<lambda>v. (vendedor_cells v ! 4, vendedor_cells v ! 5)) vendedores_iniciais =
     [(''R$'' @ [CHR 0xC2, CHR 0xA0] @ ''45.000,00'', ''R$'' @ [CHR 0xC2, CHR 0xA0] @ ''50.000,00''),
      (''R$'' @ [CHR 0xC2, CHR 0xA0] @ ''52.000,00'', ''R$'' @ [CHR 0xC2, CHR 0xA0] @ ''50.000,00'')] \<and>
   ''R$ '' @ to_fixed2 249990 = ''R$ 2499.90''"
  by (simp add: produtos_iniciais_def vendedores_iniciais_def produto_cells_def vendedor_cells_def
      to_locale_brl_def pad3_def group_thousands.simps to_fixed2_def)

text \<open>
  \<open>Novo\<close> always opens an empty form titled \<open>Novo\<close>, even right after an edit: the
  row being edited is cleared.
\<close>

text \<open>Each table has one header cell per row cell, and one for the actions.\<close>

lemma lista_headers_match_cells:
  "length produtos_headers = length (produto_cells p) + 1 \<and>
   length vendedores_headers = length (vendedor_cells v) + 1"
  by (simp add: produtos_headers_def vendedores_headers_def produto_cells_def vendedor_cells_def)

lemma lista_modal_novo:
  "lista_modal novo editar nome (lista_step row_id rs Novo s) = Some (novo, [])"
  by (simp add: lista_modal_def lista_novo_def)

text \<open>
  The products and sellers pages keep nothing: whatever the user does, the list
  shown is a subsequence of the two hard-coded rows (no action adds or changes a row,
  and none reaches the API), and \<open>Salvar\<close> reloads the page, bringing back the
  hard-coded rows and undoing every delete.
\<close>

lemma lista_pages_not_persisted:
  "subseq (ls_rows (produtos_run acts)) produtos_iniciais \<and>
   produtos_run (acts @ [Salvar]) = lista_init produtos_iniciais \<and>
   subseq (ls_rows (vendedores_run acts')) vendedores_iniciais \<and>
   vendedores_run (acts' @ [Salvar]) = lista_init vendedores_iniciais"
  by (simp add: produtos_run_def vendedores_run_def lista_run_subseq lista_run_salvar lista_init_def)

end
