(* ===== verification/HeaderSearch.thy ===== *)
theory HeaderSearch
  imports Browser
begin

text \<open>
  The global search box of the header, \<open>src/src/components/Header.tsx\<close>. It searches a
  fixed list of three results written in the source (\<open>Simula uma busca\<close>), not the
  database: a term of fewer than two characters clears the results, a longer one keeps
  the results whose lower-cased title includes the lower-cased term. Choosing a result
  navigates to its page and clears the search.
\<close>

record search_result =
  sr_type :: string
  sr_id :: int
  sr_title :: string
  sr_subtitle :: string
  sr_href :: string

text \<open>
  The three results. The source file holds the first title as the bytes
  \<open>4A 6F C3 83 C2 A3 6F\<close>, i.e. \<open>Jo\<close>, \<open>U+00C3\<close>, \<open>U+00A3\<close>, \<open>o\<close>: the UTF-8 of
  \<open>Jo\~{a}o\<close> read once more as Latin-1.
\<close>

definition header_results_all :: "search_result list" where
  "header_results_all =
     [\<lparr>sr_type = ''cliente'', sr_id = 1, sr_title = ''Jo'' @ [CHR 0xC3, CHR 0x83, CHR 0xC2, CHR 0xA3] @ ''o Silva'',
       sr_subtitle = ''Cliente'', sr_href = ''/clientes''\<rparr>,
      \<lparr>sr_type = ''produto'', sr_id = 1, sr_title = ''Guarda-roupa 6 Portas'',
       sr_subtitle = ''Produto'', sr_href = ''/produtos''\<rparr>,
      \<lparr>sr_type = ''vendedor'', sr_id = 1, sr_title = ''Carlos Oliveira'',
       sr_subtitle = ''Vendedor'', sr_href = ''/vendedores''\<rparr>]"

record header_state =
  hs_term :: string
  hs_results :: "search_result list"
  hs_searching :: bool

definition header_init :: header_state where
  "header_init = \<lparr>hs_term = [], hs_results = [], hs_searching = False\<rparr>"

text \<open>\<open>handleSearch(term)\<close>; \<open>term.length\<close> counts UTF-16 code units (\<open>js_length\<close>).\<close>

definition header_search :: "string \<Rightarrow> header_state \<Rightarrow> header_state" where
  "header_search t s =
     (if js_length t < 2 then s\<lparr>hs_term := t, hs_results := []\<rparr>
      else s\<lparr>hs_term := t,
             hs_results := filter (\<lambda>r. js_includes (js_lower (sr_title r)) (js_lower t)) header_results_all,
             hs_searching := False\<rparr>)"

definition header_clear :: "header_state \<Rightarrow> header_state" where
  "header_clear s = s\<lparr>hs_term := [], hs_results := []\<rparr>"

text \<open>\<open>handleResultClick(result)\<close>: the route pushed, and the search cleared.\<close>

definition header_result_click :: "search_result \<Rightarrow> header_state \<Rightarrow> string \<times> header_state" where
  "header_result_click r s = (sr_href r, header_clear s)"

text \<open>
  What the header shows: the input's value, the clear button while the term is not
  empty, and the result list, title over subtitle, while there are results.
\<close>

record header_view =
  hv_value :: string
  hv_clear_button :: bool
  hv_results :: "(string \<times> string) list option"

definition header_render :: "header_state \<Rightarrow> header_view" where
  "header_render s =
     \<lparr>hv_value = hs_term s, hv_clear_button = (hs_term s \<noteq> []),
      hv_results = (if hs_results s = [] then None else Some (map (\<lambda>r. (sr_title r, sr_subtitle r)) (hs_results s)))\<rparr>"

section \<open>Properties of the search\<close>

text \<open>
  The results are always among the three written in the source, whatever the
  database holds, and a term shorter than two characters shows none.
\<close>

text \<open>After a click on a result the list and the clear button are gone.\<close>

lemma header_click_closes:
  "header_render (snd (header_result_click r s)) = \<lparr>hv_value = [], hv_clear_button = False, hv_results = None\<rparr>"
  by (simp add: header_render_def header_result_click_def header_clear_def)

lemma header_search_mock:
  "set (hs_results (header_search t s)) \<subseteq> set header_results_all \<and>
   (js_length t < 2 \<longrightarrow> hs_results (header_search t s) = [])"
  by (auto simp: header_search_def)

text \<open>
  Searching the client by name: \<open>Jo\~{a}o\<close> (\<open>4A 6F C3 A3 6F\<close>) finds nothing, since
  the title lowers to \<open>jo\<close>, \<open>C3 A3\<close>, \<open>C2 A3\<close>, \<open>o\<close>; the prefix \<open>Jo\~{a}\<close> still
  finds it, and so does \<open>Carlos\<close> the seller.
\<close>

lemma header_search_joao:
  "hs_results (header_search (''Jo'' @ [CHR 0xC3, CHR 0xA3] @ ''o'') header_init) = [] \<and>
   map sr_href (hs_results (header_search (''Jo'' @ [CHR 0xC3, CHR 0xA3]) header_init)) = [''/clientes''] \<and>
   map sr_href (hs_results (header_search ''carlos'' header_init)) = [''/vendedores'']"
  by code_simp

end
