(* ===== verification/Navigation.thy ===== *)
theory Navigation
  imports Prelude
begin

text \<open>
  The sidebar \<open>src/src/components/Sidebar.tsx\<close>: a fixed menu of links, the one whose
  \<open>href\<close> equals the current path (\<open>usePathname()\<close>) highlighted.
\<close>

record menu_item =
  mi_name :: string
  mi_href :: string

text \<open>\<open>menuItems\<close>, in order.\<close>

definition menu_items :: "menu_item list" where
  "menu_items =
     [\<lparr>mi_name = ''Dashboard'', mi_href = ''/''\<rparr>, \<lparr>mi_name = ''Clientes'', mi_href = ''/clientes''\<rparr>,
      \<lparr>mi_name = ''Produtos'', mi_href = ''/produtos''\<rparr>, \<lparr>mi_name = ''Vendedores'', mi_href = ''/vendedores''\<rparr>]"

text \<open>The rendered menu: each link's name, target and whether it is active.\<close>

definition sidebar_render :: "string \<Rightarrow> (string \<times> string \<times> bool) list" where
  "sidebar_render pathname = map (\<lambda>i. (mi_name i, mi_href i, pathname = mi_href i)) menu_items"

section \<open>Properties of the menu\<close>

text \<open>At most one link is active, and exactly one on the four menu routes.\<close>

lemma sidebar_one_active:
  "length (filter (\<lambda>(_, _, a). a) (sidebar_render p)) = (if p \<in> mi_href ` set menu_items then 1 else 0)"
  by (auto simp: sidebar_render_def menu_items_def)

text \<open>
  The inventory and quotes pages have no link: the sidebar offers no way to reach
  \<open>/estoque\<close> or \<open>/orcamentos\<close>, and nothing is highlighted there.
\<close>

lemma sidebar_misses_pages:
  "''/estoque'' \<notin> mi_href ` set menu_items \<and> ''/orcamentos'' \<notin> mi_href ` set menu_items \<and>
   list_all (\<lambda>(_, _, a). \<not> a) (sidebar_render ''/estoque'') \<and>
   list_all (\<lambda>(_, _, a). \<not> a) (sidebar_render ''/orcamentos'')"
  by (simp add: sidebar_render_def menu_items_def)

end
