(* ===== verification/Spec2Isabelle.thy ===== *)
theory Spec2Isabelle
  imports Vendas Orcamentos Crud EstoquePage OrcamentosPage ClientesPage ListaPages HeaderSearch Navigation
begin

text \<open>
  \<^bold>\<open>MoveisPlus: a verification development of its order and stock logic.\<close>

  \<^emph>\<open>The program.\<close> MoveisPlus (\<open>src/src\<close>) is a Next.js application for a furniture
  business: pages under \<open>app/*/page.tsx\<close> with forms and tables call route handlers
  under \<open>app/api/*/route.ts\<close>, which read and write a relational database through the
  Prisma ORM. The handlers for clients, materials, products and sellers are thin CRUD
  wrappers; the handlers for sales (\<open>api/vendas\<close>) and quotes (\<open>api/orcamentos\<close>)
  carry the only business logic: the total of a sale, the stock decrement when a sale is
  created, the stock restoration when it is deleted, and the delete-and-recreate update of
  a quote's nested items.

  \<^emph>\<open>How it is modelled.\<close> Every handler is a function \<open>db \<Rightarrow> resp \<times> db\<close>: it takes the
  database, returns the HTTP response (\<open>resp\<close>: \<open>Json\<close>, \<open>JsonSuccess\<close>,
  \<open>NoContent\<close>, \<open>ErrorJson status message\<close>) and the database after every ORM call it
  made. The awaited calls are composed in the order the handler issues them, so an
  exception half-way (Prisma's \<open>update\<close>/\<open>delete\<close> on a missing id, a foreign-key
  violation) leaves the effects of the earlier calls in place, exactly as the code, which
  uses no transaction, does. \<open>Promise.all\<close> over updates is modelled as all updates
  issued, each committing or rejecting on its own (\<open>apply_stock_deltas\<close>), and proved
  independent of the order the updates land in.
  \<^item> \<open>Prelude\<close>: basic types (ids as \<open>nat\<close>; quantities and money as \<open>int\<close>, money in
    cents so that totals are exact), rule collections, association-list and sum lemmas.
  \<^item> \<open>Store\<close>: a Prisma table as an association list plus the next id; \<open>find_unique\<close>,
    \<open>find_many_ordered\<close>, \<open>create\<close>, \<open>update\<close>, \<open>delete\<close>, \<open>delete_many\<close>,
    \<open>create_all\<close>, with their well-formedness (\<open>wf_table\<close>) and their refinement of a
    partial map (\<open>lookup_create\<close>, \<open>lookup_update\<close>, \<open>lookup_delete\<close>). The ORM is not
    part of the repository; these follow the spec's Entity Store and Prisma's documented
    behaviour.
  \<^item> \<open>Entities\<close>: one record per model (\<open>cliente\<close>, \<open>material\<close>, \<open>produto\<close>,
    \<open>vendedor\<close>, \<open>venda\<close>, \<open>venda_item\<close>, \<open>orcamento\<close>, \<open>orcamento_item\<close>,
    \<open>orcamento_material\<close>), the database record \<open>db\<close>, and the integrity invariant
    \<open>db_ok\<close> (tables well formed, every foreign key resolves). The Prisma schema is not
    in the sources, so the referential action of required relations is a parameter
    (\<open>on_delete\<close>: \<open>Restrict\<close>, Prisma's default, or \<open>Cascade\<close>).
  \<^item> \<open>Vendas\<close>: \<open>api/vendas/route.ts\<close> (\<open>vendas_list\<close>, \<open>venda_post\<close>) and
    \<open>api/vendas/[id]/route.ts\<close> (\<open>venda_get\<close>, \<open>venda_put\<close>, \<open>venda_delete\<close>), with
    the total (\<open>venda_total\<close>), the nested create (\<open>create_venda\<close>) and the stock
    updates.
  \<^item> \<open>Orcamentos\<close>: \<open>api/orcamentos/route.ts\<close> (\<open>orcamentos_list\<close>,
    \<open>orcamento_post\<close>) and \<open>api/orcamentos/[id]/route.ts\<close> (\<open>orcamento_get\<close>,
    \<open>orcamento_put\<close>, \<open>orcamento_delete\<close>): the body's \<open>itens.map\<close> as
    \<open>build_itens\<close> (\<open>None\<close> is the \<open>TypeError\<close> of a missing array), the nested
    create of items and their materials (\<open>create_itens\<close>, \<open>write_itens\<close>), the two
    \<open>deleteMany\<close> calls (\<open>delete_orc_materiais\<close>, \<open>delete_orc_itens\<close>), and what
    \<open>include\<close> returns (\<open>itens_view\<close>). Fresh rows get fresh ids, so items are compared
    with a payload through \<open>mat_view\<close> and \<open>payload_view\<close>, which forget the row ids.
  \<^item> \<open>Crud\<close>: \<open>api/clientes\<close>, \<open>api/materials\<close>, \<open>api/produtos\<close>, \<open>api/vendedores\<close>
    (\<open>*_list\<close>, \<open>*_post\<close>, \<open>*_get\<close>, \<open>*_put\<close>, \<open>*_delete\<close>) over the shared
    \<open>crud_post\<close>, \<open>crud_get\<close>, \<open>crud_put\<close>; each delete (\<open>delete_*_row\<close>) applies the
    referential action to the rows that refer to the deleted one (\<open>drop_vendas\<close>,
    \<open>drop_orcamentos\<close> for the cascade chains). The value a route gives for an id is
    \<open>id_arg\<close>: the product, seller and sale routes pass \<open>parseInt(params.id)\<close>, the
    client routes the string \<open>params.id\<close>, which Prisma's validation of an \<open>Int\<close> id
    refuses (\<open>where_id\<close>), so the client \<open>[id]\<close> handlers take the path segment and
    answer 500.
  \<^item> \<open>Table\<close>: the selection logic of the shared table component
    \<open>components/Table.tsx\<close> (\<open>select_all\<close>, \<open>select_row\<close>, \<open>all_selected\<close>,
    \<open>row_checked\<close>), a click on a checkbox (\<open>click_selection\<close>) and the selections
    clicks can reach (\<open>selection_reachable\<close>).
  \<^item> \<open>TableRender\<close>: the rendering half of the same component: a row's values
    (\<open>jsval\<close>) read by key, how React prints them (\<open>react_text\<close>), the columns
    (\<open>column\<close>) and the cells (\<open>table_cell\<close>, \<open>table_body\<close>: a column's
    \<open>render\<close> or the raw value).
  \<^item> \<open>Browser\<close>: what the pages take from the runtime: toasts, and
    \<open>toLowerCase\<close>/\<open>includes\<close> on UTF-8 strings (\<open>js_lower\<close>, \<open>js_includes\<close>).
    \<open>length\<close> (\<open>js_length\<close>, UTF-16 code units) and \<open>toFixed(2)\<close> on amounts in
    cents (\<open>to_fixed2\<close>), \<open>join\<close> (\<open>js_join\<close>), the pt-BR currency format of
    \<open>toLocaleString\<close> (\<open>to_locale_brl\<close>, thousands grouped by \<open>group_thousands\<close>),
    and React's render and effect loop for a component with one \<open>useEffect\<close>
    (\<open>react_commit\<close>, \<open>react_mount\<close>). These are not in the repository and follow
    the ECMAScript and Internationalization specifications and React's documented
    behaviour.
  \<^item> \<open>EstoquePage\<close>: the inventory page \<open>app/estoque/page.tsx\<close> and its form
    \<open>MaterialForm.tsx\<close>: the page state as a record (\<open>estoque_state\<close>, one field per
    \<open>useState\<close>), the schema (\<open>material_schema\<close>), the status column and the three
    cards (\<open>material_status\<close>, \<open>total_itens\<close>, \<open>itens_abaixo\<close>,
    \<open>valor_total\<close>), the displayed rows (\<open>filtered_materials\<close>) and each handler
    (\<open>estoque_submit\<close>, \<open>estoque_delete\<close>, \<open>estoque_bulk_delete\<close>, the modal and
    filter buttons) as a function of the database and the page state that returns both
    and the toasts raised; the mount effect (\<open>estoque_mount\<close>), the table's columns
    (\<open>estoque_columns\<close>), the form's issues and submit (\<open>material_schema_errors\<close>,
    \<open>material_form_submit\<close>) and the modal (\<open>estoque_form_submit\<close>). The API
    calls are the \<open>Crud\<close> handlers; \<open>fetch\<close> resolves for every status, so the page
    sees no error responses.
  \<^item> \<open>OrcamentoForm\<close>: the quote form \<open>app/orcamentos/components/OrcamentoForm.tsx\<close>:
    its items in React state (\<open>orc_form_state\<close>), \<open>handleAddItem\<close>,
    \<open>handleRemoveItem\<close>, \<open>handleItemChange\<close> with its stock guard
    (\<open>handle_item_change\<close>), the total, \<open>validateForm\<close> (the stock check, then the zod
    issues, \<open>validate_form\<close>) and \<open>handleSubmit\<close> (\<open>orc_form_submit\<close>), whose
    \<open>onSubmit\<close> is a parameter over any world; \<open>form_reachable\<close> is the inductive set
    of states the user's edits reach; \<open>orc_form_render\<close> is what the form renders, or
    the \<open>TypeError\<close> its render throws when \<open>clientes\<close> or \<open>produtos\<close> is missing.
  \<^item> \<open>OrcamentosPage\<close>: the quotes page \<open>app/orcamentos/page.tsx\<close> and its modal: the
    page state, the status cards and filter, the modal buttons, the body the route reads
    of the form's payload (\<open>orcamento_body\<close>), the page's \<open>handleSubmit\<close>
    (\<open>orcamentos_submit\<close>, the form's \<open>onSubmit\<close> over the database and the page
    state); the mount effect, the
    search over the included client and the number (\<open>filtered_orcamentos\<close>), the
    approved-value card (\<open>orc_total_value\<close>), the columns (\<open>orc_columns\<close>, with the
    date format a parameter) and the modal's render (\<open>orcamentos_modal_render\<close>).
    The list rows carry the client the route includes.
  \<^item> \<open>ClientesPage\<close>: the clients page \<open>app/clientes/page.tsx\<close>: its state, the
    handlers over the clients API (\<open>clientes_submit\<close>, \<open>clientes_delete\<close>), the modal
    buttons, the activity cards, and the schema of \<open>ClienteForm.tsx\<close>
    (\<open>cliente_schema\<close>, zod's email check a parameter); the mount effect, the
    columns, the search over \<open>Object.values\<close> with the schema's key order a parameter
    (\<open>clientes_filtered\<close>), and the form's issues on the new and the edit path
    (\<open>cliente_issues\<close>, \<open>clientes_form_submit\<close>).
  \<^item> \<open>ListaPages\<close>: the products and sellers pages (\<open>app/produtos/page.tsx\<close>,
    \<open>app/vendedores/page.tsx\<close>), one state machine \<open>lista_step\<close> over the row type,
    with each page's hard-coded rows; the table rows (\<open>produto_cells\<close>,
    \<open>vendedor_cells\<close>, money in the pt-BR currency format) and the modal.
  \<^item> \<open>HeaderSearch\<close>: the global search of \<open>components/Header.tsx\<close>
    (\<open>header_search\<close>, \<open>header_clear\<close>, \<open>header_result_click\<close>) and what it
    renders (\<open>header_render\<close>).
  \<^item> \<open>Navigation\<close>: the sidebar \<open>components/Sidebar.tsx\<close>, its menu and the link
    highlighted for the current path (\<open>sidebar_render\<close>).
  \<^item> This theory: the \<open>request\<close> datatype of every state-changing route, \<open>serve\<close>
    dispatching a request to its handler, \<open>serve_all\<close> for a sequence of requests, and
    \<open>reachable\<close>, the databases reachable from an empty one. A client's \<open>PUT\<close> and
    \<open>DELETE\<close> request carries the path segment as a string.

  \<^emph>\<open>What is proved (sales).\<close> The stored total is \<open>\<Sum> quantidade \<times> precoUnit\<close> and the
  stored items are the payload's (C1); each product's stock drops by the quantity sold,
  with no availability check, so stock can go negative, a divergence from spec section
  4.2 (C2; the concrete run is \<open>venda_post_overdraws\<close>); a request with a missing
  client, seller or product answers 500 and changes nothing (C3); under \<open>Cascade\<close>,
  delete after create restores the database exactly (C4); under \<open>Restrict\<close>, delete
  restores stock and then fails, so retries restore it again (C5); \<open>PUT\<close> changes only
  the status and answers 500 for a missing id (C6). The sale handlers keep \<open>db_ok\<close>
  (\<open>venda_handlers_preserve_db_ok\<close>) and the order of the line items does not matter
  (\<open>venda_post_item_order\<close>).

  \<^emph>\<open>What is proved (quotes).\<close> A quote \<open>PUT\<close> with a complete payload answers what
  \<open>GET\<close> then returns and the quote's items are exactly the payload's, the replace
  semantics of spec section 4.3 (C7); \<open>POST\<close> then \<open>GET\<close> returns the payload (C8); a
  \<open>PUT\<close> whose body lacks \<open>itens\<close>, as the quote form's does, answers 500 after deleting
  every item of the quote (C9, a divergence from the all-or-nothing update the spec
  requires); \<open>POST\<close> fails without effect exactly on a missing array, date, client or
  material (C10); \<open>DELETE\<close> removes one quote and its rows and nothing of the others
  (C11); a missing id gives 404 on \<open>GET\<close> but 500 on \<open>PUT\<close> and \<open>DELETE\<close> (C12);
  quotes never change materials or products (C13). The quote handlers keep \<open>db_ok\<close>
  (\<open>orcamento_handlers_preserve_db_ok\<close>).

  \<^emph>\<open>What is proved (CRUD resources and the whole application).\<close> \<open>POST\<close> answers the
  posted row under the next id, and \<open>GET\<close> then returns it for materials, products and
  sellers, but a client cannot be read back (C14); the client \<open>[id]\<close> routes answer 500
  and change nothing for every id, while for a missing id the other resources answer
  404 on \<open>GET\<close> and 500 on \<open>PUT\<close>/\<open>DELETE\<close> (C15); lists are complete and sorted by
  name (\<open>crud_lists_sorted\<close>); under \<open>Cascade\<close> deleting a sold product leaves sales
  whose totals no longer match their items (C16). Every database reachable by any
  sequence of requests satisfies \<open>db_ok\<close> (\<open>reachable_db_ok\<close>, by rule induction on
  \<open>reachable\<close> from the per-handler preservation lemmas of each theory).

  \<^emph>\<open>What is proved (the inventory page).\<close> The low-stock card counts the rows whose
  status reads \<open>Baixo\<close> (C17); the page keeps the materials table valid, a type
  invariant the server itself does not check (C18); the value card is
  \<open>\<Sum> price \<times> quantity\<close> (\<open>valor_total_sum\<close>); the schema accepts exactly the forms
  of valid materials whose description is a string, so the edit form of a material
  with a \<open>null\<close> description is refused (C19); a submit leaves the table showing the
  saved material (C20) but raises the success toast also when the server answered 500
  (C21); the bulk delete removes every selected material, also those the filter hides
  (C22), and its concurrent requests commute (\<open>bulk_delete_order\<close>); the search ignores
  case (\<open>filtered_search_case_insensitive\<close>); whatever the selection, two header
  clicks at most select every row (C23); the header checkbox is right on the selections
  clicks reach over a fixed list (C24) but stale after a filter change
  (\<open>estoque_header_stale\<close>); the table shows each material's fields with the status
  and the formatted price (\<open>estoque_table_lines\<close>); the form's issues agree with its
  schema (\<open>material_schema_errors_iff\<close>).

  \<^emph>\<open>What is proved (the clients page).\<close> Saving an edit and deleting a client change
  nothing, since the \<open>[id]\<close> routes answer 500, yet the page toasts success; and as
  \<open>Novo Cliente\<close> does not clear the selection, a new client entered after an edit is
  sent as a \<open>PUT\<close> too and none is created (C26). Whatever the schema's key order, a
  part of a client's name in any case finds the client (C27). The activity cards read a
  field the API rows lack (\<open>clientes_cards_without_purchases\<close>), and that column is
  blank in the table (\<open>clientes_ultima_compra_blank\<close>); the issues of a new client
  agree with the schema (\<open>cliente_issues_new\<close>), and an edited client with a
  \<open>null\<close> field is refused untouched (\<open>cliente_edit_null_rejected\<close>).

  \<^emph>\<open>What is proved (the quote form and page).\<close> From an empty form every edit keeps each
  row's quantity between 1 and its product's stock (C28, rule induction on
  \<open>form_reachable\<close>); but the guard is per row, so two rows of one product can together
  exceed its stock and still pass validation (\<open>form_stock_check_per_item\<close>); the
  quotes modal passes the form no \<open>clientes\<close> or \<open>produtos\<close>, so whenever it is
  open and not loading the form's render throws (C25); the payload the page would send
  has \<open>items\<close> and no date, so \<open>POST\<close> answers 500 and writes nothing and \<open>PUT\<close>
  deletes the quote's items (\<open>orcamento_post_body\<close>, \<open>orcamento_put_body\<close>);
  the page's cards and filter use upper-case statuses the form never produces (C29);
  the approved-value card sums a \<open>valorTotal\<close> no handler writes, so it reads
  \<open>R$ 0.00\<close> (\<open>orc_total_unwritten\<close>); the search finds a quote by part of its
  client's name in any case (\<open>orc_search_finds_client\<close>) but by its number only as
  typed (\<open>orc_search_numero_case\<close>).

  \<^emph>\<open>What is proved (mounting the pages).\<close> The inventory, clients and quotes pages load
  their list in \<open>useEffect(..., [])\<close>; each mount comes to rest after the one fetch and
  two renders (\<open>pages_mount_settle\<close>, from \<open>react_mount_const_deps\<close>, termination of
  \<open>react_commit\<close> for a constant dependency array), whereas an effect without its
  dependency array and a state change on every run never returns
  (\<open>react_commit_no_deps_diverges\<close>).

  \<^emph>\<open>What is proved (the products and sellers pages, the header).\<close> Whatever the
  user does, the list is a subsequence of the two hard-coded rows, and \<open>Salvar\<close>
  reloads the page, which mounts again with those rows
  (\<open>lista_pages_not_persisted\<close>); the header search only ever shows the
  three results written in its source, and misses \<open>Jo\~{a}o\<close>, whose title is
  mis-encoded there (\<open>header_search_joao\<close>). The two tables show money as
  \<open>R$ 2.499,90\<close> where the other pages print \<open>R$ 2499.90\<close>
  (\<open>lista_money_cells\<close>); the dots only group the digits
  (\<open>group_thousands_digits\<close>). The sidebar links neither \<open>/estoque\<close> nor \<open>/orcamentos\<close>
  (\<open>sidebar_misses_pages\<close>).

  \<^emph>\<open>Bounds and fuel.\<close> No loop of the program needs fuel: every recursion in the model is
  structural over a list (the items of a request, the rows of a table) or on a number
  that \<open>div\<close> shrinks (\<open>string_of_nat\<close>, \<open>group_thousands\<close>). The one loop that
  may not stop, React's commit loop, is a \<open>partial_function (option)\<close> whose
  \<open>None\<close> is divergence; that the pages' mounts return is proved as \<open>Some\<close>. The
  quote form's \<open>handleItemChange\<close> returns \<open>None\<close> for an index past its rows, which
  no row on screen passes: the source throws there or writes a partial row past the end.

  \<^emph>\<open>What is not modelled.\<close> The components the pages import from
  \<open>@/components/Modal\<close>, \<open>Button\<close> and \<open>Input\<close> and the Prisma client
  \<open>@/lib/prisma\<close> are not in the sources: the modal is taken to show its title and
  children while open, the ORM follows the spec's Entity Store. The placeholder
  rows of the clients page's first render are kept as data of their own interface
  (\<open>clientes_iniciais\<close>); the mount fetch replaces them. Not modelled: dates (\<open>toLocaleDateString\<close>
  depends on the time zone and is a parameter of the quotes table); class names,
  markup and the sidebar, the cards' layout and the static dashboard
  (\<open>app/page.tsx\<close>), which change no data; logging; development mode's double
  effects; floating-point rounding of prices (money is exact, in cents). Prisma's
  validation of a \<open>create\<close> or \<open>update\<close> body (unknown or mistyped fields) is not
  modelled: a \<open>POST\<close>/\<open>PUT\<close> body of the CRUD routes is taken to be a row of the
  model's type. Requests are served one at a time: the interleaving of concurrent
  requests (two sales racing on one product's stock) is not modelled, only the order in
  which one handler's own \<open>Promise.all\<close> updates land.
\<close>

section \<open>Requests over the whole application\<close>

text \<open>
  The state-changing requests of every resource, served one after another; \<open>GET\<close>
  requests do not change the database and are left out. A client's \<open>PUT\<close> and
  \<open>DELETE\<close> carry the path segment as the route receives it.
\<close>

datatype request =
    VendaPost int venda_in | VendaPut ident string | VendaDelete ident
  | OrcamentoPost orcamento_in | OrcamentoPut ident orcamento_in | OrcamentoDelete ident
  | ClientePost cliente | ClientePut string cliente | ClienteDelete string
  | MaterialPost material | MaterialPut ident material | MaterialDelete ident
  | ProdutoPost produto | ProdutoPut ident produto | ProdutoDelete ident
  | VendedorPost vendedor | VendedorPut ident vendedor | VendedorDelete ident

fun serve :: "request \<Rightarrow> db \<Rightarrow> db" where
  "serve (VendaPost now v) d = snd (venda_post now v d)"
| "serve (VendaPut k st) d = snd (venda_put k st d)"
| "serve (VendaDelete k) d = snd (venda_delete k d)"
| "serve (OrcamentoPost v) d = snd (orcamento_post v d)"
| "serve (OrcamentoPut k v) d = snd (orcamento_put k v d)"
| "serve (OrcamentoDelete k) d = snd (orcamento_delete k d)"
| "serve (ClientePost c) d = snd (cliente_post c d)"
| "serve (ClientePut k c) d = snd (cliente_put k c d)"
| "serve (ClienteDelete k) d = snd (cliente_delete k d)"
| "serve (MaterialPost m) d = snd (material_post m d)"
| "serve (MaterialPut k m) d = snd (material_put k m d)"
| "serve (MaterialDelete k) d = snd (material_delete k d)"
| "serve (ProdutoPost p) d = snd (produto_post p d)"
| "serve (ProdutoPut k p) d = snd (produto_put k p d)"
| "serve (ProdutoDelete k) d = snd (produto_delete k d)"
| "serve (VendedorPost s) d = snd (vendedor_post s d)"
| "serve (VendedorPut k s) d = snd (vendedor_put k s d)"
| "serve (VendedorDelete k) d = snd (vendedor_delete k d)"

definition serve_all :: "request list \<Rightarrow> db \<Rightarrow> db" where
  "serve_all rs d = foldl (\<lambda>d r. serve r d) d rs"

inductive reachable :: "ref_action \<Rightarrow> db \<Rightarrow> bool" for a where
  init: "reachable a (empty_db a)"
| step: "reachable a d \<Longrightarrow> reachable a (serve r d)"

section \<open>Properties across components\<close>

lemma serve_db_ok: "db_ok d \<Longrightarrow> db_ok (serve r d)"
  by (cases r) (simp_all add: venda_post_db_ok venda_put_db_ok venda_delete_db_ok
      db_ok_orcamento_post db_ok_orcamento_put db_ok_orcamento_delete db_ok_cliente_handlers
      db_ok_material_handlers db_ok_produto_handlers db_ok_vendedor_handlers)

lemma on_delete_venda:
  "on_delete (snd (venda_post now v d)) = on_delete d"
  "on_delete (snd (venda_put k st d)) = on_delete d"
  "on_delete (snd (venda_delete k d)) = on_delete d"
  by (auto simp: venda_post_def create_venda_def venda_put_def venda_delete_def delete_venda_row_def Let_def
      split: sum.splits option.splits prod.splits if_splits)

lemma on_delete_orcamento:
  "on_delete (snd (orcamento_post q d)) = on_delete d"
  "on_delete (snd (orcamento_put k q d)) = on_delete d"
  "on_delete (snd (orcamento_delete k d)) = on_delete d"
  by (auto simp: orcamento_post_def orcamento_put_def orcamento_delete_def create_orcamento_def
      update_orcamento_def write_itens_def delete_orc_itens_def delete_orc_row_def delete_orc_materiais_def
      Let_def split: sum.splits option.splits prod.splits if_splits)

lemma on_delete_serve: "on_delete (serve r d) = on_delete d"
  by (cases r) (auto simp: on_delete_venda on_delete_orcamento cliente_post_def cliente_put_def
      cliente_delete_def material_post_def material_put_def material_delete_def produto_post_def
      produto_put_def produto_delete_def vendedor_post_def vendedor_put_def vendedor_delete_def
      delete_cliente_row_def delete_material_row_def delete_produto_row_def delete_vendedor_row_def
      drop_vendas_def drop_orcamentos_def where_id_def Let_def split: sum.splits prod.splits if_splits)

lemma reachable_serve_all: "reachable a d \<Longrightarrow> reachable a (serve_all rs d)"
  by (induction rs arbitrary: d) (simp_all add: serve_all_def reachable.step)

lemma reachable_iff_requests: "reachable a d \<longleftrightarrow> (\<exists>rs. d = serve_all rs (empty_db a))"
proof
  assume "reachable a d"
  then show "\<exists>rs. d = serve_all rs (empty_db a)"
  proof (induction rule: reachable.induct)
    case init
    show ?case by (rule exI [of _ "[]"]) (simp add: serve_all_def)
  next
    case (step d r)
    then obtain rs where "d = serve_all rs (empty_db a)" by blast
    then show ?case by (intro exI [of _ "rs @ [r]"]) (simp add: serve_all_def)
  qed
next
  assume "\<exists>rs. d = serve_all rs (empty_db a)"
  then show "reachable a d"
    using reachable_serve_all [OF reachable.init] by blast
qed

text \<open>
  Every database the application can reach from an empty one, by any sequence of
  requests to the state-changing handlers of all resources, satisfies the integrity
  invariant \<open>db_ok\<close>, and the referential action never changes.
\<close>

lemma reachable_db_ok:
  assumes "reachable a d"
  shows "db_ok d \<and> on_delete d = a"
  using assms
proof (induction rule: reachable.induct)
  case init
  show ?case using db_ok_empty [of a] by (simp add: empty_db_def)
next
  case (step d r)
  then show ?case by (simp add: serve_db_ok on_delete_serve)
qed

text \<open>
  C16. Under \<open>Cascade\<close>, \<open>DELETE /api/produtos/[id]\<close> on a product that was sold
  succeeds, keeps every sale with its stored total, and silently removes the product's
  line items from each sale, so a sale's total no longer matches its items (spec
  section 7 leaves the policy open).
\<close>

theorem produto_delete_cascade_sales:
  assumes "on_delete d = Cascade" "has_id (produtos d) p"
  shows "fst (produto_delete p d) = JsonSuccess \<and> vendas (snd (produto_delete p d)) = vendas d \<and>
         (\<forall>s. venda_items_of s (snd (produto_delete p d)) = filter (\<lambda>i. vi_produtoId i \<noteq> p) (venda_items_of s d))"
  using assms
  by (auto simp: produto_delete_def delete_produto_row_def delete_def venda_items_of_def select_def
      delete_many_def conj_commute case_prod_unfold filter_map comp_def)

theorem produto_delete_cascade_sales_witness:
  "v_total (the (lookup (vendas (snd (produto_delete 0 (crud_demo_db Cascade)))) 0)) = 120000 \<and>
   venda_items_of 0 (snd (produto_delete 0 (crud_demo_db Cascade))) = []"
proof -
  have "on_delete (crud_demo_db Cascade) = Cascade" "has_id (produtos (crud_demo_db Cascade)) 0"
    by (simp_all add: crud_demo_db_def empty_db_def has_id_def)
  from produto_delete_cascade_sales [OF this] show ?thesis
    by (simp add: crud_demo_db_def venda_items_of_def select_def lookup_def)
qed

text \<open>
  The three pages that load data on mount come to rest: the effect of
  \<open>useEffect(fetch..., [])\<close> runs once, its \<open>setState\<close> causes one more render, and the
  unchanged empty dependency array keeps the effect from running again, so each mount
  ends after two renders with the server's list. Without the array the effect would run
  after every commit and the page would fetch forever (\<open>react_commit_no_deps_diverges\<close>).
\<close>

lemma pages_mount_settle:
  "estoque_mount d = Some (fetch_materials d estoque_init, 2) \<and>
   clientes_mount d s0 = Some (fetch_clientes d s0, 2) \<and>
   orcamentos_mount d = Some (fetch_orcamentos d orcamentos_init, 2)"
  by (simp add: estoque_mount_def clientes_mount_def orcamentos_mount_def estoque_effect_deps_def
      clientes_effect_deps_def orcamentos_effect_deps_def estoque_mount_effect_def clientes_mount_effect_def
      orcamentos_mount_effect_def react_mount_const_deps materials_list_def clientes_list_def orcamentos_list_def)

end
